theory Spec2Isabelle
  imports Complex_Main
begin

section \<open>Values of the JavaScript run time\<close>

text \<open>
  The services are TypeScript. A JavaScript \<open>number\<close> is an IEEE 754 double: a finite
  value, \<open>Infinity\<close>, \<open>-Infinity\<close> or \<open>NaN\<close> (type \<open>number\<close> below). A number that
  the code only passes on, such as a price that a provider returned, is modelled as the
  \<open>real\<close> it denotes (a finite number). Where the code computes, the exact result is
  rounded to the nearest double, as the operators of JavaScript do. An exception is a
  value of type \<open>error\<close>, and a function that can throw returns \<open>error + 'a\<close>.
\<close>

datatype error = TypeError

text \<open>
  What a property read such as \<open>_result.from\<close> can yield on the objects of this
  program: \<open>undefined\<close> (no such property), a string, or an object literal.
\<close>

datatype jsval = JSUndefined | JSString string | JSObject

text \<open>
  \<open>`${v || ''}`\<close>: a falsy value (\<open>undefined\<close>, the empty string) gives the empty
  string; a string gives itself; a plain object is converted by
  \<open>Object.prototype.toString\<close>.
\<close>

fun or_empty :: "jsval \<Rightarrow> string" where
  "or_empty JSUndefined = ''''"
| "or_empty (JSString s) = s"
| "or_empty JSObject = ''[object Object]''"

text \<open>
  \<open>Array.prototype.reduce\<close> without an initial value: the first element starts the
  accumulator; on an empty array it throws a TypeError.
\<close>

fun reduce :: "('a \<Rightarrow> 'a \<Rightarrow> 'a) \<Rightarrow> 'a list \<Rightarrow> error + 'a" where
  "reduce f [] = Inl TypeError"
| "reduce f (x # xs) = Inr (foldl f x xs)"

subsection \<open>Numbers\<close>

text \<open>
  A \<open>number\<close>: a finite value or one of the special values of IEEE arithmetic. The
  sign of zero is not modelled (a division by zero takes the zero as positive).
\<close>

datatype number = Finite real | PosInfinity | NegInfinity | NaN

subsection \<open>Rounding to a double\<close>

text \<open>
  The number of binary digits of a natural number.
\<close>

fun bit_length :: "nat \<Rightarrow> nat" where
  "bit_length n = (if n = 0 then 0 else Suc (bit_length (n div 2)))"

declare bit_length.simps [simp del]

text \<open>
  For a positive real \<open>a\<close>, \<open>exponent a\<close> is the integer \<open>e\<close> such that \<open>a\<close> is at
  least \<open>2^e\<close> and less than \<open>2^(e + 1)\<close>: one less than the number of binary digits
  of the integer part of \<open>a\<close> when \<open>a\<close> is 1 or more, and otherwise the negative of the
  number of binary digits of the least integer that is \<open>1 / a\<close> or more, less one.
  \<open>pow2 k\<close> is \<open>2^k\<close> for an integer \<open>k\<close>.
\<close>

definition exponent :: "real \<Rightarrow> int" where
  "exponent a =
     (if 1 \<le> a then int (bit_length (nat \<lfloor>a\<rfloor>)) - 1
      else - int (bit_length (nat (\<lceil>1 / a\<rceil> - 1))))"

definition pow2 :: "int \<Rightarrow> real" where
  "pow2 k = (if 0 \<le> k then 2 ^ nat k else 1 / 2 ^ nat (- k))"

text \<open>The integer nearest to \<open>q\<close>; of two that are equally near, the even one.\<close>

definition round_half_even :: "real \<Rightarrow> int" where
  "round_half_even q =
     (if q - of_int \<lfloor>q\<rfloor> < 1 / 2 then \<lfloor>q\<rfloor>
      else if 1 / 2 < q - of_int \<lfloor>q\<rfloor> then \<lfloor>q\<rfloor> + 1
      else if even \<lfloor>q\<rfloor> then \<lfloor>q\<rfloor> else \<lfloor>q\<rfloor> + 1)"

text \<open>
  A double has a significand of 53 binary digits and an exponent from -1022 to 1023:
  between \<open>2^e\<close> and \<open>2^(e + 1)\<close> the doubles are the multiples of \<open>2^(e - 52)\<close>, and
  below \<open>2^(-1022)\<close> they are the multiples of \<open>2^(-1074)\<close>. \<open>round_double x\<close> is the
  multiple nearest to \<open>x\<close>, a tie going to the even multiple (the rounding mode of
  JavaScript). \<open>to_double x\<close> is the number that results: a rounded value of \<open>2^1024\<close>
  or more is \<open>Infinity\<close>.
\<close>

definition round_positive :: "real \<Rightarrow> real" where
  "round_positive a =
     (let u = pow2 (max (exponent a) (- 1022) - 52)
      in of_int (round_half_even (a / u)) * u)"

definition round_double :: "real \<Rightarrow> real" where
  "round_double x =
     (if x = 0 then 0 else if 0 < x then round_positive x else - round_positive (- x))"

definition to_double :: "real \<Rightarrow> number" where
  "to_double x =
     (if 2 ^ 1024 \<le> round_double x then PosInfinity
      else if round_double x \<le> - (2 ^ 1024) then NegInfinity
      else Finite (round_double x))"

subsection \<open>Arithmetic\<close>

text \<open>The operators \<open>+\<close>, \<open>-\<close>, \<open>*\<close> and \<open>/\<close> on numbers.\<close>

fun js_plus :: "number \<Rightarrow> number \<Rightarrow> number" where
  "js_plus (Finite a) (Finite b) = to_double (a + b)"
| "js_plus NaN y = NaN"
| "js_plus x NaN = NaN"
| "js_plus PosInfinity NegInfinity = NaN"
| "js_plus NegInfinity PosInfinity = NaN"
| "js_plus PosInfinity y = PosInfinity"
| "js_plus NegInfinity y = NegInfinity"
| "js_plus (Finite a) PosInfinity = PosInfinity"
| "js_plus (Finite a) NegInfinity = NegInfinity"

fun js_minus :: "number \<Rightarrow> number \<Rightarrow> number" where
  "js_minus (Finite a) (Finite b) = to_double (a - b)"
| "js_minus NaN y = NaN"
| "js_minus x NaN = NaN"
| "js_minus PosInfinity PosInfinity = NaN"
| "js_minus NegInfinity NegInfinity = NaN"
| "js_minus PosInfinity y = PosInfinity"
| "js_minus NegInfinity y = NegInfinity"
| "js_minus (Finite a) PosInfinity = NegInfinity"
| "js_minus (Finite a) NegInfinity = PosInfinity"

fun js_times :: "number \<Rightarrow> number \<Rightarrow> number" where
  "js_times (Finite a) (Finite b) = to_double (a * b)"
| "js_times NaN y = NaN"
| "js_times x NaN = NaN"
| "js_times PosInfinity (Finite b) = (if b = 0 then NaN else if 0 < b then PosInfinity else NegInfinity)"
| "js_times NegInfinity (Finite b) = (if b = 0 then NaN else if 0 < b then NegInfinity else PosInfinity)"
| "js_times (Finite a) PosInfinity = (if a = 0 then NaN else if 0 < a then PosInfinity else NegInfinity)"
| "js_times (Finite a) NegInfinity = (if a = 0 then NaN else if 0 < a then NegInfinity else PosInfinity)"
| "js_times PosInfinity PosInfinity = PosInfinity"
| "js_times NegInfinity NegInfinity = PosInfinity"
| "js_times PosInfinity NegInfinity = NegInfinity"
| "js_times NegInfinity PosInfinity = NegInfinity"

fun js_divide :: "number \<Rightarrow> number \<Rightarrow> number" where
  "js_divide (Finite a) (Finite b) =
     (if b \<noteq> 0 then to_double (a / b)
      else if 0 < a then PosInfinity else if a < 0 then NegInfinity else NaN)"
| "js_divide NaN y = NaN"
| "js_divide x NaN = NaN"
| "js_divide (Finite a) y = Finite 0"
| "js_divide PosInfinity (Finite b) = (if 0 \<le> b then PosInfinity else NegInfinity)"
| "js_divide NegInfinity (Finite b) = (if 0 \<le> b then NegInfinity else PosInfinity)"
| "js_divide x y = NaN"

text \<open>
  \<open>Math.round\<close> rounds to the nearest integer, a half upwards, and leaves the special
  values as they are; the integer nearest to a double is a double. \<open>Math.max(...xs)\<close>
  of no argument is \<open>-Infinity\<close>.
\<close>

fun Math_round :: "number \<Rightarrow> number" where
  "Math_round (Finite x) = Finite (of_int \<lfloor>x + 1 / 2\<rfloor>)"
| "Math_round x = x"

fun Math_max :: "real list \<Rightarrow> number" where
  "Math_max [] = NegInfinity"
| "Math_max (x # xs) = Finite (foldl max x xs)"

subsection \<open>Strings\<close>

text \<open>
  A string of the model is the sequence of the UTF-16 code units of a JavaScript string,
  each a \<open>char\<close>: the type \<open>char\<close> has 256 values, so these are the strings whose
  code units are below 256 (the Latin-1 range); strings with other characters are not
  modelled. \<open>String.prototype.toLowerCase\<close> maps the capital letters of this range, A
  to Z (codes 65 to 90), and the letters with the codes 192 to 222 except the
  multiplication sign 215, to their small letters, whose code is greater by 32, and
  leaves every other character of the range as it is.
\<close>

definition capital_letters :: string where
  "capital_letters =
     ''ABCDEFGHIJKLMNOPQRSTUVWXYZ'' @
     [CHR 0xC0, CHR 0xC1, CHR 0xC2, CHR 0xC3, CHR 0xC4, CHR 0xC5, CHR 0xC6,
      CHR 0xC7, CHR 0xC8, CHR 0xC9, CHR 0xCA, CHR 0xCB, CHR 0xCC, CHR 0xCD,
      CHR 0xCE, CHR 0xCF, CHR 0xD0, CHR 0xD1, CHR 0xD2, CHR 0xD3, CHR 0xD4,
      CHR 0xD5, CHR 0xD6, CHR 0xD8, CHR 0xD9, CHR 0xDA, CHR 0xDB, CHR 0xDC,
      CHR 0xDD, CHR 0xDE]"

definition small_letters :: string where
  "small_letters =
     ''abcdefghijklmnopqrstuvwxyz'' @
     [CHR 0xE0, CHR 0xE1, CHR 0xE2, CHR 0xE3, CHR 0xE4, CHR 0xE5, CHR 0xE6,
      CHR 0xE7, CHR 0xE8, CHR 0xE9, CHR 0xEA, CHR 0xEB, CHR 0xEC, CHR 0xED,
      CHR 0xEE, CHR 0xEF, CHR 0xF0, CHR 0xF1, CHR 0xF2, CHR 0xF3, CHR 0xF4,
      CHR 0xF5, CHR 0xF6, CHR 0xF8, CHR 0xF9, CHR 0xFA, CHR 0xFB, CHR 0xFC,
      CHR 0xFD, CHR 0xFE]"

definition lower_char :: "char \<Rightarrow> char" where
  "lower_char c =
     (case map_of (zip capital_letters small_letters) c of
        Some l \<Rightarrow> l
      | None \<Rightarrow> c)"

definition toLowerCase :: "string \<Rightarrow> string" where
  "toLowerCase s = map lower_char s"

fun startsWith :: "string \<Rightarrow> string \<Rightarrow> bool" where
  "startsWith s [] = True"
| "startsWith [] (p # ps) = False"
| "startsWith (c # s) (p # ps) = (c = p \<and> startsWith s ps)"

fun includes' :: "string \<Rightarrow> string \<Rightarrow> bool" where
  "includes' [] sub = (sub = [])"
| "includes' (c # s) sub = (startsWith (c # s) sub \<or> includes' s sub)"

subsection \<open>Truthiness and the operator \<open>||\<close>\<close>

text \<open>
  A property that an object does not have reads as \<open>undefined\<close>: here \<open>None\<close>. The
  empty string, the number 0 and \<open>false\<close> are falsy like \<open>undefined\<close>; arrays and
  objects are always truthy. \<open>a || b\<close> is \<open>a\<close> when \<open>a\<close> is truthy and \<open>b\<close> otherwise:
  \<open>js_or\<close> when \<open>b\<close> may be \<open>undefined\<close> itself, \<open>js_or_default\<close> when \<open>b\<close> is a
  literal.
\<close>

definition truthy_string :: "string \<Rightarrow> bool" where
  "truthy_string s = (s \<noteq> [])"

definition truthy_number :: "real \<Rightarrow> bool" where
  "truthy_number n = (n \<noteq> 0)"

definition js_or :: "('a \<Rightarrow> bool) \<Rightarrow> 'a option \<Rightarrow> 'a option \<Rightarrow> 'a option" where
  "js_or truthy a b = (case a of None \<Rightarrow> b | Some x \<Rightarrow> if truthy x then Some x else b)"

definition js_or_default :: "('a \<Rightarrow> bool) \<Rightarrow> 'a option \<Rightarrow> 'a \<Rightarrow> 'a" where
  "js_or_default truthy a d = (case a of None \<Rightarrow> d | Some x \<Rightarrow> if truthy x then x else d)"

subsection \<open>What one call reads from the run time\<close>

text \<open>
  The normalizers read the clock (\<open>new Date().toISOString()\<close>) and the random number
  generator (\<open>Math.random().toString(36)\<close>), and a template literal converts a number
  to a string. These are the run time's, not the repository's: a \<open>runtime\<close> holds what
  they answer during one call.
\<close>

record runtime =
  toISOString :: string
  random36 :: string
  numberToString :: "number \<Rightarrow> string"

section \<open>dataNormalizer.ts: the normalized offers\<close>

text \<open>
  The interfaces \<open>NormalizedFlight\<close>, \<open>NormalizedHotel\<close> and
  \<open>NormalizedTransport\<close>. Fields keep their names, except where the name is a keyword
  or a constant of HOL: \<open>from\<close>, \<open>to\<close>, \<open>id\<close>, \<open>type\<close>, \<open>value\<close>, \<open>max\<close> and
  \<open>number\<close> carry a prime. An optional field (\<open>aircraft?\<close>) has an \<open>option\<close> type.
  A duration is computed by \<open>parseDuration\<close> and has the type \<open>number\<close>.
  Several records have fields of the same name; a field is then written with its record's
  name (\<open>NormalizedFlight.price\<close>).
\<close>

record Place =
  code :: string
  name :: string
  city :: string

record Moment =
  datetime :: string
  timezone :: string

record Segment =
  from' :: Place
  to' :: Place
  airline :: string
  flightNumber :: string
  departure :: Moment
  arrival :: Moment
  duration :: number
  aircraft :: "string option"

record FlightPrice =
  amount :: real
  currency :: string
  originalCurrency :: "string option"
  exchangeRate :: "real option"

record Layover =
  airport :: string
  duration :: real

record Baggage =
  included :: bool
  allowance :: "string option"

record NormalizedFlight =
  id' :: string
  segments :: "Segment list"
  price :: FlightPrice
  totalDuration :: number
  layovers :: "Layover list"
  source :: string
  bookingUrl :: string
  baggage :: "Baggage option"
  refundable :: bool
  lastUpdated :: string

record Coordinates =
  lat :: real
  lng :: real

record HotelLocation =
  address :: string
  city :: string
  country :: string
  coordinates :: "Coordinates option"

record HotelPrice =
  amount :: real
  currency :: string
  perNight :: bool
  originalCurrency :: "string option"
  exchangeRate :: "real option"

record Rating =
  value' :: real
  max' :: real
  reviews :: real
  source :: string

record RoomType =
  name :: string
  price :: real
  available :: bool

record SpecialOffer =
  type' :: string
  description :: string
  discount :: "number option"

record NormalizedHotel =
  id' :: string
  name :: string
  location :: HotelLocation
  price :: HotelPrice
  rating :: Rating
  amenities :: "string list"
  roomTypes :: "RoomType list"
  cancellationPolicy :: string
  specialOffers :: "SpecialOffer list"
  source :: string
  bookingUrl :: string
  images :: "string list"
  lastUpdated :: string

text \<open>
  The \<open>price\<close> of a \<open>NormalizedTransport\<close> is built by \<open>normalizePrice\<close>, whose
  result has the type of a flight's price.
\<close>

record NormalizedTransport =
  id' :: string
  type' :: string
  from' :: Place
  to' :: Place
  operator :: string
  departure :: Moment
  arrival :: Moment
  duration :: number
  price :: FlightPrice
  source :: string
  bookingUrl :: string
  amenities :: "string list option"
  lastUpdated :: string

subsection \<open>Raw provider records\<close>

text \<open>
  The normalizers take \<open>data: any\<close>. A raw record is modelled by the properties the
  normalizers read from it, each absent (\<open>None\<close>, read as \<open>undefined\<close>) or present
  with a value of the type the provider interfaces of realBookingAggregator.ts
  (\<open>FlightRoute\<close>, \<open>HotelDeal\<close>, \<open>Experience\<close>) and the normalized interfaces give it:
  a price is a number, a name a string. Where the providers and the normalizers
  disagree on the type, the property is a sum: a segment's \<open>from\<close> is a string for a
  provider and an object for the normalizer, a hotel's \<open>location\<close> likewise, a duration
  is a string or a number. A property that holds a value of yet another type (a price
  given as an object, say) is outside the model.
\<close>

datatype string_or_number = OfString string | OfNumber real

record RawPlace =
  code :: "string option"
  name :: "string option"
  city :: "string option"

datatype string_or_place = PlaceString string | PlaceObject RawPlace

fun place_prop :: "(RawPlace \<Rightarrow> string option) \<Rightarrow> string_or_place option \<Rightarrow> string option" where
  "place_prop prop None = None"
| "place_prop prop (Some (PlaceString s)) = None"
| "place_prop prop (Some (PlaceObject p)) = prop p"

record RawSegment =
  fromCode :: "string option"
  from' :: "string_or_place option"
  fromName :: "string option"
  fromCity :: "string option"
  toCode :: "string option"
  to' :: "string_or_place option"
  toName :: "string option"
  toCity :: "string option"
  airline :: "string option"
  carrier :: "string option"
  flightNumber :: "string option"
  number' :: "string option"
  departure :: "string option"
  departureTime :: "string option"
  departureTimezone :: "string option"
  arrival :: "string option"
  arrivalTime :: "string option"
  arrivalTimezone :: "string option"
  duration :: "string_or_number option"
  aircraft :: "string option"

record RawLocation =
  address :: "string option"
  city :: "string option"
  country :: "string option"
  coordinates :: "Coordinates option"

datatype string_or_location = LocationString string | LocationObject RawLocation

fun location_prop :: "(RawLocation \<Rightarrow> 'a option) \<Rightarrow> string_or_location option \<Rightarrow> 'a option" where
  "location_prop prop None = None"
| "location_prop prop (Some (LocationString s)) = None"
| "location_prop prop (Some (LocationObject l)) = prop l"

record RawRoom =
  name :: "string option"
  type' :: "string option"
  price :: "real option"
  available :: "bool option"

record RawRecord =
  id' :: "string option"
  source :: "string option"
  segments :: "RawSegment list option"
  flights :: "RawSegment list option"
  price :: "real option"
  currency :: "string option"
  totalDuration :: "string_or_number option"
  url :: "string option"
  bookingUrl :: "string option"
  baggageIncluded :: "bool option"
  baggageAllowance :: "string option"
  refundable :: "bool option"
  name :: "string option"
  hotelName :: "string option"
  address :: "string option"
  location :: "string_or_location option"
  city :: "string option"
  country :: "string option"
  coordinates :: "Coordinates option"
  rating :: "real option"
  stars :: "real option"
  reviews :: "real option"
  reviewCount :: "real option"
  ratingSource :: "string option"
  amenities :: "string list option"
  rooms :: "RawRoom list option"
  roomTypes :: "RawRoom list option"
  cancellationPolicy :: "string option"
  firstTimeDeal :: "bool option"
  discount :: "number option"
  specialDeals :: "string list option"
  images :: "string list option"
  type' :: "string option"
  fromCode :: "string option"
  fromName :: "string option"
  from' :: "string option"
  fromCity :: "string option"
  toCode :: "string option"
  toName :: "string option"
  to' :: "string option"
  toCity :: "string option"
  operator :: "string option"
  company :: "string option"
  departure :: "string option"
  departureTime :: "string option"
  departureTimezone :: "string option"
  arrival :: "string option"
  arrivalTime :: "string option"
  arrivalTimezone :: "string option"
  duration :: "string_or_number option"

text \<open>The object without properties, from which a raw record is built by updates.\<close>

definition no_properties :: RawRecord where
  "no_properties =
     \<lparr>RawRecord.id' = None, RawRecord.source = None, RawRecord.segments = None,
      RawRecord.flights = None, RawRecord.price = None, RawRecord.currency = None,
      RawRecord.totalDuration = None, RawRecord.url = None, RawRecord.bookingUrl = None,
      RawRecord.baggageIncluded = None, RawRecord.baggageAllowance = None, RawRecord.refundable = None,
      RawRecord.name = None, RawRecord.hotelName = None, RawRecord.address = None,
      RawRecord.location = None, RawRecord.city = None, RawRecord.country = None,
      RawRecord.coordinates = None, RawRecord.rating = None, RawRecord.stars = None,
      RawRecord.reviews = None, RawRecord.reviewCount = None, RawRecord.ratingSource = None,
      RawRecord.amenities = None, RawRecord.rooms = None, RawRecord.roomTypes = None,
      RawRecord.cancellationPolicy = None, RawRecord.firstTimeDeal = None, RawRecord.discount = None,
      RawRecord.specialDeals = None, RawRecord.images = None, RawRecord.type' = None,
      RawRecord.fromCode = None, RawRecord.fromName = None, RawRecord.from' = None,
      RawRecord.fromCity = None, RawRecord.toCode = None, RawRecord.toName = None,
      RawRecord.to' = None, RawRecord.toCity = None, RawRecord.operator = None,
      RawRecord.company = None, RawRecord.departure = None, RawRecord.departureTime = None,
      RawRecord.departureTimezone = None, RawRecord.arrival = None, RawRecord.arrivalTime = None,
      RawRecord.arrivalTimezone = None, RawRecord.duration = None\<rparr>"

definition no_segment_properties :: RawSegment where
  "no_segment_properties =
     \<lparr>RawSegment.fromCode = None, RawSegment.from' = None, RawSegment.fromName = None,
      RawSegment.fromCity = None, RawSegment.toCode = None, RawSegment.to' = None,
      RawSegment.toName = None, RawSegment.toCity = None, RawSegment.airline = None,
      RawSegment.carrier = None, RawSegment.flightNumber = None, RawSegment.number' = None,
      RawSegment.departure = None, RawSegment.departureTime = None,
      RawSegment.departureTimezone = None, RawSegment.arrival = None,
      RawSegment.arrivalTime = None, RawSegment.arrivalTimezone = None,
      RawSegment.duration = None, RawSegment.aircraft = None\<rparr>"

subsection \<open>parseDuration\<close>

text \<open>
  \<open>duration.match(/(\d+)h/)\<close> finds the leftmost place where one or more decimal
  digits are directly followed by \<open>h\<close>, and captures the digits. \<open>\d+\<close> is greedy, and
  giving digits back cannot help (the character after a shorter run is a digit, not
  \<open>h\<close>): at each place the whole run of digits is taken and the next character
  compared. \<open>match_here u s\<close> is the capture of a match that starts at the head of \<open>s\<close>,
  \<open>match_digits u s\<close> the capture of the leftmost match, \<open>None\<close> when \<open>match\<close>
  returns \<open>null\<close>.
\<close>

definition is_digit :: "char \<Rightarrow> bool" where
  "is_digit c = ((48::nat) \<le> of_char c \<and> of_char c \<le> (57::nat))"

definition match_here :: "char \<Rightarrow> string \<Rightarrow> string option" where
  "match_here u s =
     (let digits = takeWhile is_digit s in
      if digits \<noteq> [] \<and> (case dropWhile is_digit s of [] \<Rightarrow> False | c # rest \<Rightarrow> c = u)
      then Some digits else None)"

fun match_digits :: "char \<Rightarrow> string \<Rightarrow> string option" where
  "match_digits u [] = None"
| "match_digits u (c # s) =
     (case match_here u (c # s) of Some digits \<Rightarrow> Some digits | None \<Rightarrow> match_digits u s)"

text \<open>
  \<open>parseInt\<close> on a string of decimal digits: the number for the integer that the
  digits denote, that is, the double nearest to it. (When there are more than twenty
  digits the language standard lets an implementation replace the digits after the
  twentieth by zeros first; the model rounds the integer itself.)
\<close>

definition digits_value :: "string \<Rightarrow> nat" where
  "digits_value digits = foldl (\<lambda>n c. 10 * n + (of_char c - 48)) 0 digits"

definition parseInt :: "string \<Rightarrow> number" where
  "parseInt digits = to_double (real (digits_value digits))"

text \<open>
  \<open>private parseDuration(duration: string | number): number\<close>. The callers pass
  \<open>data.duration\<close> of a raw record, which may be missing: \<open>typeof undefined\<close> is not
  \<open>'number'\<close>, and \<open>undefined.match\<close> throws a TypeError.
  \<open>const hours = (duration.match(/(\d+)h/) || [])[1];
  const minutes = (duration.match(/(\d+)m/) || [])[1];
  return (parseInt(hours || '0') * 60) + parseInt(minutes || '0');\<close>
\<close>

fun parseDuration :: "string_or_number option \<Rightarrow> error + number" where
  "parseDuration (Some (OfNumber n)) = Inr (Finite n)"
| "parseDuration (Some (OfString d)) =
     (let hours = match_digits CHR ''h'' d;
          minutes = match_digits CHR ''m'' d
      in Inr (js_plus
                (js_times (parseInt (js_or_default truthy_string hours ''0'')) (Finite 60))
                (parseInt (js_or_default truthy_string minutes ''0''))))"
| "parseDuration None = Inl TypeError"

subsection \<open>The normalizers\<close>

text \<open>
  \<open>normalizeSegments\<close> maps the callback below over the raw segments; a call of
  \<open>parseDuration\<close> that throws ends the \<open>map\<close>. \<open>seg.from?.code\<close> is \<open>undefined\<close> when
  \<open>seg.from\<close> is missing or a string.
\<close>

definition normalizeSegment :: "RawSegment \<Rightarrow> error + Segment" where
  "normalizeSegment seg =
     (case parseDuration (RawSegment.duration seg) of
        Inl e \<Rightarrow> Inl e
      | Inr dur \<Rightarrow> Inr
         \<lparr>Segment.from' =
            \<lparr>Place.code = js_or_default truthy_string
                 (js_or truthy_string (RawSegment.fromCode seg) (place_prop RawPlace.code (RawSegment.from' seg))) '''',
             Place.name = js_or_default truthy_string
                 (js_or truthy_string (RawSegment.fromName seg) (place_prop RawPlace.name (RawSegment.from' seg))) '''',
             Place.city = js_or_default truthy_string
                 (js_or truthy_string (RawSegment.fromCity seg) (place_prop RawPlace.city (RawSegment.from' seg))) ''''\<rparr>,
          Segment.to' =
            \<lparr>Place.code = js_or_default truthy_string
                 (js_or truthy_string (RawSegment.toCode seg) (place_prop RawPlace.code (RawSegment.to' seg))) '''',
             Place.name = js_or_default truthy_string
                 (js_or truthy_string (RawSegment.toName seg) (place_prop RawPlace.name (RawSegment.to' seg))) '''',
             Place.city = js_or_default truthy_string
                 (js_or truthy_string (RawSegment.toCity seg) (place_prop RawPlace.city (RawSegment.to' seg))) ''''\<rparr>,
          Segment.airline = js_or_default truthy_string
               (js_or truthy_string (RawSegment.airline seg) (RawSegment.carrier seg)) '''',
          Segment.flightNumber = js_or_default truthy_string
               (js_or truthy_string (RawSegment.flightNumber seg) (RawSegment.number' seg)) '''',
          Segment.departure =
            \<lparr>datetime = js_or_default truthy_string
                 (js_or truthy_string (RawSegment.departure seg) (RawSegment.departureTime seg)) '''',
             timezone = js_or_default truthy_string (RawSegment.departureTimezone seg) ''UTC''\<rparr>,
          Segment.arrival =
            \<lparr>datetime = js_or_default truthy_string
                 (js_or truthy_string (RawSegment.arrival seg) (RawSegment.arrivalTime seg)) '''',
             timezone = js_or_default truthy_string (RawSegment.arrivalTimezone seg) ''UTC''\<rparr>,
          Segment.duration = dur,
          Segment.aircraft = RawSegment.aircraft seg\<rparr>)"

fun normalizeSegments :: "RawSegment list \<Rightarrow> error + Segment list" where
  "normalizeSegments [] = Inr []"
| "normalizeSegments (seg # rest) =
     (case normalizeSegment seg of
        Inl e \<Rightarrow> Inl e
      | Inr s \<Rightarrow> (case normalizeSegments rest of Inl e \<Rightarrow> Inl e | Inr ss \<Rightarrow> Inr (s # ss)))"

text \<open>
  \<open>const amount = typeof price === 'number' ? price : (price?.amount || price || 0);
  const curr = currency || price?.currency || 'USD';\<close>
  A raw price is a number or missing, so \<open>price?.amount\<close>, \<open>price?.currency\<close>,
  \<open>price?.originalCurrency\<close> and \<open>price?.exchangeRate\<close> are \<open>undefined\<close>.
\<close>

definition normalizePrice :: "real option \<Rightarrow> string option \<Rightarrow> FlightPrice" where
  "normalizePrice p c =
     \<lparr>FlightPrice.amount = (case p of Some n \<Rightarrow> n | None \<Rightarrow> 0),
      FlightPrice.currency = js_or_default truthy_string c ''USD'',
      FlightPrice.originalCurrency = None,
      FlightPrice.exchangeRate = None\<rparr>"

text \<open>
  \<open>if (data.totalDuration) { return this.parseDuration(data.totalDuration); } return 0;\<close>
\<close>

definition calculateTotalDuration :: "RawRecord \<Rightarrow> error + number" where
  "calculateTotalDuration data =
     (case RawRecord.totalDuration data of
        Some (OfString s) \<Rightarrow>
          if truthy_string s then parseDuration (Some (OfString s)) else Inr (Finite 0)
      | Some (OfNumber n) \<Rightarrow>
          if truthy_number n then parseDuration (Some (OfNumber n)) else Inr (Finite 0)
      | None \<Rightarrow> Inr (Finite 0))"

text \<open>\<open>extractLayovers\<close> is a placeholder that returns the empty array.\<close>

definition extractLayovers :: "RawRecord \<Rightarrow> Layover list" where
  "extractLayovers data = []"

definition extractBaggage :: "RawRecord \<Rightarrow> Baggage option" where
  "extractBaggage data =
     Some \<lparr>included = js_or_default (\<lambda>b. b) (RawRecord.baggageIncluded data) False,
           allowance = RawRecord.baggageAllowance data\<rparr>"

text \<open>
  \<open>normalizeFlight(data: any, source: string): NormalizedFlight\<close>. The \<open>id\<close> is
  \<open>`${source}-${data.id || Math.random().toString(36)}`\<close>, and \<open>lastUpdated\<close> is
  \<open>new Date().toISOString()\<close>.
\<close>

definition normalizeFlight :: "runtime \<Rightarrow> RawRecord \<Rightarrow> string \<Rightarrow> error + NormalizedFlight" where
  "normalizeFlight rt data src =
     (case normalizeSegments
             (js_or_default (\<lambda>a. True)
                (js_or (\<lambda>a. True) (RawRecord.segments data) (RawRecord.flights data)) []) of
        Inl e \<Rightarrow> Inl e
      | Inr segs \<Rightarrow>
         (case calculateTotalDuration data of
            Inl e \<Rightarrow> Inl e
          | Inr totalDur \<Rightarrow> Inr
             \<lparr>NormalizedFlight.id' =
                src @ ''-'' @ js_or_default truthy_string (RawRecord.id' data) (random36 rt),
              NormalizedFlight.segments = segs,
              NormalizedFlight.price = normalizePrice (RawRecord.price data) (RawRecord.currency data),
              NormalizedFlight.totalDuration = totalDur,
              NormalizedFlight.layovers = extractLayovers data,
              NormalizedFlight.source = src,
              NormalizedFlight.bookingUrl = js_or_default truthy_string
                (js_or truthy_string (RawRecord.url data) (RawRecord.bookingUrl data)) ''#'',
              NormalizedFlight.baggage = extractBaggage data,
              NormalizedFlight.refundable = js_or_default (\<lambda>b. b) (RawRecord.refundable data) False,
              NormalizedFlight.lastUpdated = toISOString rt\<rparr>))"

text \<open>\<open>normalizeHotelPrice\<close> is \<open>normalizePrice\<close> with \<open>perNight: true\<close>.\<close>

definition normalizeHotelPrice :: "real option \<Rightarrow> string option \<Rightarrow> HotelPrice" where
  "normalizeHotelPrice p c =
     \<lparr>HotelPrice.amount = (case p of Some n \<Rightarrow> n | None \<Rightarrow> 0),
      HotelPrice.currency = js_or_default truthy_string c ''USD'',
      perNight = True,
      HotelPrice.originalCurrency = None,
      HotelPrice.exchangeRate = None\<rparr>"

text \<open>
  \<open>name: room.name || room.type || '', price: room.price || 0,
  available: room.available !== false\<close>
\<close>

definition normalizeRoomTypes :: "RawRoom list \<Rightarrow> RoomType list" where
  "normalizeRoomTypes rs =
     map (\<lambda>room.
        \<lparr>RoomType.name = js_or_default truthy_string
             (js_or truthy_string (RawRoom.name room) (RawRoom.type' room)) '''',
         RoomType.price = js_or_default truthy_number (RawRoom.price room) 0,
         RoomType.available = (RawRoom.available room \<noteq> Some False)\<rparr>) rs"

text \<open>
  \<open>extractSpecialOffers\<close>: an offer for \<open>data.firstTimeDeal\<close>, one for a truthy
  \<open>data.discount\<close> (\<open>NaN\<close> and 0 are falsy) described as \<open>`${data.discount}% off`\<close>, and
  one for each of \<open>data.specialDeals\<close> that mentions \<open>first\<close>, \<open>discount\<close> or \<open>%\<close>.
\<close>

fun truthy_discount :: "number \<Rightarrow> bool" where
  "truthy_discount (Finite n) = (n \<noteq> 0)"
| "truthy_discount NaN = False"
| "truthy_discount PosInfinity = True"
| "truthy_discount NegInfinity = True"

definition special_deal_offer :: "string \<Rightarrow> SpecialOffer list" where
  "special_deal_offer deal =
     (if includes' (toLowerCase deal) ''first''
      then [\<lparr>SpecialOffer.type' = ''first-time'', description = deal, SpecialOffer.discount = None\<rparr>]
      else if includes' (toLowerCase deal) ''discount'' \<or> includes' deal ''%''
      then [\<lparr>SpecialOffer.type' = ''discount'', description = deal, SpecialOffer.discount = None\<rparr>]
      else [])"

definition extractSpecialOffers :: "runtime \<Rightarrow> RawRecord \<Rightarrow> SpecialOffer list" where
  "extractSpecialOffers rt data =
     (if js_or_default (\<lambda>b. b) (RawRecord.firstTimeDeal data) False
      then [\<lparr>SpecialOffer.type' = ''first-time'', description = ''First-time customer deal'',
              SpecialOffer.discount = None\<rparr>]
      else [])
     @ (case RawRecord.discount data of
          None \<Rightarrow> []
        | Some n \<Rightarrow>
            if truthy_discount n
            then [\<lparr>SpecialOffer.type' = ''discount'', description = numberToString rt n @ ''% off'',
                   SpecialOffer.discount = Some n\<rparr>]
            else [])
     @ (case RawRecord.specialDeals data of
          None \<Rightarrow> []
        | Some deals \<Rightarrow> concat (map special_deal_offer deals))"

text \<open>
  \<open>normalizeHotel(data: any, source: string): NormalizedHotel\<close>. Nothing in it throws.
\<close>

definition normalizeHotel :: "runtime \<Rightarrow> RawRecord \<Rightarrow> string \<Rightarrow> NormalizedHotel" where
  "normalizeHotel rt data src =
     \<lparr>NormalizedHotel.id' =
        src @ ''-'' @ js_or_default truthy_string (RawRecord.id' data) (random36 rt),
      NormalizedHotel.name = js_or_default truthy_string
        (js_or truthy_string (RawRecord.name data) (RawRecord.hotelName data)) '''',
      NormalizedHotel.location =
        \<lparr>HotelLocation.address = js_or_default truthy_string
             (js_or truthy_string (RawRecord.address data)
                (location_prop RawLocation.address (RawRecord.location data))) '''',
         HotelLocation.city = js_or_default truthy_string
             (js_or truthy_string (RawRecord.city data)
                (location_prop RawLocation.city (RawRecord.location data))) '''',
         HotelLocation.country = js_or_default truthy_string
             (js_or truthy_string (RawRecord.country data)
                (location_prop RawLocation.country (RawRecord.location data))) '''',
         HotelLocation.coordinates = js_or (\<lambda>c. True) (RawRecord.coordinates data)
             (location_prop RawLocation.coordinates (RawRecord.location data))\<rparr>,
      NormalizedHotel.price = normalizeHotelPrice (RawRecord.price data) (RawRecord.currency data),
      NormalizedHotel.rating =
        \<lparr>value' = js_or_default truthy_number
             (js_or truthy_number (RawRecord.rating data) (RawRecord.stars data)) 0,
         max' = 5,
         Rating.reviews = js_or_default truthy_number
             (js_or truthy_number (RawRecord.reviews data) (RawRecord.reviewCount data)) 0,
         Rating.source = js_or_default truthy_string (RawRecord.ratingSource data) src\<rparr>,
      NormalizedHotel.amenities = (case RawRecord.amenities data of Some a \<Rightarrow> a | None \<Rightarrow> []),
      NormalizedHotel.roomTypes = normalizeRoomTypes
        (js_or_default (\<lambda>a. True) (js_or (\<lambda>a. True) (RawRecord.rooms data) (RawRecord.roomTypes data)) []),
      NormalizedHotel.cancellationPolicy =
        js_or_default truthy_string (RawRecord.cancellationPolicy data) ''Check booking site'',
      NormalizedHotel.specialOffers = extractSpecialOffers rt data,
      NormalizedHotel.source = src,
      NormalizedHotel.bookingUrl = js_or_default truthy_string
        (js_or truthy_string (RawRecord.url data) (RawRecord.bookingUrl data)) ''#'',
      NormalizedHotel.images = (case RawRecord.images data of Some a \<Rightarrow> a | None \<Rightarrow> []),
      NormalizedHotel.lastUpdated = toISOString rt\<rparr>"

text \<open>
  \<open>normalizeTransport(data: any, source: string): NormalizedTransport\<close>, with
  \<open>duration: this.parseDuration(data.duration)\<close>.
\<close>

definition normalizeTransport :: "runtime \<Rightarrow> RawRecord \<Rightarrow> string \<Rightarrow> error + NormalizedTransport" where
  "normalizeTransport rt data src =
     (case parseDuration (RawRecord.duration data) of
        Inl e \<Rightarrow> Inl e
      | Inr dur \<Rightarrow> Inr
         \<lparr>NormalizedTransport.id' =
            src @ ''-'' @ js_or_default truthy_string (RawRecord.id' data) (random36 rt),
          NormalizedTransport.type' = js_or_default truthy_string (RawRecord.type' data) ''bus'',
          NormalizedTransport.from' =
            \<lparr>Place.code = js_or_default truthy_string (RawRecord.fromCode data) '''',
             Place.name = js_or_default truthy_string
                 (js_or truthy_string (RawRecord.fromName data) (RawRecord.from' data)) '''',
             Place.city = js_or_default truthy_string (RawRecord.fromCity data) ''''\<rparr>,
          NormalizedTransport.to' =
            \<lparr>Place.code = js_or_default truthy_string (RawRecord.toCode data) '''',
             Place.name = js_or_default truthy_string
                 (js_or truthy_string (RawRecord.toName data) (RawRecord.to' data)) '''',
             Place.city = js_or_default truthy_string (RawRecord.toCity data) ''''\<rparr>,
          NormalizedTransport.operator = js_or_default truthy_string
               (js_or truthy_string (RawRecord.operator data) (RawRecord.company data)) '''',
          NormalizedTransport.departure =
            \<lparr>datetime = js_or_default truthy_string
                 (js_or truthy_string (RawRecord.departure data) (RawRecord.departureTime data)) '''',
             timezone = js_or_default truthy_string (RawRecord.departureTimezone data) ''UTC''\<rparr>,
          NormalizedTransport.arrival =
            \<lparr>datetime = js_or_default truthy_string
                 (js_or truthy_string (RawRecord.arrival data) (RawRecord.arrivalTime data)) '''',
             timezone = js_or_default truthy_string (RawRecord.arrivalTimezone data) ''UTC''\<rparr>,
          NormalizedTransport.duration = dur,
          NormalizedTransport.price = normalizePrice (RawRecord.price data) (RawRecord.currency data),
          NormalizedTransport.source = src,
          NormalizedTransport.bookingUrl = js_or_default truthy_string
            (js_or truthy_string (RawRecord.url data) (RawRecord.bookingUrl data)) ''#'',
          NormalizedTransport.amenities =
            Some (js_or_default (\<lambda>a. True) (RawRecord.amenities data) []),
          NormalizedTransport.lastUpdated = toISOString rt\<rparr>)"

subsection \<open>mergeDuplicates\<close>

text \<open>
  \<open>mergeDuplicates<T extends { id: string; price: { amount: number }; source: string }>\<close>
  is generic: it reads \<open>price.amount\<close> of its elements, and \<open>generateMergeKey\<close>
  (whose parameter is typed \<open>any\<close>) reads the properties \<open>from\<close>, \<open>to\<close> and
  \<open>departure\<close>. A value of \<open>'a T_view\<close> says how an element type \<open>'a\<close> answers these
  four reads.
\<close>

record 'a T_view =
  price_amount :: "'a \<Rightarrow> real"
  prop_from :: "'a \<Rightarrow> jsval"
  prop_to :: "'a \<Rightarrow> jsval"
  prop_departure :: "'a \<Rightarrow> jsval"

text \<open>
  A \<open>NormalizedFlight\<close> has no property \<open>from\<close>, \<open>to\<close> or \<open>departure\<close> of its own
  (they are properties of its segments): the three reads give \<open>undefined\<close>.
\<close>

definition flight_view :: "NormalizedFlight T_view" where
  "flight_view =
     \<lparr>price_amount = (\<lambda>f. FlightPrice.amount (NormalizedFlight.price f)),
      prop_from = (\<lambda>f. JSUndefined),
      prop_to = (\<lambda>f. JSUndefined),
      prop_departure = (\<lambda>f. JSUndefined)\<rparr>"

definition hotel_view :: "NormalizedHotel T_view" where
  "hotel_view =
     \<lparr>price_amount = (\<lambda>h. HotelPrice.amount (NormalizedHotel.price h)),
      prop_from = (\<lambda>h. JSUndefined),
      prop_to = (\<lambda>h. JSUndefined),
      prop_departure = (\<lambda>h. JSUndefined)\<rparr>"

definition transport_view :: "NormalizedTransport T_view" where
  "transport_view =
     \<lparr>price_amount = (\<lambda>t. FlightPrice.amount (NormalizedTransport.price t)),
      prop_from = (\<lambda>t. JSObject),
      prop_to = (\<lambda>t. JSObject),
      prop_departure = (\<lambda>t. JSObject)\<rparr>"

text \<open>
  \<open>return `${_result.from || ''}-${_result.to || ''}-${_result.departure || ''}`;\<close>
\<close>

definition generateMergeKey :: "'a T_view \<Rightarrow> 'a \<Rightarrow> string" where
  "generateMergeKey v result =
     or_empty (prop_from v result) @ ''-'' @ or_empty (prop_to v result) @ ''-''
       @ or_empty (prop_departure v result)"

text \<open>
  \<open>grouped\<close> is a \<open>Map\<close> from strings to arrays, which iterates in the order its keys were first
  set: an association list. One step of the first \<open>forEach\<close>: when the key is new,
  \<open>grouped.set(key, [])\<close> adds it last; then \<open>grouped.get(key)!.push(result)\<close>.
\<close>

fun add_result :: "string \<Rightarrow> 'a \<Rightarrow> (string \<times> 'a list) list \<Rightarrow> (string \<times> 'a list) list" where
  "add_result key result [] = [(key, [result])]"
| "add_result key result ((k, grp) # grouped) =
     (if k = key then (k, grp @ [result]) # grouped
      else (k, grp) # add_result key result grouped)"

definition group_results :: "'a T_view \<Rightarrow> 'a list \<Rightarrow> (string \<times> 'a list) list" where
  "group_results v results =
     foldl (\<lambda>grouped result. add_result (generateMergeKey v result) result grouped) [] results"

text \<open>
  The callback of \<open>group.reduce\<close>:
  \<open>(best, current) => current.price.amount < best.price.amount ? current : best\<close>.
\<close>

definition cheaper :: "'a T_view \<Rightarrow> 'a \<Rightarrow> 'a \<Rightarrow> 'a" where
  "cheaper v best current =
     (if price_amount v current < price_amount v best then current else best)"

text \<open>The body of the second \<open>forEach\<close>: the element pushed onto \<open>merged\<close> for a group.\<close>

definition representative :: "'a T_view \<Rightarrow> 'a list \<Rightarrow> error + 'a" where
  "representative v grp =
     (if length grp = 1 then Inr (grp ! 0) else reduce (cheaper v) grp)"

fun merge_groups :: "'a T_view \<Rightarrow> 'a list list \<Rightarrow> 'a list \<Rightarrow> error + 'a list" where
  "merge_groups v [] merged = Inr merged"
| "merge_groups v (grp # grps) merged =
     (case representative v grp of
        Inl e \<Rightarrow> Inl e
      | Inr best \<Rightarrow> merge_groups v grps (merged @ [best]))"

definition mergeDuplicates :: "'a T_view \<Rightarrow> 'a list \<Rightarrow> error + 'a list" where
  "mergeDuplicates v results = merge_groups v (map snd (group_results v results)) []"

section \<open>realBookingAggregator.ts\<close>

text \<open>
  The interface \<open>HotelDeal\<close>. Its \<open>source\<close> is a union of string literals, here a
  string. \<open>discount\<close> is a \<open>number\<close>, since \<open>identifyBestDeals\<close> stores the result of a
  division there.
\<close>

record HotelDeal =
  name :: string
  location :: string
  price :: real
  currency :: string
  rating :: real
  reviews :: real
  amenities :: "string list"
  cancellationPolicy :: string
  specialDeals :: "string list"
  source :: string
  url :: string
  firstTimeDeal :: "bool option"
  discount :: "number option"

subsection \<open>identifyBestDeals\<close>

text \<open>
  The first \<open>forEach\<close>: the deals grouped by \<open>deal.name.toLowerCase()\<close>, in a \<open>Map\<close>
  as in \<open>mergeDuplicates\<close>.
\<close>

definition group_deals :: "HotelDeal list \<Rightarrow> (string \<times> HotelDeal list) list" where
  "group_deals deals =
     foldl (\<lambda>grouped deal. add_result (toLowerCase (HotelDeal.name deal)) deal grouped) [] deals"

text \<open>\<open>(best, current) => current.price < best.price ? current : best\<close>\<close>

definition cheaper_deal :: "HotelDeal \<Rightarrow> HotelDeal \<Rightarrow> HotelDeal" where
  "cheaper_deal best current =
     (if HotelDeal.price current < HotelDeal.price best then current else best)"

text \<open>
  \<open>sd => sd.toLowerCase().includes('first') || sd.toLowerCase().includes('new user')\<close>
\<close>

definition is_first_time :: "string \<Rightarrow> bool" where
  "is_first_time sd =
     (includes' (toLowerCase sd) ''first'' \<or> includes' (toLowerCase sd) ''new user'')"

text \<open>
  The body of the second \<open>forEach\<close>, for one group \<open>hotelDeals\<close>: the cheapest deal,
  with \<open>firstTimeDeal\<close> set and, when the group has more than one deal,
  \<open>discount = Math.round(((maxPrice - cheapest.price) / maxPrice) * 100)\<close>. The code
  assigns to the fields of the object \<open>cheapest\<close>; the model returns the updated record.
\<close>

definition best_of_hotel :: "HotelDeal list \<Rightarrow> error + HotelDeal" where
  "best_of_hotel hotelDeals =
     (case reduce cheaper_deal hotelDeals of
        Inl e \<Rightarrow> Inl e
      | Inr cheapest \<Rightarrow>
          let cheapest1 = cheapest\<lparr>HotelDeal.firstTimeDeal :=
                Some (list_ex (\<lambda>d. list_ex is_first_time (HotelDeal.specialDeals d)) hotelDeals)\<rparr>
          in if length hotelDeals > 1
             then let prices = map HotelDeal.price hotelDeals;
                      maxPrice = Math_max prices
                  in Inr (cheapest1\<lparr>HotelDeal.discount := Some (Math_round (js_times
                        (js_divide (js_minus maxPrice (Finite (HotelDeal.price cheapest1))) maxPrice)
                        (Finite 100)))\<rparr>)
             else Inr cheapest1)"

fun best_of_hotels :: "HotelDeal list list \<Rightarrow> HotelDeal list \<Rightarrow> error + HotelDeal list" where
  "best_of_hotels [] bestDeals = Inr bestDeals"
| "best_of_hotels (hotelDeals # rest) bestDeals =
     (case best_of_hotel hotelDeals of
        Inl e \<Rightarrow> Inl e
      | Inr cheapest \<Rightarrow> best_of_hotels rest (bestDeals @ [cheapest]))"

text \<open>
  \<open>return bestDeals.sort((a, b) => a.price - b.price)\<close>: \<open>Array.prototype.sort\<close> is
  stable, as \<open>sort_key\<close> is.
\<close>

definition identifyBestDeals :: "HotelDeal list \<Rightarrow> error + HotelDeal list" where
  "identifyBestDeals deals =
     (case best_of_hotels (map snd (group_deals deals)) [] of
        Inl e \<Rightarrow> Inl e
      | Inr bestDeals \<Rightarrow> Inr (sort_key HotelDeal.price bestDeals))"

subsection \<open>The provider interfaces and the providers\<close>

record FlightSegment =
  from' :: string
  to' :: string
  airline :: string
  flightNumber :: string
  departure :: string
  arrival :: string
  duration :: string
  price :: real
  currency :: string

record FlightRoute =
  segments :: "FlightSegment list"
  totalPrice :: real
  totalDuration :: string
  layovers :: real
  source :: string

record Experience =
  name :: string
  location :: string
  price :: real
  currency :: string
  duration :: string
  rating :: real
  reviews :: real
  category :: string
  source :: string
  url :: string

text \<open>
  The outcome of an awaited promise, as \<open>Promise.allSettled\<close> reports it: fulfilled
  with a value, or rejected. The reason of a rejection is never read.
\<close>

datatype 'a settled = Fulfilled 'a | Rejected

text \<open>
  The provider methods (\<open>searchSkyscanner\<close>, \<open>searchAgoda\<close>, \<open>searchViator\<close> and so
  on) are placeholders for calls to external services; in the repository each returns
  the empty array. The model takes them as parameters, so that its theorems hold for
  whatever the services answer: each is a function from the arguments of the call to the
  outcome of its promise. \<open>flightSearches\<close>, \<open>hotelSearches\<close> and
  \<open>experienceSearches\<close> list the methods in the order of the arrays \<open>searches\<close>.
\<close>

record providers =
  flightSearches :: "(string \<Rightarrow> string \<Rightarrow> string \<Rightarrow> real \<Rightarrow> FlightRoute list settled) list"
  searchRoute :: "string \<Rightarrow> string \<Rightarrow> string \<Rightarrow> real \<Rightarrow> FlightRoute list settled"
  hotelSearches :: "(string \<Rightarrow> string \<Rightarrow> string \<Rightarrow> real \<Rightarrow> HotelDeal list settled) list"
  experienceSearches :: "(string \<Rightarrow> string option \<Rightarrow> Experience list settled) list"

text \<open>
  \<open>results.forEach((result) => { if (result.status === 'fulfilled') {
  routes.push(...result.value); } })\<close>, starting from the array \<open>acc\<close>.
\<close>

fun push_fulfilled :: "'a list \<Rightarrow> 'a list settled list \<Rightarrow> 'a list" where
  "push_fulfilled acc [] = acc"
| "push_fulfilled acc (Fulfilled v # rest) = push_fulfilled (acc @ v) rest"
| "push_fulfilled acc (Rejected # rest) = push_fulfilled acc rest"

subsection \<open>searchFlights and findMultiCityRoutes\<close>

definition hubs :: "string list" where
  "hubs = [''BKK'', ''SIN'', ''DXB'', ''DOH'', ''IST'', ''FRA'', ''AMS'', ''LHR'']"

text \<open>\<open>addDurations\<close> is a placeholder that returns its first argument.\<close>

definition addDurations :: "string \<Rightarrow> string \<Rightarrow> string" where
  "addDurations dur1 dur2 = dur1"

text \<open>
  One turn of the loop over the hubs: the routes it pushes. Both searches are awaited
  inside \<open>try\<close>; a rejection is caught and logged, and the hub contributes nothing.
  The sums are rounded to a double. (The numbers of a \<open>FlightRoute\<close> are finite in this
  model: a sum of \<open>2^1024\<close> or more, which is \<open>Infinity\<close> in JavaScript, is not
  modelled.)
\<close>

definition multi_city_via :: "providers \<Rightarrow> string \<Rightarrow> string \<Rightarrow> string \<Rightarrow> real \<Rightarrow> string \<Rightarrow> FlightRoute list" where
  "multi_city_via p origin dest day pax hub =
     (case searchRoute p origin hub day pax of
        Rejected \<Rightarrow> []
      | Fulfilled route1 \<Rightarrow>
          (case searchRoute p hub dest day pax of
             Rejected \<Rightarrow> []
           | Fulfilled route2 \<Rightarrow>
               (case (route1, route2) of
                  (r1 # rest1, r2 # rest2) \<Rightarrow>
                    [\<lparr>FlightRoute.segments = FlightRoute.segments r1 @ FlightRoute.segments r2,
                      FlightRoute.totalPrice =
                        round_double (FlightRoute.totalPrice r1 + FlightRoute.totalPrice r2),
                      FlightRoute.totalDuration =
                        addDurations (FlightRoute.totalDuration r1) (FlightRoute.totalDuration r2),
                      FlightRoute.layovers =
                        round_double
                          (round_double (FlightRoute.layovers r1 + FlightRoute.layovers r2) + 1),
                      FlightRoute.source = ''multi-city''\<rparr>]
                | _ \<Rightarrow> [])))"

definition findMultiCityRoutes :: "providers \<Rightarrow> string \<Rightarrow> string \<Rightarrow> string \<Rightarrow> real \<Rightarrow> FlightRoute list" where
  "findMultiCityRoutes p origin dest day pax = concat (map (multi_city_via p origin dest day pax) hubs)"

text \<open>
  \<open>searchFlights\<close>: all provider searches are started, \<open>Promise.allSettled\<close> awaits
  them, the fulfilled ones are collected, the multi-city routes are added when
  \<open>flexible\<close>, and the routes are sorted by price (\<open>Array.prototype.sort\<close> is stable).
  Nothing in it throws, so its own promise is fulfilled.
\<close>

definition searchFlights :: "providers \<Rightarrow> string \<Rightarrow> string \<Rightarrow> string \<Rightarrow> real \<Rightarrow> bool \<Rightarrow> FlightRoute list settled" where
  "searchFlights p origin dest day pax flex =
     (let routes = push_fulfilled [] (map (\<lambda>s. s origin dest day pax) (flightSearches p));
          routes' = (if flex then routes @ findMultiCityRoutes p origin dest day pax else routes)
      in Fulfilled (sort_key FlightRoute.totalPrice routes'))"

subsection \<open>searchHotels and searchExperiences\<close>

text \<open>
  \<open>return this.identifyBestDeals(deals)\<close>: were it to throw, the promise of
  \<open>searchHotels\<close> would be rejected.
\<close>

definition searchHotels :: "providers \<Rightarrow> string \<Rightarrow> string \<Rightarrow> string \<Rightarrow> real \<Rightarrow> HotelDeal list settled" where
  "searchHotels p place checkIn checkOut guests =
     (let deals = push_fulfilled [] (map (\<lambda>s. s place checkIn checkOut guests) (hotelSearches p))
      in case identifyBestDeals deals of
           Inl e \<Rightarrow> Rejected
         | Inr best \<Rightarrow> Fulfilled best)"

definition searchExperiences :: "providers \<Rightarrow> string \<Rightarrow> string option \<Rightarrow> Experience list settled" where
  "searchExperiences p place day =
     Fulfilled (sort_key Experience.price
       (push_fulfilled [] (map (\<lambda>s. s place day) (experienceSearches p))))"

section \<open>bookingAggregator.ts\<close>

subsection \<open>The query and the aggregated results\<close>

text \<open>
  The interface \<open>BookingQuery\<close>; its \<open>type\<close> is one of \<open>'flight'\<close>, \<open>'hotel'\<close>,
  \<open>'bus'\<close>, \<open>'train'\<close>, \<open>'ferry'\<close>, \<open>'experience'\<close> and \<open>'all'\<close>.
\<close>

datatype query_type =
  Type_flight | Type_hotel | Type_bus | Type_train | Type_ferry | Type_experience | Type_all

record Budget =
  min' :: "real option"
  max' :: "real option"
  currency :: string

record BookingQuery =
  type' :: query_type
  from' :: "string option"
  to' :: string
  date :: "string option"
  returnDate :: "string option"
  passengers :: "real option"
  flexible :: "bool option"
  budget :: "Budget option"

text \<open>
  \<open>searchAllSources\<close> returns a promise of \<open>any\<close>: what the providers returned, untyped.
  A \<open>provider_record\<close> is such a value with the shape it has at run time.
\<close>

datatype provider_record =
  FlightRouteRecord FlightRoute | HotelDealRecord HotelDeal | ExperienceRecord Experience

text \<open>The object that \<open>searchAllSources\<close> returns.\<close>

record SourceResults =
  flights :: "provider_record list"
  hotels :: "provider_record list"
  transport :: "provider_record list"
  experiences :: "provider_record list"

text \<open>
  The interface \<open>AggregatedResults\<close>. The \<open>item\<close> of a best deal is typed \<open>any\<close>;
  \<open>findBestDeals\<close> puts a normalized flight or hotel there. The \<open>experiences\<close> are
  passed on as the providers returned them.
\<close>

datatype deal_item = FlightItem NormalizedFlight | HotelItem NormalizedHotel

record BestDeal =
  type' :: string
  item :: deal_item
  savings :: "real option"
  reason :: string

record AggregatedResults =
  flights :: "NormalizedFlight list"
  hotels :: "NormalizedHotel list"
  transport :: "NormalizedTransport list"
  experiences :: "provider_record list"
  bestDeals :: "BestDeal list"
  sources :: "string list"
  lastUpdated :: string

subsection \<open>A provider record read as \<open>any\<close>\<close>

text \<open>
  The normalizers read properties by name. \<open>as_any\<close> gives, for a provider record, the
  properties of \<open>RawRecord\<close> that it has; the others read as \<open>undefined\<close>. A
  \<open>FlightRoute\<close> has no \<open>price\<close> and no \<open>duration\<close> of its own (it has \<open>totalPrice\<close>
  and \<open>totalDuration\<close>); the \<open>location\<close> of a \<open>HotelDeal\<close> or an \<open>Experience\<close> and
  the \<open>from\<close> and \<open>to\<close> of a flight segment are strings.
\<close>

definition segment_as_any :: "FlightSegment \<Rightarrow> RawSegment" where
  "segment_as_any s =
     no_segment_properties
       \<lparr>RawSegment.from' := Some (PlaceString (FlightSegment.from' s)),
        RawSegment.to' := Some (PlaceString (FlightSegment.to' s)),
        RawSegment.airline := Some (FlightSegment.airline s),
        RawSegment.flightNumber := Some (FlightSegment.flightNumber s),
        RawSegment.departure := Some (FlightSegment.departure s),
        RawSegment.arrival := Some (FlightSegment.arrival s),
        RawSegment.duration := Some (OfString (FlightSegment.duration s))\<rparr>"

fun as_any :: "provider_record \<Rightarrow> RawRecord" where
  "as_any (FlightRouteRecord r) =
     no_properties
       \<lparr>RawRecord.segments := Some (map segment_as_any (FlightRoute.segments r)),
        RawRecord.totalDuration := Some (OfString (FlightRoute.totalDuration r)),
        RawRecord.source := Some (FlightRoute.source r)\<rparr>"
| "as_any (HotelDealRecord h) =
     no_properties
       \<lparr>RawRecord.name := Some (HotelDeal.name h),
        RawRecord.location := Some (LocationString (HotelDeal.location h)),
        RawRecord.price := Some (HotelDeal.price h),
        RawRecord.currency := Some (HotelDeal.currency h),
        RawRecord.rating := Some (HotelDeal.rating h),
        RawRecord.reviews := Some (HotelDeal.reviews h),
        RawRecord.amenities := Some (HotelDeal.amenities h),
        RawRecord.cancellationPolicy := Some (HotelDeal.cancellationPolicy h),
        RawRecord.specialDeals := Some (HotelDeal.specialDeals h),
        RawRecord.source := Some (HotelDeal.source h),
        RawRecord.url := Some (HotelDeal.url h),
        RawRecord.firstTimeDeal := HotelDeal.firstTimeDeal h,
        RawRecord.discount := HotelDeal.discount h\<rparr>"
| "as_any (ExperienceRecord x) =
     no_properties
       \<lparr>RawRecord.name := Some (Experience.name x),
        RawRecord.location := Some (LocationString (Experience.location x)),
        RawRecord.price := Some (Experience.price x),
        RawRecord.currency := Some (Experience.currency x),
        RawRecord.duration := Some (OfString (Experience.duration x)),
        RawRecord.rating := Some (Experience.rating x),
        RawRecord.reviews := Some (Experience.reviews x),
        RawRecord.source := Some (Experience.source x),
        RawRecord.url := Some (Experience.url x)\<rparr>"

subsection \<open>searchAllSources\<close>

definition map_settled :: "('a \<Rightarrow> 'b) \<Rightarrow> 'a list settled \<Rightarrow> 'b list settled" where
  "map_settled f r = (case r of Fulfilled v \<Rightarrow> Fulfilled (map f v) | Rejected \<Rightarrow> Rejected)"

text \<open>
  \<open>results[i]?.status === 'fulfilled' ? results[i].value : []\<close>: an index past the end
  of \<open>results\<close> reads \<open>undefined\<close>, and the value is the empty array.
\<close>

definition value_at :: "'a list settled list \<Rightarrow> nat \<Rightarrow> 'a list" where
  "value_at results i =
     (if i < length results
      then (case results ! i of Fulfilled v \<Rightarrow> v | Rejected \<Rightarrow> [])
      else [])"

text \<open>
  The array \<open>searches\<close>: a search is pushed for each kind the query's type asks for, the
  flight search only when \<open>query.from\<close> is truthy. The transport search is
  \<open>Promise.resolve([])\<close>.
\<close>

definition searches :: "providers \<Rightarrow> BookingQuery \<Rightarrow> provider_record list settled list" where
  "searches p query =
     (if BookingQuery.type' query = Type_flight \<or> BookingQuery.type' query = Type_all
      then (case BookingQuery.from' query of
              None \<Rightarrow> []
            | Some origin \<Rightarrow>
                if truthy_string origin
                then [map_settled FlightRouteRecord
                        (searchFlights p origin (BookingQuery.to' query)
                           (js_or_default truthy_string (BookingQuery.date query) '''')
                           (js_or_default truthy_number (BookingQuery.passengers query) 1)
                           (js_or_default (\<lambda>b. b) (BookingQuery.flexible query) False))]
                else [])
      else [])
     @ (if BookingQuery.type' query = Type_hotel \<or> BookingQuery.type' query = Type_all
        then [map_settled HotelDealRecord
                (searchHotels p (BookingQuery.to' query)
                   (js_or_default truthy_string (BookingQuery.date query) '''')
                   (js_or_default truthy_string (BookingQuery.returnDate query) '''')
                   (js_or_default truthy_number (BookingQuery.passengers query) 2))]
        else [])
     @ (if BookingQuery.type' query = Type_bus \<or> BookingQuery.type' query = Type_train
           \<or> BookingQuery.type' query = Type_ferry \<or> BookingQuery.type' query = Type_all
        then [Fulfilled []]
        else [])
     @ (if BookingQuery.type' query = Type_experience \<or> BookingQuery.type' query = Type_all
        then [map_settled ExperienceRecord
                (searchExperiences p (BookingQuery.to' query) (BookingQuery.date query))]
        else [])"

text \<open>
  \<open>const results = await Promise.allSettled(searches)\<close>, and the four fields read by
  position.
\<close>

definition searchAllSources :: "providers \<Rightarrow> BookingQuery \<Rightarrow> SourceResults" where
  "searchAllSources p query =
     (let results = searches p query in
      \<lparr>SourceResults.flights = value_at results 0,
       SourceResults.hotels = value_at results 1,
       SourceResults.transport = value_at results 2,
       SourceResults.experiences = value_at results 3\<rparr>)"

subsection \<open>normalizeAll, mergeAll, findBestDeals, extractSources\<close>

text \<open>\<open>f.source\<close>: every provider record has a source.\<close>

fun source_of :: "provider_record \<Rightarrow> string" where
  "source_of (FlightRouteRecord r) = FlightRoute.source r"
| "source_of (HotelDealRecord h) = HotelDeal.source h"
| "source_of (ExperienceRecord x) = Experience.source x"

text \<open>
  \<open>xs.map((f) => normalize(f, f.source || 'unknown'))\<close>. Each call reads the run time
  anew: \<open>w k\<close> is what the run time answers during the \<open>k\<close>-th call of a normalizer
  in this search. A call that throws ends the \<open>map\<close>.
\<close>

fun normalize_each ::
  "(runtime \<Rightarrow> RawRecord \<Rightarrow> string \<Rightarrow> error + 'b) \<Rightarrow> (nat \<Rightarrow> runtime) \<Rightarrow> nat
     \<Rightarrow> provider_record list \<Rightarrow> error + 'b list" where
  "normalize_each normalizer w k [] = Inr []"
| "normalize_each normalizer w k (f # rest) =
     (case normalizer (w k) (as_any f)
             (js_or_default truthy_string (Some (source_of f)) ''unknown'') of
        Inl e \<Rightarrow> Inl e
      | Inr n \<Rightarrow>
          (case normalize_each normalizer w (Suc k) rest of
             Inl e \<Rightarrow> Inl e
           | Inr ns \<Rightarrow> Inr (n # ns)))"

text \<open>The object that \<open>normalizeAll\<close> and \<open>mergeAll\<close> return.\<close>

record Normalized =
  flights :: "NormalizedFlight list"
  hotels :: "NormalizedHotel list"
  transport :: "NormalizedTransport list"
  experiences :: "provider_record list"

text \<open>
  \<open>normalizeAll\<close> normalizes the flights, then the hotels, then the transport results;
  the calls are numbered in this order.
\<close>

definition normalizeAll :: "(nat \<Rightarrow> runtime) \<Rightarrow> SourceResults \<Rightarrow> error + Normalized" where
  "normalizeAll w results =
     (case normalize_each normalizeFlight w 0 (SourceResults.flights results) of
        Inl e \<Rightarrow> Inl e
      | Inr fs \<Rightarrow>
     (case normalize_each (\<lambda>rt data src. Inr (normalizeHotel rt data src)) w
             (length (SourceResults.flights results)) (SourceResults.hotels results) of
        Inl e \<Rightarrow> Inl e
      | Inr hs \<Rightarrow>
     (case normalize_each normalizeTransport w
             (length (SourceResults.flights results) + length (SourceResults.hotels results))
             (SourceResults.transport results) of
        Inl e \<Rightarrow> Inl e
      | Inr ts \<Rightarrow>
          Inr \<lparr>Normalized.flights = fs, Normalized.hotels = hs, Normalized.transport = ts,
               Normalized.experiences = SourceResults.experiences results\<rparr>)))"

text \<open>\<open>mergeAll\<close> merges each kind with \<open>mergeDuplicates\<close>.\<close>

definition mergeAll :: "Normalized \<Rightarrow> error + Normalized" where
  "mergeAll normalized =
     (case mergeDuplicates flight_view (Normalized.flights normalized) of
        Inl e \<Rightarrow> Inl e
      | Inr fs \<Rightarrow>
     (case mergeDuplicates hotel_view (Normalized.hotels normalized) of
        Inl e \<Rightarrow> Inl e
      | Inr hs \<Rightarrow>
     (case mergeDuplicates transport_view (Normalized.transport normalized) of
        Inl e \<Rightarrow> Inl e
      | Inr ts \<Rightarrow>
          Inr \<lparr>Normalized.flights = fs, Normalized.hotels = hs, Normalized.transport = ts,
               Normalized.experiences = Normalized.experiences normalized\<rparr>)))"

text \<open>
  The comparison \<open>a > b\<close> of two numbers: false when either is \<open>NaN\<close>.
\<close>

fun js_greater :: "number \<Rightarrow> number \<Rightarrow> bool" where
  "js_greater NaN y = False"
| "js_greater x NaN = False"
| "js_greater (Finite a) (Finite b) = (a > b)"
| "js_greater PosInfinity PosInfinity = False"
| "js_greater PosInfinity y = True"
| "js_greater x PosInfinity = False"
| "js_greater NegInfinity y = False"
| "js_greater x NegInfinity = True"

text \<open>
  \<open>(h.rating.value * h.rating.reviews) / h.price.amount\<close>, the score of a hotel.
\<close>

definition score :: "NormalizedHotel \<Rightarrow> number" where
  "score h =
     js_divide
       (js_times (Finite (Rating.value' (NormalizedHotel.rating h)))
          (Finite (Rating.reviews (NormalizedHotel.rating h))))
       (Finite (HotelPrice.amount (NormalizedHotel.price h)))"

definition better_value :: "NormalizedHotel \<Rightarrow> NormalizedHotel \<Rightarrow> NormalizedHotel" where
  "better_value best current = (if js_greater (score current) (score best) then current else best)"

definition has_first_time_offer :: "NormalizedHotel \<Rightarrow> bool" where
  "has_first_time_offer h =
     list_ex (\<lambda>offer. SpecialOffer.type' offer = ''first-time'') (NormalizedHotel.specialOffers h)"

text \<open>
  \<open>findBestDeals\<close>: the cheapest flight when there are flights; when there are hotels,
  the hotel of the best score and the first hotel with a first-time offer, if any.
\<close>

definition findBestDeals :: "Normalized \<Rightarrow> error + BestDeal list" where
  "findBestDeals merged =
     (case (if length (Normalized.flights merged) > 0
            then (case reduce (cheaper flight_view) (Normalized.flights merged) of
                    Inl e \<Rightarrow> Inl e
                  | Inr cheapest \<Rightarrow>
                      Inr [\<lparr>BestDeal.type' = ''flight'', item = FlightItem cheapest,
                            savings = None, reason = ''Lowest price''\<rparr>])
            else Inr []) of
        Inl e \<Rightarrow> Inl e
      | Inr deals \<Rightarrow>
          if length (Normalized.hotels merged) > 0
          then (case reduce better_value (Normalized.hotels merged) of
                  Inl e \<Rightarrow> Inl e
                | Inr bestHotel \<Rightarrow>
                    Inr (deals
                      @ [\<lparr>BestDeal.type' = ''hotel'', item = HotelItem bestHotel,
                           savings = None, reason = ''Best value (rating/price)''\<rparr>]
                      @ (case find has_first_time_offer (Normalized.hotels merged) of
                           None \<Rightarrow> []
                         | Some firstTime \<Rightarrow>
                             [\<lparr>BestDeal.type' = ''hotel'', item = HotelItem firstTime,
                               savings = None, reason = ''First-time customer special''\<rparr>])))
          else Inr deals)"

text \<open>
  \<open>extractSources\<close> adds the \<open>source\<close> of every flight, hotel and transport result to a
  \<open>Set\<close>, which keeps the order of the first insertions.
\<close>

definition add_to_set :: "string list \<Rightarrow> string \<Rightarrow> string list" where
  "add_to_set s x = (if x \<in> set s then s else s @ [x])"

definition extractSources :: "SourceResults \<Rightarrow> string list" where
  "extractSources results =
     foldl add_to_set []
       (map source_of (SourceResults.flights results)
        @ map source_of (SourceResults.hotels results)
        @ map source_of (SourceResults.transport results))"

subsection \<open>search\<close>

text \<open>
  The cache is a \<open>Map\<close> from the cache key to the data and the time it was stored.
  \<open>search\<close> also reads \<open>JSON.stringify\<close> for the key and \<open>Date.now()\<close>, once when it
  checks the cache and once when it stores: \<open>platform\<close> holds what the run time
  answers to these during one call of \<open>search\<close>, and the \<open>world\<close> of the normalizer
  calls.
\<close>

record CacheEntry =
  data :: AggregatedResults
  timestamp :: int

record platform =
  stringify :: "BookingQuery \<Rightarrow> string"
  now_at_check :: int
  now_at_store :: int
  world :: "nat \<Rightarrow> runtime"

definition cacheTTL :: int where
  "cacheTTL = 60 * 60 * 1000"

definition generateCacheKey :: "platform \<Rightarrow> BookingQuery \<Rightarrow> string" where
  "generateCacheKey pf query = stringify pf query"

text \<open>
  The body of \<open>search\<close> after the cache check and before the result is stored: search
  all sources, normalize, merge, find the best deals, compile. The time of
  \<open>lastUpdated\<close> is read after the last normalizer call.
\<close>

definition aggregate :: "platform \<Rightarrow> providers \<Rightarrow> BookingQuery \<Rightarrow> error + AggregatedResults" where
  "aggregate pf p query =
     (let results = searchAllSources p query in
      case normalizeAll (world pf) results of
        Inl e \<Rightarrow> Inl e
      | Inr normalized \<Rightarrow>
     (case mergeAll normalized of
        Inl e \<Rightarrow> Inl e
      | Inr merged \<Rightarrow>
     (case findBestDeals merged of
        Inl e \<Rightarrow> Inl e
      | Inr deals \<Rightarrow>
          Inr \<lparr>AggregatedResults.flights = Normalized.flights merged,
               AggregatedResults.hotels = Normalized.hotels merged,
               AggregatedResults.transport = Normalized.transport merged,
               AggregatedResults.experiences = Normalized.experiences merged,
               bestDeals = deals,
               sources = extractSources results,
               AggregatedResults.lastUpdated =
                 toISOString (world pf
                   (length (SourceResults.flights results) + length (SourceResults.hotels results)
                    + length (SourceResults.transport results)))\<rparr>)))"

text \<open>
  The cache check at the head of \<open>search\<close>:
  \<open>const cached = this.cache.get(cacheKey);
  if (cached && Date.now() - cached.timestamp < this.cacheTTL) return cached.data;\<close>
  \<open>cache_get\<close> is the data returned, or \<open>None\<close> when the search goes on.
\<close>

definition cache_get :: "platform \<Rightarrow> (string \<rightharpoonup> CacheEntry) \<Rightarrow> BookingQuery \<Rightarrow> AggregatedResults option" where
  "cache_get pf cache query =
     (case cache (generateCacheKey pf query) of
        None \<Rightarrow> None
      | Some cached \<Rightarrow>
          if now_at_check pf - timestamp cached < cacheTTL then Some (data cached) else None)"

text \<open>
  \<open>this.cache.set(cacheKey, { data: aggregated, timestamp: Date.now() })\<close>
\<close>

definition cache_put ::
  "platform \<Rightarrow> (string \<rightharpoonup> CacheEntry) \<Rightarrow> BookingQuery \<Rightarrow> AggregatedResults
     \<Rightarrow> (string \<rightharpoonup> CacheEntry)" where
  "cache_put pf cache query aggregated =
     cache(generateCacheKey pf query \<mapsto> \<lparr>data = aggregated, timestamp = now_at_store pf\<rparr>)"

text \<open>
  \<open>search\<close> returns the outcome of its promise and the cache as it leaves it. When the
  computation throws, nothing is stored.
\<close>

definition search ::
  "platform \<Rightarrow> providers \<Rightarrow> (string \<rightharpoonup> CacheEntry) \<Rightarrow> BookingQuery
     \<Rightarrow> (error + AggregatedResults) \<times> (string \<rightharpoonup> CacheEntry)" where
  "search pf p cache query =
     (case cache_get pf cache query of
        Some cached_data \<Rightarrow> (Inr cached_data, cache)
      | None \<Rightarrow>
          (case aggregate pf p query of
             Inl e \<Rightarrow> (Inl e, cache)
           | Inr aggregated \<Rightarrow> (Inr aggregated, cache_put pf cache query aggregated)))"

section \<open>Definitions for the proofs\<close>

subsection \<open>Doubles\<close>

text \<open>
  A real that is the value of a finite double: rounding leaves it as it is, and it lies
  between \<open>-2^1024\<close> and \<open>2^1024\<close>.
\<close>

definition is_double :: "real \<Rightarrow> bool" where
  "is_double x = (round_double x = x \<and> \<bar>x\<bar> < 2 ^ 1024)"

subsection \<open>Invariants of the grouping\<close>

text \<open>
  Every group of \<open>grouped\<close> is non-empty and holds results of the group's key only.
\<close>

definition well_grouped :: "('a \<Rightarrow> string) \<Rightarrow> (string \<times> 'a list) list \<Rightarrow> bool" where
  "well_grouped kf g = list_all (\<lambda>(k, grp). grp \<noteq> [] \<and> list_all (\<lambda>x. kf x = k) grp) g"

text \<open>
  What \<open>representative\<close> returns on a non-empty group, without the error: the first
  element when the group has one, the result of the \<open>reduce\<close> otherwise.
\<close>

definition pick :: "'a T_view \<Rightarrow> 'a list \<Rightarrow> 'a" where
  "pick v grp = foldl (cheaper v) (hd grp) (tl grp)"

subsection \<open>The representative of the specification\<close>

text \<open>
  JavaScript compares strings by code unit; on the ASCII strings of this model that is
  the order of the characters' codes.
\<close>

fun lexical_less :: "string \<Rightarrow> string \<Rightarrow> bool" where
  "lexical_less [] [] = False"
| "lexical_less [] (y # ys) = True"
| "lexical_less (x # xs) [] = False"
| "lexical_less (x # xs) (y # ys) =
     ((of_char x :: nat) < of_char y \<or> (x = y \<and> lexical_less xs ys))"

text \<open>
  Following the specification's words (section 4.3, step 3), not the code: within a
  group the representative is the offer with the minimum \<open>price.amount\<close>, ties broken
  by the earliest \<open>lastUpdated\<close>, then by source name in lexical order.
  \<open>spec_precedes a b\<close> says that \<open>a\<close> comes strictly before \<open>b\<close> in that order, so
  that the specification's representative is a member no other member precedes.
\<close>

definition spec_precedes :: "NormalizedFlight \<Rightarrow> NormalizedFlight \<Rightarrow> bool" where
  "spec_precedes a b =
     (FlightPrice.amount (NormalizedFlight.price a) < FlightPrice.amount (NormalizedFlight.price b) \<or>
      (FlightPrice.amount (NormalizedFlight.price a) = FlightPrice.amount (NormalizedFlight.price b) \<and>
        (lexical_less (NormalizedFlight.lastUpdated a) (NormalizedFlight.lastUpdated b) \<or>
         (NormalizedFlight.lastUpdated a = NormalizedFlight.lastUpdated b \<and>
          lexical_less (NormalizedFlight.source a) (NormalizedFlight.source b)))))"

subsection \<open>Example offers\<close>

text \<open>
  A one-segment flight from Athens (ATH) to Bangkok (BKK) as \<open>normalizeFlight\<close> shapes
  it, with the source, the departure time, the price and the time of normalization left
  open.
\<close>

definition ath_bkk_flight :: "string \<Rightarrow> string \<Rightarrow> real \<Rightarrow> string \<Rightarrow> NormalizedFlight" where
  "ath_bkk_flight src dep amt upd =
     \<lparr>NormalizedFlight.id' = src @ ''-1'',
      NormalizedFlight.segments =
        [\<lparr>Segment.from' =
            \<lparr>Place.code = ''ATH'', Place.name = ''Athens International'', Place.city = ''Athens''\<rparr>,
          Segment.to' =
            \<lparr>Place.code = ''BKK'', Place.name = ''Suvarnabhumi'', Place.city = ''Bangkok''\<rparr>,
          Segment.airline = ''TG'', Segment.flightNumber = ''TG917'',
          Segment.departure = \<lparr>datetime = dep, timezone = ''UTC''\<rparr>,
          Segment.arrival = \<lparr>datetime = dep, timezone = ''UTC''\<rparr>,
          Segment.duration = Finite 600, Segment.aircraft = None\<rparr>],
      NormalizedFlight.price =
        \<lparr>FlightPrice.amount = amt, FlightPrice.currency = ''EUR'',
         FlightPrice.originalCurrency = None, FlightPrice.exchangeRate = None\<rparr>,
      NormalizedFlight.totalDuration = Finite 600, NormalizedFlight.layovers = [],
      NormalizedFlight.source = src, NormalizedFlight.bookingUrl = ''#'',
      NormalizedFlight.baggage = Some \<lparr>included = False, allowance = None\<rparr>,
      NormalizedFlight.refundable = False, NormalizedFlight.lastUpdated = upd\<rparr>"

definition price_tie_group :: "NormalizedFlight list" where
  "price_tie_group =
     [ath_bkk_flight ''skyscanner'' ''2025-03-01T08:00:00Z'' 500 ''2025-01-01T00:00:00.000Z'',
      ath_bkk_flight ''kiwi'' ''2025-03-01T08:00:00Z'' 480 ''2025-01-03T00:00:00.000Z'',
      ath_bkk_flight ''momondo'' ''2025-03-01T08:00:00Z'' 480 ''2025-01-02T00:00:00.000Z'']"

definition tied_group :: "NormalizedFlight list" where
  "tied_group =
     [ath_bkk_flight ''skyscanner'' ''2025-03-01T08:00:00Z'' 500 ''2025-01-02T00:00:00.000Z'',
      ath_bkk_flight ''kiwi'' ''2025-03-01T08:00:00Z'' 500 ''2025-01-01T00:00:00.000Z'']"

text \<open>
  A \<open>HotelDeal\<close> read as the \<open>T\<close> of \<open>mergeDuplicates\<close>, so that the lemmas about
  \<open>cheaper\<close> apply to \<open>cheaper_deal\<close>.
\<close>

definition deal_view :: "HotelDeal T_view" where
  "deal_view = \<lparr>price_amount = HotelDeal.price, prop_from = (\<lambda>d. JSUndefined),
     prop_to = (\<lambda>d. JSUndefined), prop_departure = (\<lambda>d. JSUndefined)\<rparr>"

text \<open>The hotel of the specification's lodging scenario, as one provider returns it.\<close>

definition grand_palace :: "string \<Rightarrow> real \<Rightarrow> HotelDeal" where
  "grand_palace src p =
     \<lparr>HotelDeal.name = ''Grand Palace Hotel'', HotelDeal.location = ''Bangkok'',
      HotelDeal.price = p, HotelDeal.currency = ''USD'', HotelDeal.rating = 4,
      HotelDeal.reviews = 120, HotelDeal.amenities = [],
      HotelDeal.cancellationPolicy = ''Free cancellation'', HotelDeal.specialDeals = [],
      HotelDeal.source = src, HotelDeal.url = ''#'', HotelDeal.firstTimeDeal = None,
      HotelDeal.discount = None\<rparr>"

text \<open>A bus connection whose raw record gives no duration.\<close>

definition bus_without_duration :: RawRecord where
  "bus_without_duration =
     no_properties\<lparr>RawRecord.id' := Some ''42'', RawRecord.type' := Some ''bus'',
       RawRecord.from' := Some ''Bangkok'', RawRecord.to' := Some ''Chiang Mai'',
       RawRecord.price := Some 25, RawRecord.currency := Some ''USD''\<rparr>"

text \<open>A raw flight record that gives a price and a currency and nothing else.\<close>

definition raw_flight_500 :: RawRecord where
  "raw_flight_500 = no_properties\<lparr>RawRecord.price := Some 500, RawRecord.currency := Some ''EUR''\<rparr>"

text \<open>A provider record that is an \<open>Experience\<close>.\<close>

definition is_experience :: "provider_record \<Rightarrow> bool" where
  "is_experience r = (case r of ExperienceRecord x \<Rightarrow> True | _ \<Rightarrow> False)"

text \<open>
  The providers with every failure taken away: a provider whose promise is rejected is
  replaced by one that returns no records.
\<close>

definition no_failure :: "'a list settled \<Rightarrow> 'a list settled" where
  "no_failure r = (case r of Fulfilled v \<Rightarrow> Fulfilled v | Rejected \<Rightarrow> Fulfilled [])"

definition without_failures :: "providers \<Rightarrow> providers" where
  "without_failures p =
     \<lparr>flightSearches = map (\<lambda>s a b c d. no_failure (s a b c d)) (flightSearches p),
      searchRoute = (\<lambda>a b c d. no_failure (searchRoute p a b c d)),
      hotelSearches = map (\<lambda>s a b c d. no_failure (s a b c d)) (hotelSearches p),
      experienceSearches = map (\<lambda>s a b. no_failure (s a b)) (experienceSearches p)\<rparr>"

text \<open>
  The providers as the repository has them: fifteen flight searches, \<open>searchRoute\<close>,
  fifteen hotel searches and four experience searches, each returning the empty array.
\<close>

definition repository_providers :: providers where
  "repository_providers =
     \<lparr>flightSearches = replicate 15 (\<lambda>a b c d. Fulfilled []),
      searchRoute = (\<lambda>a b c d. Fulfilled []),
      hotelSearches = replicate 15 (\<lambda>a b c d. Fulfilled []),
      experienceSearches = replicate 4 (\<lambda>a b. Fulfilled [])\<rparr>"

text \<open>
  One hotel provider (Agoda) that returns the Grand Palace Hotel at 150, a flight
  provider that fails, and no other provider.
\<close>

definition one_hotel_provider :: providers where
  "one_hotel_provider =
     \<lparr>flightSearches = [\<lambda>a b c d. Rejected],
      searchRoute = (\<lambda>a b c d. Rejected),
      hotelSearches = [\<lambda>a b c d. Fulfilled [grand_palace ''agoda'' 150]],
      experienceSearches = []\<rparr>"

text \<open>A query for hotels in Bangkok, and a query for flights without origin or destination.\<close>

definition hotel_query :: BookingQuery where
  "hotel_query =
     \<lparr>BookingQuery.type' = Type_hotel, BookingQuery.from' = None, BookingQuery.to' = ''Bangkok'',
      date = Some ''2025-03-01'', returnDate = Some ''2025-03-05'', passengers = Some 2,
      flexible = None, budget = None\<rparr>"

definition malformed_query :: BookingQuery where
  "malformed_query =
     \<lparr>BookingQuery.type' = Type_flight, BookingQuery.from' = None, BookingQuery.to' = '''',
      date = None, returnDate = None, passengers = None, flexible = None, budget = None\<rparr>"

text \<open>
  A platform whose clock stands at \<open>t\<close> (milliseconds since 1970), with the
  serializer \<open>s\<close> and the normalizers' run time \<open>w\<close>.
\<close>

definition platform_at :: "(BookingQuery \<Rightarrow> string) \<Rightarrow> (nat \<Rightarrow> runtime) \<Rightarrow> int \<Rightarrow> platform" where
  "platform_at s w t = \<lparr>stringify = s, now_at_check = t, now_at_store = t, world = w\<rparr>"

text \<open>
  Results without offers, and a cache that holds them for the hotel query since
  1735686000000, one hour before midnight of 1 January 2025 (1735689600000).
\<close>

definition no_results :: AggregatedResults where
  "no_results =
     \<lparr>AggregatedResults.flights = [], AggregatedResults.hotels = [],
      AggregatedResults.transport = [], AggregatedResults.experiences = [],
      bestDeals = [], sources = [], AggregatedResults.lastUpdated = ''2024-12-31T23:00:00.000Z''\<rparr>"

definition hour_old_cache :: "(BookingQuery \<Rightarrow> string) \<Rightarrow> (string \<rightharpoonup> CacheEntry)" where
  "hour_old_cache s = [s hotel_query \<mapsto> \<lparr>data = no_results, timestamp = 1735686000000\<rparr>]"

text \<open>
  What \<open>normalizeFlight\<close> makes of the Grand Palace Hotel as Agoda returns it, under the
  run time \<open>rt\<close>.
\<close>

definition grand_palace_flight :: "runtime \<Rightarrow> NormalizedFlight" where
  "grand_palace_flight rt =
     \<lparr>NormalizedFlight.id' = ''agoda-'' @ random36 rt,
      NormalizedFlight.segments = [],
      NormalizedFlight.price =
        \<lparr>FlightPrice.amount = 150, FlightPrice.currency = ''USD'',
         FlightPrice.originalCurrency = None, FlightPrice.exchangeRate = None\<rparr>,
      NormalizedFlight.totalDuration = Finite 0, NormalizedFlight.layovers = [],
      NormalizedFlight.source = ''agoda'', NormalizedFlight.bookingUrl = ''#'',
      NormalizedFlight.baggage = Some \<lparr>included = False, allowance = None\<rparr>,
      NormalizedFlight.refundable = False,
      NormalizedFlight.lastUpdated = toISOString rt\<rparr>"

text \<open>
  A direct flight from Athens to Bangkok as a flight provider returns it (a
  \<open>FlightRoute\<close>), leaving at 08:00 of the day \<open>day\<close>, at the total price \<open>amt\<close>.
\<close>

definition ath_bkk_route :: "string \<Rightarrow> string \<Rightarrow> real \<Rightarrow> FlightRoute" where
  "ath_bkk_route src day amt =
     \<lparr>FlightRoute.segments =
        [\<lparr>FlightSegment.from' = ''ATH'', FlightSegment.to' = ''BKK'',
          FlightSegment.airline = ''TG'', FlightSegment.flightNumber = ''TG917'',
          FlightSegment.departure = day @ ''T08:00:00Z'',
          FlightSegment.arrival = day @ ''T18:00:00Z'',
          FlightSegment.duration = ''10h'', FlightSegment.price = amt,
          FlightSegment.currency = ''EUR''\<rparr>],
      FlightRoute.totalPrice = amt, FlightRoute.totalDuration = ''10h'',
      FlightRoute.layovers = 0, FlightRoute.source = src\<rparr>"

text \<open>
  Two flight providers: the first (Skyscanner) returns two such flights, of 1 March at
  500 and of 2 March at 480; the second fails. \<open>searchRoute\<close> fails too, and there is
  no other provider.
\<close>

definition two_flights_one_failure :: providers where
  "two_flights_one_failure =
     \<lparr>flightSearches =
        [\<lambda>a b c d. Fulfilled [ath_bkk_route ''skyscanner'' ''2025-03-01'' 500,
                               ath_bkk_route ''skyscanner'' ''2025-03-02'' 480],
         \<lambda>a b c d. Rejected],
      searchRoute = (\<lambda>a b c d. Rejected),
      hotelSearches = [],
      experienceSearches = []\<rparr>"

text \<open>A query for flights from Athens to Bangkok on 1 March, with flexible dates.\<close>

definition flexible_flight_query :: BookingQuery where
  "flexible_flight_query =
     \<lparr>BookingQuery.type' = Type_flight, BookingQuery.from' = Some ''ATH'',
      BookingQuery.to' = ''BKK'', date = Some ''2025-03-01'', returnDate = None,
      passengers = Some 1, flexible = Some True, budget = None\<rparr>"

text \<open>
  What \<open>normalizeFlight\<close> makes of such a flight under the run time \<open>rt\<close>. The
  airports are lost (a segment's \<open>from\<close> and \<open>to\<close> are strings, and the normalizer
  reads \<open>fromCode\<close> or \<open>from.code\<close>), and so is the price (the normalizer reads
  \<open>price\<close>, the route has \<open>totalPrice\<close>).
\<close>

definition ath_bkk_offer :: "runtime \<Rightarrow> string \<Rightarrow> string \<Rightarrow> NormalizedFlight" where
  "ath_bkk_offer rt src day =
     \<lparr>NormalizedFlight.id' = src @ ''-'' @ random36 rt,
      NormalizedFlight.segments =
        [\<lparr>Segment.from' = \<lparr>Place.code = '''', Place.name = '''', Place.city = ''''\<rparr>,
          Segment.to' = \<lparr>Place.code = '''', Place.name = '''', Place.city = ''''\<rparr>,
          Segment.airline = ''TG'', Segment.flightNumber = ''TG917'',
          Segment.departure = \<lparr>datetime = day @ ''T08:00:00Z'', timezone = ''UTC''\<rparr>,
          Segment.arrival = \<lparr>datetime = day @ ''T18:00:00Z'', timezone = ''UTC''\<rparr>,
          Segment.duration = Finite 600, Segment.aircraft = None\<rparr>],
      NormalizedFlight.price =
        \<lparr>FlightPrice.amount = 0, FlightPrice.currency = ''USD'',
         FlightPrice.originalCurrency = None, FlightPrice.exchangeRate = None\<rparr>,
      NormalizedFlight.totalDuration = Finite 600, NormalizedFlight.layovers = [],
      NormalizedFlight.source = src, NormalizedFlight.bookingUrl = ''#'',
      NormalizedFlight.baggage = Some \<lparr>included = False, allowance = None\<rparr>,
      NormalizedFlight.refundable = False,
      NormalizedFlight.lastUpdated = toISOString rt\<rparr>"

subsection \<open>Two runs of the same search\<close>

text \<open>
  An offer without the two fields that hold what the clock and the random generator
  answered: \<open>id\<close> and \<open>lastUpdated\<close> are set to the empty string. Two offers are
  equal up to these two fields when their \<open>unstamped\<close> forms are equal. The same for
  a best deal (its item), for the object of \<open>normalizeAll\<close> and \<open>mergeAll\<close>, and for
  the aggregated results, whose own \<open>lastUpdated\<close> is a reading of the clock too.
\<close>

definition unstamped_flight :: "NormalizedFlight \<Rightarrow> NormalizedFlight" where
  "unstamped_flight f = f\<lparr>NormalizedFlight.id' := [], NormalizedFlight.lastUpdated := []\<rparr>"

definition unstamped_hotel :: "NormalizedHotel \<Rightarrow> NormalizedHotel" where
  "unstamped_hotel h = h\<lparr>NormalizedHotel.id' := [], NormalizedHotel.lastUpdated := []\<rparr>"

definition unstamped_transport :: "NormalizedTransport \<Rightarrow> NormalizedTransport" where
  "unstamped_transport t = t\<lparr>NormalizedTransport.id' := [], NormalizedTransport.lastUpdated := []\<rparr>"

definition unstamped_deal :: "BestDeal \<Rightarrow> BestDeal" where
  "unstamped_deal d =
     d\<lparr>item := (case item d of
                   FlightItem f \<Rightarrow> FlightItem (unstamped_flight f)
                 | HotelItem h \<Rightarrow> HotelItem (unstamped_hotel h))\<rparr>"

definition unstamped :: "Normalized \<Rightarrow> Normalized" where
  "unstamped n =
     \<lparr>Normalized.flights = map unstamped_flight (Normalized.flights n),
      Normalized.hotels = map unstamped_hotel (Normalized.hotels n),
      Normalized.transport = map unstamped_transport (Normalized.transport n),
      Normalized.experiences = Normalized.experiences n\<rparr>"

definition unstamped_results :: "AggregatedResults \<Rightarrow> AggregatedResults" where
  "unstamped_results a =
     \<lparr>AggregatedResults.flights = map unstamped_flight (AggregatedResults.flights a),
      AggregatedResults.hotels = map unstamped_hotel (AggregatedResults.hotels a),
      AggregatedResults.transport = map unstamped_transport (AggregatedResults.transport a),
      AggregatedResults.experiences = AggregatedResults.experiences a,
      bestDeals = map unstamped_deal (bestDeals a),
      sources = sources a,
      AggregatedResults.lastUpdated = []\<rparr>"

text \<open>
  Another run under the run time \<open>w\<close>: at the \<open>k\<close>-th call of a normalizer the clock
  reads \<open>t k\<close> and the random generator draws \<open>r k\<close>; everything else is as in \<open>w\<close>.
\<close>

definition rerun :: "(nat \<Rightarrow> runtime) \<Rightarrow> (nat \<Rightarrow> string) \<Rightarrow> (nat \<Rightarrow> string) \<Rightarrow> nat \<Rightarrow> runtime" where
  "rerun w t r k = (w k)\<lparr>toISOString := t k, random36 := r k\<rparr>"

section \<open>Properties of the rounding\<close>

lemma bit_length_0 [simp]: "bit_length 0 = 0"
  by (simp add: bit_length.simps)

lemma bit_length_numeral [simp]:
  "bit_length (numeral k) = Suc (bit_length (numeral k div 2))"
  by (subst bit_length.simps) simp

lemma bit_length_Suc0 [simp]: "bit_length (Suc 0) = 1"
  by (subst bit_length.simps) simp

lemma bit_length_1 [simp]: "bit_length 1 = 1"
  using bit_length_Suc0 by simp

text \<open>
  A positive number \<open>n\<close> with \<open>b\<close> binary digits is at least \<open>2^(b - 1)\<close> and less than
  \<open>2^b\<close>.
\<close>

lemma bit_length_bounds:
  "0 < n \<Longrightarrow> 2 ^ (bit_length n - 1) \<le> n \<and> n < 2 ^ bit_length n"
proof (induction n rule: bit_length.induct)
  case (1 n)
  show ?case
  proof (cases "n div 2 = 0")
    case True
    then have "n = 1" using "1.prems" by (simp add: div_eq_0_iff) 
    then show ?thesis by simp
  next
    case False
    then have pos: "0 < n div 2" by simp
    have n0: "n \<noteq> 0" using "1.prems" by simp
    have ih: "2 ^ (bit_length (n div 2) - 1) \<le> n div 2 \<and> n div 2 < 2 ^ bit_length (n div 2)"
      using "1.IH"[OF n0 pos] .
    have b: "bit_length n = Suc (bit_length (n div 2))"
      using n0 by (subst bit_length.simps) simp
    have bpos: "0 < bit_length (n div 2)"
      using pos by (subst bit_length.simps) simp
    have lo: "2 ^ bit_length (n div 2) \<le> n"
    proof -
      have "2 * 2 ^ (bit_length (n div 2) - 1) \<le> 2 * (n div 2)" using ih by simp
      moreover have "(2::nat) * 2 ^ (bit_length (n div 2) - 1) = 2 ^ bit_length (n div 2)"
        using bpos by (cases "bit_length (n div 2)") simp_all
      ultimately show ?thesis by linarith
    qed
    have hi: "n < 2 * 2 ^ bit_length (n div 2)"
    proof -
      have "Suc (n div 2) \<le> 2 ^ bit_length (n div 2)" using ih by simp
      then have "2 * Suc (n div 2) \<le> 2 * 2 ^ bit_length (n div 2)" by simp
      moreover have "n < 2 * Suc (n div 2)" by presburger
      ultimately show ?thesis by linarith
    qed
    show ?thesis using lo hi by (simp add: b)
  qed
qed

lemma round_half_even_of_int [simp]: "round_half_even (of_int k) = k"
  by (simp add: round_half_even_def)

text \<open>
  A natural number below \<open>2^53\<close> is a double: rounding leaves it as it is.
\<close>

lemma round_double_nat:
  assumes "n < 2 ^ 53"
  shows "round_double (real n) = real n"
proof (cases "n = 0")
  case True
  then show ?thesis by (simp add: round_double_def)
next
  case False
  then have pos: "0 < n" by simp
  define b where "b = bit_length n"
  have bb: "2 ^ (b - 1) \<le> n" "n < 2 ^ b" using bit_length_bounds[OF pos] by (simp_all add: b_def)
  have b1: "1 \<le> b" using bb(2) pos by (cases b) simp_all
  have b53: "b \<le> 53"
  proof (rule ccontr)
    assume "\<not> b \<le> 53"
    then have "53 \<le> b - 1" by simp
    then have "(2::nat) ^ 53 \<le> 2 ^ (b - 1)" by (rule power_increasing) simp
    then show False using bb(1) assms by linarith
  qed
  have e: "exponent (real n) = int b - 1"
    using pos by (simp add: exponent_def b_def)
  define k where "k = 53 - b"
  have u: "pow2 (max (exponent (real n)) (- 1022) - 52) = 1 / 2 ^ k"
  proof (cases "b = 53")
    case True
    then show ?thesis by (simp add: e pow2_def k_def)
  next
    case False
    then have "int b - 1 - 52 < 0" using b53 by simp
    moreover have "nat (- (int b - 1 - 52)) = k" using b53 by (simp add: k_def)
    ultimately show ?thesis using b1 by (simp add: e pow2_def max_def)
  qed
  have q: "real n / (1 / 2 ^ k) = of_int (int (n * 2 ^ k))" by simp
  have "round_positive (real n) = real n"
    unfolding round_positive_def u Let_def q round_half_even_of_int by simp
  then show ?thesis using pos by (simp add: round_double_def)
qed

lemma to_double_nat: "n < 2 ^ 53 \<Longrightarrow> to_double (real n) = Finite (real n)"
proof -
  assume a: "n < 2 ^ 53"
  have "real n < 2 ^ 53" using a by (metis of_nat_less_iff of_nat_numeral of_nat_power)
  moreover have "(2::real) ^ 53 \<le> 2 ^ 1024" by (rule power_increasing) simp_all
  ultimately have "real n < 2 ^ 1024" by linarith
  moreover have "- (2 ^ 1024) < real n"
    by (meson less_le_trans neg_less_0_iff_less of_nat_0_le_iff zero_less_numeral zero_less_power)
  ultimately show ?thesis using a by (simp add: to_double_def round_double_nat del: power_numeral)
qed

lemma to_double_0 [simp]: "to_double 0 = Finite 0"
  using to_double_nat[of 0] by simp

lemma to_double_1 [simp]: "to_double 1 = Finite 1"
  using to_double_nat[of 1] by simp

lemma to_double_numeral [simp]:
  "(numeral k :: nat) < 2 ^ 53 \<Longrightarrow> to_double (numeral k) = Finite (numeral k)"
  using to_double_nat[of "numeral k"] by simp

text \<open>
  Rounding a number that is not negative gives a finite number that is not negative, or
  \<open>Infinity\<close>.
\<close>

lemma round_half_even_nonneg: "0 \<le> q \<Longrightarrow> 0 \<le> round_half_even q"
  by (simp add: round_half_even_def)

lemma pow2_pos: "0 < pow2 k"
  by (simp add: pow2_def)

lemma round_double_nonneg: "0 \<le> x \<Longrightarrow> 0 \<le> round_double x"
  by (simp add: round_double_def round_positive_def Let_def round_half_even_nonneg
      pow2_pos less_imp_le)

lemma to_double_nonneg:
  "0 \<le> x \<Longrightarrow> (\<exists>y. 0 \<le> y \<and> to_double x = Finite y) \<or> to_double x = PosInfinity"
  using round_double_nonneg[of x] by (simp add: to_double_def del: power_numeral) 

lemma pow2_powi: "pow2 k = 2 powi k"
  by (cases "0 \<le> k") (simp_all add: pow2_def power_int_def inverse_eq_divide power_divide)

lemma pow2_add: "pow2 (i + j) = pow2 i * pow2 j"
  by (simp add: pow2_powi power_int_add)

lemma pow2_mono: "i \<le> j \<Longrightarrow> pow2 i \<le> pow2 j"
  by (simp add: pow2_powi power_int_increasing)

lemma pow2_strict_mono: "i < j \<Longrightarrow> pow2 i < pow2 j"
  by (simp add: pow2_powi power_int_strict_increasing)

lemma pow2_nat: "pow2 (int n) = 2 ^ n"
  by (simp add: pow2_def)

text \<open>
  \<open>exponent a\<close> is the exponent of the power of two at or below the positive \<open>a\<close>.
\<close>

lemma exponent_bounds:
  assumes "0 < a"
  shows "pow2 (exponent a) \<le> a \<and> a < pow2 (exponent a + 1)"
proof (cases "1 \<le> a")
  case True
  define n where "n = nat \<lfloor>a\<rfloor>"
  have n1: "0 < n" using True by (simp add: n_def)
  define b where "b = bit_length n"
  have bb: "2 ^ (b - 1) \<le> n" "n < 2 ^ b" using bit_length_bounds[OF n1] by (simp_all add: b_def)
  have b1: "1 \<le> b" using bb(2) n1 by (cases b) simp_all
  have e: "exponent a = int b - 1" using True by (simp add: exponent_def n_def b_def)
  have fl: "real n = of_int \<lfloor>a\<rfloor>" using True by (simp add: n_def)
  have na: "real n \<le> a" "a < real n + 1" unfolding fl by linarith+
  have lo: "pow2 (int b - 1) \<le> a"
  proof -
    have "pow2 (int b - 1) = pow2 (int (b - 1))" using b1 by (simp add: of_nat_diff)
    also have "\<dots> = 2 ^ (b - 1)" by (rule pow2_nat)
    also have "\<dots> \<le> real n" using bb(1) by (metis of_nat_le_iff of_nat_numeral of_nat_power)
    finally show ?thesis using na(1) by linarith
  qed
  have hi: "a < pow2 (int b - 1 + 1)"
  proof -
    have "real n + 1 \<le> 2 ^ b"
      using bb(2) by (metis Suc_leI of_nat_Suc of_nat_le_iff of_nat_numeral of_nat_power add.commute)
    then show ?thesis using na(2) by (simp add: pow2_nat)
  qed
  show ?thesis using lo hi by (simp add: e)
next
  case False
  then have a1: "a < 1" by simp
  have inv: "1 < 1 / a" using assms a1 by simp
  define m where "m = \<lceil>1 / a\<rceil>"
  have m2: "2 \<le> m" using inv unfolding m_def by linarith
  define n where "n = nat (m - 1)"
  have n1: "0 < n" using m2 by (simp add: n_def)
  define b where "b = bit_length n"
  have bb: "2 ^ (b - 1) \<le> n" "n < 2 ^ b" using bit_length_bounds[OF n1] by (simp_all add: b_def)
  have b1: "1 \<le> b" using bb(2) n1 by (cases b) simp_all
  have e: "exponent a = - int b" using False by (simp add: exponent_def n_def b_def m_def)
  have rn: "real n = of_int m - 1" using m2 by (simp add: n_def)
  have up: "1 / a \<le> of_int m" unfolding m_def by (rule le_of_int_ceiling)
  have dn: "of_int m - 1 < 1 / a" unfolding m_def by linarith
  have mle: "of_int m \<le> (2::real) ^ b"
  proof -
    have "real n + 1 \<le> 2 ^ b"
      using bb(2) by (metis Suc_leI of_nat_Suc of_nat_le_iff of_nat_numeral of_nat_power add.commute)
    then show ?thesis using rn by simp
  qed
  have mge: "(2::real) ^ (b - 1) \<le> of_int m - 1"
  proof -
    have "(2::real) ^ (b - 1) \<le> real n"
      using bb(1) by (metis of_nat_le_iff of_nat_numeral of_nat_power)
    then show ?thesis using rn by simp
  qed
  have lo: "pow2 (- int b) \<le> a"
  proof -
    have "1 / a \<le> 2 ^ b" using up mle by linarith
    then have "1 \<le> 2 ^ b * a" using assms by (simp add: divide_le_eq)
    then have "1 / 2 ^ b \<le> a" by (simp add: divide_le_eq mult.commute)
    moreover have "pow2 (- int b) = 1 / 2 ^ b" using b1 by (simp add: pow2_def)
    ultimately show ?thesis by simp
  qed
  have hi: "a < pow2 (- int b + 1)"
  proof -
    have "2 ^ (b - 1) < 1 / a" using dn mge by linarith
    then have "2 ^ (b - 1) * a < 1" using assms by (simp add: less_divide_eq)
    then have "a < 1 / 2 ^ (b - 1)" by (simp add: less_divide_eq mult.commute)
    moreover have "pow2 (- int b + 1) = 1 / 2 ^ (b - 1)"
    proof (cases "b = 1")
      case True
      then show ?thesis by (simp add: pow2_def)
    next
      case False
      then have "- int b + 1 < 0" using b1 by simp
      moreover have "nat (- (- int b + 1)) = b - 1" using b1 by simp
      ultimately show ?thesis by (simp add: pow2_def)
    qed
    ultimately show ?thesis by simp
  qed
  show ?thesis using lo hi by (simp add: e)
qed

lemma exponent_mono:
  assumes "0 < a" "a \<le> b"
  shows "exponent a \<le> exponent b"
proof (rule ccontr)
  assume "\<not> exponent a \<le> exponent b"
  then have "exponent b + 1 \<le> exponent a" by simp
  then have "pow2 (exponent b + 1) \<le> pow2 (exponent a)" by (rule pow2_mono)
  moreover have "pow2 (exponent a) \<le> a" using exponent_bounds[OF assms(1)] by simp
  moreover have "b < pow2 (exponent b + 1)" using exponent_bounds[of b] assms by simp
  ultimately show False using assms(2) by linarith
qed

text \<open>Rounding to the nearest integer keeps the order.\<close>

lemma round_half_even_bounds:
  "\<lfloor>q\<rfloor> \<le> round_half_even q \<and> round_half_even q \<le> \<lfloor>q\<rfloor> + 1"
  by (simp add: round_half_even_def)

lemma round_half_even_mono:
  assumes "q \<le> q'"
  shows "round_half_even q \<le> round_half_even q'"
proof (cases "\<lfloor>q\<rfloor> = \<lfloor>q'\<rfloor>")
  case True
  have "q - of_int \<lfloor>q\<rfloor> \<le> q' - of_int \<lfloor>q'\<rfloor>" using assms True by simp
  then show ?thesis unfolding round_half_even_def True[symmetric] using True
    by (auto simp: not_less)
next
  case False
  then have "\<lfloor>q\<rfloor> < \<lfloor>q'\<rfloor>" using assms floor_mono[of q q'] by linarith
  then show ?thesis
    using round_half_even_bounds[of q] round_half_even_bounds[of q'] by linarith
qed

lemma round_half_even_le: "q \<le> of_int k \<Longrightarrow> round_half_even q \<le> k"
  using round_half_even_mono[of q "of_int k"] by simp

lemma round_half_even_ge: "of_int k \<le> q \<Longrightarrow> k \<le> round_half_even q"
  using round_half_even_mono[of "of_int k" q] by simp

text \<open>Rounding to a double keeps the order.\<close>

lemma round_positive_mono:
  assumes "0 < a" "a \<le> b"
  shows "round_positive a \<le> round_positive b"
proof -
  define ea where "ea = max (exponent a) (- 1022)"
  define eb where "eb = max (exponent b) (- 1022)"
  have bpos: "0 < b" using assms by linarith
  have le: "ea \<le> eb" using exponent_mono[OF assms] by (simp add: ea_def eb_def)
  have ra: "round_positive a = of_int (round_half_even (a / pow2 (ea - 52))) * pow2 (ea - 52)"
    by (simp add: round_positive_def ea_def Let_def)
  have rb: "round_positive b = of_int (round_half_even (b / pow2 (eb - 52))) * pow2 (eb - 52)"
    by (simp add: round_positive_def eb_def Let_def)
  show ?thesis
  proof (cases "ea = eb")
    case True
    have "a / pow2 (eb - 52) \<le> b / pow2 (eb - 52)"
      using assms(2) pow2_pos[of "eb - 52"] by (simp add: divide_right_mono)
    then have "round_half_even (a / pow2 (eb - 52)) \<le> round_half_even (b / pow2 (eb - 52))"
      by (rule round_half_even_mono)
    then show ?thesis unfolding ra rb True using pow2_pos[of "eb - 52"]
      by (simp add: mult_right_mono)
  next
    case False
    then have lt: "ea < eb" using le by simp
    then have ebx: "eb = exponent b" by (simp add: eb_def ea_def max_def split: if_splits)
    have p53: "pow2 (ea + 1) = 2 ^ 53 * pow2 (ea - 52)"
    proof -
      have "ea + 1 = 53 + (ea - 52)" by simp
      then have "pow2 (ea + 1) = pow2 (53 + (ea - 52))" by (rule arg_cong)
      also have "\<dots> = pow2 53 * pow2 (ea - 52)" by (rule pow2_add)
      also have "pow2 53 = 2 ^ 53" using pow2_nat[of 53] by simp
      finally show ?thesis .
    qed
    have p52: "pow2 eb = 2 ^ 52 * pow2 (eb - 52)"
    proof -
      have "eb = 52 + (eb - 52)" by simp
      then have "pow2 eb = pow2 (52 + (eb - 52))" by (rule arg_cong)
      also have "\<dots> = pow2 52 * pow2 (eb - 52)" by (rule pow2_add)
      also have "pow2 52 = 2 ^ 52" using pow2_nat[of 52] by simp
      finally show ?thesis .
    qed
    have "a < pow2 (exponent a + 1)" using exponent_bounds[OF assms(1)] by simp
    also have "\<dots> \<le> pow2 (ea + 1)" by (rule pow2_mono) (simp add: ea_def)
    finally have "a < 2 ^ 53 * pow2 (ea - 52)" by (simp add: p53)
    then have "a / pow2 (ea - 52) \<le> of_int (2 ^ 53)"
      using pow2_pos[of "ea - 52"] by (simp add: divide_le_eq less_imp_le)
    then have "round_half_even (a / pow2 (ea - 52)) \<le> 2 ^ 53" by (rule round_half_even_le)
    then have "of_int (round_half_even (a / pow2 (ea - 52))) \<le> (2::real) ^ 53"
      by (metis of_int_le_iff of_int_numeral of_int_power)
    then have "round_positive a \<le> 2 ^ 53 * pow2 (ea - 52)"
      unfolding ra using pow2_pos[of "ea - 52"] by (simp add: mult_right_mono)
    then have 1: "round_positive a \<le> pow2 (ea + 1)" by (simp add: p53)
    have 2: "pow2 (ea + 1) \<le> pow2 eb" by (rule pow2_mono) (use lt in simp)
    have "pow2 eb \<le> b" using exponent_bounds[OF bpos] by (simp add: ebx)
    then have "of_int (2 ^ 52) \<le> b / pow2 (eb - 52)"
      using pow2_pos[of "eb - 52"] by (simp add: le_divide_eq p52)
    then have "2 ^ 52 \<le> round_half_even (b / pow2 (eb - 52))" by (rule round_half_even_ge)
    then have "(2::real) ^ 52 \<le> of_int (round_half_even (b / pow2 (eb - 52)))"
      by (metis of_int_le_iff of_int_numeral of_int_power)
    then have "2 ^ 52 * pow2 (eb - 52) \<le> round_positive b"
      unfolding rb using pow2_pos[of "eb - 52"] by (simp add: mult_right_mono)
    then have 3: "pow2 eb \<le> round_positive b" by (simp add: p52)
    show ?thesis using 1 2 3 by linarith
  qed
qed

lemma round_positive_nonneg: "0 < a \<Longrightarrow> 0 \<le> round_positive a"
  by (simp add: round_positive_def Let_def round_half_even_nonneg pow2_pos less_imp_le)

lemma round_double_mono:
  assumes "x \<le> y"
  shows "round_double x \<le> round_double y"
proof -
  consider "0 < x" | "y < 0" | "x \<le> 0" "0 \<le> y" using assms by linarith
  then show ?thesis
  proof cases
    case 1
    then have "0 < y" using assms by linarith
    then show ?thesis using 1 round_positive_mono[OF 1 assms] by (simp add: round_double_def)
  next
    case 2
    then have x: "x < 0" using assms by linarith
    have "round_positive (- y) \<le> round_positive (- x)"
      by (rule round_positive_mono) (use 2 assms in simp_all)
    then show ?thesis using 2 x by (simp add: round_double_def)
  next
    case 3
    have "round_double x \<le> 0"
      using 3(1) round_positive_nonneg[of "- x"] by (cases "x = 0") (simp_all add: round_double_def)
    moreover have "0 \<le> round_double y" using 3(2) by (rule round_double_nonneg)
    ultimately show ?thesis by linarith
  qed
qed

text \<open>
  A rounded value between \<open>-2^1024\<close> and \<open>2^1024\<close> is a finite number.
\<close>

lemma to_double_finite:
  "- (2 ^ 1024) < round_double x \<Longrightarrow> round_double x < 2 ^ 1024 \<Longrightarrow>
   to_double x = Finite (round_double x)"
  by (simp add: to_double_def del: power_numeral)

lemma to_double_between:
  assumes "0 \<le> x" "x \<le> real n" "n < 2 ^ 53"
  shows "\<exists>y. to_double x = Finite y \<and> 0 \<le> y \<and> y \<le> real n"
proof -
  have lo: "0 \<le> round_double x" using assms(1) by (rule round_double_nonneg)
  have "round_double x \<le> round_double (real n)" using assms(2) by (rule round_double_mono)
  then have hi: "round_double x \<le> real n" using round_double_nat[OF assms(3)] by simp
  have "real n < 2 ^ 53" using assms(3) by (metis of_nat_less_iff of_nat_numeral of_nat_power)
  moreover have "(2::real) ^ 53 \<le> 2 ^ 1024" by (rule power_increasing) simp_all
  ultimately have "round_double x < 2 ^ 1024" using hi by linarith
  moreover have "- (2 ^ 1024) < round_double x"
    using lo by (meson less_le_trans neg_less_0_iff_less zero_less_numeral zero_less_power)
  ultimately have "to_double x = Finite (round_double x)" by (rule to_double_finite[rotated])
  then show ?thesis using lo hi by simp
qed

section \<open>Properties of mergeDuplicates\<close>

subsection \<open>The grouping\<close>

text \<open>
  The key of a normalized flight or hotel is \<open>--\<close>, since neither has a property
  \<open>from\<close>, \<open>to\<close> or \<open>departure\<close>; the key of a normalized transport is built from
  three objects. Within each kind all offers have the same key.
\<close>

lemma key_flight: "generateMergeKey flight_view f = ''--''"
  by (simp add: generateMergeKey_def flight_view_def)

lemma key_hotel: "generateMergeKey hotel_view h = ''--''"
  by (simp add: generateMergeKey_def hotel_view_def)

lemma key_transport:
  "generateMergeKey transport_view t = ''[object Object]-[object Object]-[object Object]''"
  by (simp add: generateMergeKey_def transport_view_def)

lemma add_result_known:
  "key \<in> fst ` set g \<Longrightarrow> map fst (add_result key r g) = map fst g"
  by (induction g) force+

lemma add_result_fresh:
  "key \<notin> fst ` set g \<Longrightarrow> add_result key r g = g @ [(key, [r])]"
  by (induction g) auto

lemma add_result_distinct:
  "distinct (map fst g) \<Longrightarrow> distinct (map fst (add_result key r g))"
  by (cases "key \<in> fst ` set g") (simp_all add: add_result_known add_result_fresh)

lemma add_result_well_grouped:
  "well_grouped kf g \<Longrightarrow> well_grouped kf (add_result (kf r) r g)"
  by (induction g) (auto simp: well_grouped_def split: if_splits)

lemma foldl_add_result_inv:
  "distinct (map fst g) \<Longrightarrow> well_grouped kf g \<Longrightarrow>
   distinct (map fst (foldl (\<lambda>grouped result. add_result (kf result) result grouped) g rs)) \<and>
   well_grouped kf (foldl (\<lambda>grouped result. add_result (kf result) result grouped) g rs)"
  by (induction rs arbitrary: g) (auto simp: add_result_distinct add_result_well_grouped)

lemma group_results_inv:
  "distinct (map fst (group_results v rs)) \<and> well_grouped (generateMergeKey v) (group_results v rs)"
  unfolding group_results_def
  by (rule foldl_add_result_inv) (simp_all add: well_grouped_def)

lemma foldl_cheaper_mem: "foldl (cheaper v) x xs \<in> set (x # xs)"
  by (induction xs arbitrary: x) (auto simp: cheaper_def)

lemma representative_pick: "grp \<noteq> [] \<Longrightarrow> representative v grp = Inr (pick v grp)"
  by (cases grp) (auto simp: representative_def pick_def)

lemma pick_mem: "grp \<noteq> [] \<Longrightarrow> pick v grp \<in> set grp"
  using foldl_cheaper_mem[of v "hd grp" "tl grp"] by (cases grp) (auto simp: pick_def)

lemma merge_groups_pick:
  "\<forall>grp \<in> set grps. grp \<noteq> [] \<Longrightarrow> merge_groups v grps merged = Inr (merged @ map (pick v) grps)"
  by (induction grps arbitrary: merged) (auto simp: representative_pick)

lemma mergeDuplicates_pick:
  "mergeDuplicates v rs = Inr (map (pick v) (map snd (group_results v rs)))"
proof -
  have "\<forall>grp \<in> set (map snd (group_results v rs)). grp \<noteq> []"
    using group_results_inv[of v rs] by (auto simp: well_grouped_def list_all_iff)
  then show ?thesis unfolding mergeDuplicates_def by (simp add: merge_groups_pick)
qed

lemma merged_keys:
  "map (generateMergeKey v) (map (pick v) (map snd (group_results v rs))) = map fst (group_results v rs)"
proof -
  have "well_grouped (generateMergeKey v) (group_results v rs)" using group_results_inv by blast
  then have "\<forall>(k, grp) \<in> set (group_results v rs). generateMergeKey v (pick v grp) = k"
    using pick_mem by (fastforce simp: well_grouped_def list_all_iff)
  then show ?thesis by (induction "group_results v rs") auto
qed

lemma foldl_add_result_fresh:
  "distinct (map fst g @ map kf ys) \<Longrightarrow>
   foldl (\<lambda>grouped result. add_result (kf result) result grouped) g ys
     = g @ map (\<lambda>y. (kf y, [y])) ys"
proof (induction ys arbitrary: g)
  case Nil then show ?case by simp
next
  case (Cons y ys)
  have fresh: "kf y \<notin> fst ` set g" using Cons.prems by auto
  have step: "add_result (kf y) y g = g @ [(kf y, [y])]" using fresh
    by (rule add_result_fresh)
  have "distinct (map fst (g @ [(kf y, [y])]) @ map kf ys)" using Cons.prems by auto
  from Cons.IH[OF this] show ?case by (simp add: step)
qed

lemma group_results_distinct_keys:
  "distinct (map (generateMergeKey v) ys) \<Longrightarrow>
   group_results v ys = map (\<lambda>y. (generateMergeKey v y, [y])) ys"
  unfolding group_results_def using foldl_add_result_fresh[of "[]" "generateMergeKey v" ys] by simp

subsection \<open>Idempotence\<close>

text \<open>
  Claim C7. The merge is idempotent: for every sequence of offers, \<open>mergeDuplicates\<close>
  returns (it does not throw), and applied to its own output it returns that output
  again, element for element and in the same order. This holds for every element type
  and every way of reading the key properties.
\<close>

theorem mergeDuplicates_idempotent:
  "\<exists>merged. mergeDuplicates v results = Inr merged \<and> mergeDuplicates v merged = Inr merged"
proof -
  let ?ys = "map (pick v) (map snd (group_results v results))"
  have 1: "mergeDuplicates v results = Inr ?ys" by (rule mergeDuplicates_pick)
  have "distinct (map (generateMergeKey v) ?ys)"
    using merged_keys[of v results] group_results_inv[of v results] by metis
  then have g: "group_results v ?ys = map (\<lambda>y. (generateMergeKey v y, [y])) ?ys"
    by (rule group_results_distinct_keys)
  have "mergeDuplicates v ?ys = Inr (map (pick v) (map snd (group_results v ?ys)))"
    by (rule mergeDuplicates_pick)
  also have "map (pick v) (map snd (group_results v ?ys)) = ?ys"
    unfolding g by (simp add: pick_def comp_def)
  finally show ?thesis using 1 by blast
qed

subsection \<open>The representative of a group\<close>

lemma foldl_cheaper_first_min:
  "\<exists>i < length (x # xs). foldl (cheaper v) x xs = (x # xs) ! i
      \<and> (\<forall>m \<in> set (x # xs). price_amount v ((x # xs) ! i) \<le> price_amount v m)
      \<and> (\<forall>j < i. price_amount v ((x # xs) ! i) < price_amount v ((x # xs) ! j))"
proof (induction xs rule: rev_induct)
  case Nil
  then show ?case by simp
next
  case (snoc y xs)
  define l where "l = x # xs"
  from snoc obtain i where i: "i < length l" "foldl (cheaper v) x xs = l ! i"
      "\<forall>m \<in> set l. price_amount v (l ! i) \<le> price_amount v m"
      "\<forall>j < i. price_amount v (l ! i) < price_amount v (l ! j)"
    unfolding l_def by blast
  have l': "x # xs @ [y] = l @ [y]" by (simp add: l_def)
  have fold_step: "foldl (cheaper v) x (xs @ [y]) = cheaper v (l ! i) y"
    using i(2) by simp
  have goal: "\<exists>k < length (l @ [y]). cheaper v (l ! i) y = (l @ [y]) ! k
      \<and> (\<forall>m \<in> set (l @ [y]). price_amount v ((l @ [y]) ! k) \<le> price_amount v m)
      \<and> (\<forall>j < k. price_amount v ((l @ [y]) ! k) < price_amount v ((l @ [y]) ! j))"
  proof (cases "price_amount v y < price_amount v (l ! i)")
    case True
    have c: "cheaper v (l ! i) y = y" using True by (simp add: cheaper_def)
    have "\<forall>m \<in> set (l @ [y]). price_amount v y \<le> price_amount v m"
      using True i(3) by fastforce
    moreover have "\<forall>j < length l. price_amount v y < price_amount v ((l @ [y]) ! j)"
    proof (intro allI impI)
      fix j assume j: "j < length l"
      then have "price_amount v (l ! i) \<le> price_amount v (l ! j)" using i(3) nth_mem by blast
      then show "price_amount v y < price_amount v ((l @ [y]) ! j)"
        using True j by (simp add: nth_append)
    qed
    ultimately show ?thesis unfolding c
      by (intro exI[of _ "length l"]) simp
  next
    case False
    have c: "cheaper v (l ! i) y = l ! i" using False by (simp add: cheaper_def)
    have "\<forall>m \<in> set (l @ [y]). price_amount v (l ! i) \<le> price_amount v m"
      using False i(3) by auto
    moreover have "\<forall>j < i. price_amount v (l ! i) < price_amount v ((l @ [y]) ! j)"
      using i(1,4) by (simp add: nth_append)
    ultimately show ?thesis unfolding c using i(1)
      by (intro exI[of _ i]) (simp add: nth_append)
  qed
  show ?case unfolding fold_step l' by (rule goal)
qed

text \<open>
  Claim C4, as amended. For every non-empty group the representative is a member with
  the minimum \<open>price.amount\<close>, and among the members that tie on the minimum it is the
  one that comes first in the group, that is, the one returned first by the providers:
  every member before it is strictly more expensive. The choice is deterministic.
\<close>

theorem representative_first_minimum:
  assumes "grp \<noteq> []"
  shows "\<exists>i < length grp. representative v grp = Inr (grp ! i)
      \<and> (\<forall>m \<in> set grp. price_amount v (grp ! i) \<le> price_amount v m)
      \<and> (\<forall>j < i. price_amount v (grp ! i) < price_amount v (grp ! j))"
proof -
  obtain x xs where g: "grp = x # xs" using assms by (cases grp) auto
  have "representative v grp = Inr (foldl (cheaper v) x xs)"
    unfolding g representative_def by (cases xs) simp_all
  then show ?thesis using foldl_cheaper_first_min[of x xs v] unfolding g by simp
qed

text \<open>
  The theorem at a group of three flights where the second and the third tie on the
  minimum price.
\<close>

theorem representative_first_minimum_witness:
  "price_tie_group \<noteq> [] \<and>
   (\<exists>i < length price_tie_group.
      representative flight_view price_tie_group = Inr (price_tie_group ! i)
      \<and> (\<forall>m \<in> set price_tie_group.
            price_amount flight_view (price_tie_group ! i) \<le> price_amount flight_view m)
      \<and> (\<forall>j < i. price_amount flight_view (price_tie_group ! i)
            < price_amount flight_view (price_tie_group ! j)))"
proof -
  have h: "price_tie_group \<noteq> []" by (simp add: price_tie_group_def)
  show ?thesis using h representative_first_minimum[OF h, of flight_view] by blast
qed

text \<open>
  Claim C4, as stated, fails: two flights tie on the price 500, the second was normalized
  a day earlier. They form one group, and the merge keeps the first, although the second
  precedes it in the specification's order (same price, earlier \<open>lastUpdated\<close>).
\<close>

theorem representative_tie_counterexample:
  "mergeDuplicates flight_view tied_group = Inr [tied_group ! 0]
   \<and> representative flight_view tied_group = Inr (tied_group ! 0)
   \<and> spec_precedes (tied_group ! 1) (tied_group ! 0)"
proof (intro conjI)
  show "mergeDuplicates flight_view tied_group = Inr [tied_group ! 0]"
    by (simp add: tied_group_def mergeDuplicates_def group_results_def key_flight
        representative_def cheaper_def)
       (simp add: flight_view_def ath_bkk_flight_def)
  show "representative flight_view tied_group = Inr (tied_group ! 0)"
    by (simp add: tied_group_def representative_def cheaper_def flight_view_def ath_bkk_flight_def)
  show "spec_precedes (tied_group ! 1) (tied_group ! 0)"
    by (simp add: tied_group_def ath_bkk_flight_def spec_precedes_def)
qed

subsection \<open>The merge key\<close>

text \<open>
  When all offers have the same key, the merge returns one offer at most.
\<close>

lemma constant_key_one_offer:
  assumes "\<And>x y. generateMergeKey v x = generateMergeKey v y"
    and "mergeDuplicates v results = Inr merged"
  shows "length merged \<le> 1"
proof -
  have m: "merged = map (pick v) (map snd (group_results v results))"
    using assms(2) by (simp add: mergeDuplicates_pick)
  have d: "distinct (map (generateMergeKey v) merged)"
    unfolding m using merged_keys[of v results] group_results_inv[of v results] by metis
  show ?thesis
  proof (cases merged)
    case Nil
    then show ?thesis by simp
  next
    case (Cons a rest)
    show ?thesis
    proof (cases rest)
      case Nil
      then show ?thesis using Cons by simp
    next
      case (Cons b rest')
      then have "generateMergeKey v a \<noteq> generateMergeKey v b"
        using d \<open>merged = a # rest\<close> by auto
      then show ?thesis using assms(1) by blast
    qed
  qed
qed

lemma merged_flights_one_offer:
  "mergeDuplicates flight_view results = Inr merged \<Longrightarrow> length merged \<le> 1"
  by (rule constant_key_one_offer[of flight_view]) (simp_all add: key_flight)

lemma merged_hotels_one_offer:
  "mergeDuplicates hotel_view results = Inr merged \<Longrightarrow> length merged \<le> 1"
  by (rule constant_key_one_offer[of hotel_view]) (simp_all add: key_hotel)

lemma merged_transport_one_offer:
  "mergeDuplicates transport_view results = Inr merged \<Longrightarrow> length merged \<le> 1"
  by (rule constant_key_one_offer[of transport_view]) (simp_all add: key_transport)

text \<open>
  Claim C5 on the code. The key of a normalized flight is the constant \<open>--\<close>: it holds
  neither the route nor the departure date. Two ATH to BKK flights of one day (500 and
  480) and a third of another day (620) therefore form a single group, and the merge
  returns the 480 flight alone: the flight of the other day is dropped, not kept as a
  group of its own.
\<close>

theorem flights_merge_into_one_group:
  "generateMergeKey flight_view f = ''--'' \<and>
   mergeDuplicates flight_view
     [ath_bkk_flight ''skyscanner'' ''2025-03-01T08:00:00Z'' 500 ''2025-01-01T00:00:00.000Z'',
      ath_bkk_flight ''kiwi'' ''2025-03-01T08:00:00Z'' 480 ''2025-01-01T00:00:00.000Z'',
      ath_bkk_flight ''momondo'' ''2025-03-09T08:00:00Z'' 620 ''2025-01-01T00:00:00.000Z'']
   = Inr [ath_bkk_flight ''kiwi'' ''2025-03-01T08:00:00Z'' 480 ''2025-01-01T00:00:00.000Z'']"
  by (simp add: mergeDuplicates_def group_results_def key_flight representative_def cheaper_def)
     (simp add: flight_view_def ath_bkk_flight_def)

section \<open>Properties of identifyBestDeals\<close>

lemma cheaper_deal_view: "cheaper_deal = cheaper deal_view"
  by (intro ext) (simp add: cheaper_deal_def cheaper_def deal_view_def)

lemma foldl_max_Max: "foldl max x xs = Max (set (x # xs))"
proof (induction xs arbitrary: x)
  case Nil
  then show ?case by simp
next
  case (Cons y ys)
  have "foldl max x (y # ys) = Max (set (max x y # ys))" using Cons.IH by simp
  also have "\<dots> = Max (set (x # y # ys))"
    by (cases "ys = []") (simp_all add: Max_insert max.assoc)
  finally show ?case .
qed

lemma reduce_cheaper_deal_min:
  assumes "hotelDeals \<noteq> []"
  shows "\<exists>cheapest \<in> set hotelDeals. reduce cheaper_deal hotelDeals = Inr cheapest
           \<and> HotelDeal.price cheapest = Min (HotelDeal.price ` set hotelDeals)"
proof -
  obtain x xs where l: "hotelDeals = x # xs" using assms by (cases hotelDeals) auto
  obtain i where i: "i < length (x # xs)" "foldl (cheaper deal_view) x xs = (x # xs) ! i"
      "\<forall>m \<in> set (x # xs). price_amount deal_view ((x # xs) ! i) \<le> price_amount deal_view m"
    using foldl_cheaper_first_min[of x xs deal_view] by blast
  let ?c = "(x # xs) ! i"
  have mem: "?c \<in> set (x # xs)" using i(1) by (rule nth_mem)
  have le: "\<forall>m \<in> set (x # xs). HotelDeal.price ?c \<le> HotelDeal.price m"
    using i(3) by (simp add: deal_view_def)
  have "Min (HotelDeal.price ` set (x # xs)) = HotelDeal.price ?c"
    using mem le by (intro Min_eqI) auto
  then show ?thesis unfolding l using mem i(2) by (auto simp: cheaper_deal_view)
qed

text \<open>
  The discount of a group whose greatest price \<open>mx\<close> is positive and whose least price
  \<open>mn\<close> is not negative: the difference, the quotient and the product are each rounded
  to a double, and the result is a whole number from 0 to 100.
\<close>

lemma discount_bounds:
  assumes "0 \<le> mn" "mn \<le> mx" "0 < mx" "is_double mx"
  shows "\<exists>pct. Math_round (js_times (js_divide (js_minus (Finite mx) (Finite mn)) (Finite mx))
                    (Finite 100)) = Finite (of_int pct) \<and> 0 \<le> pct \<and> pct \<le> 100"
proof -
  have rmx: "round_double mx = mx" and bmx: "mx < 2 ^ 1024"
    using assms(4) by (simp_all add: is_double_def abs_less_iff del: power_numeral)
  define d where "d = round_double (mx - mn)"
  have d0: "0 \<le> d" unfolding d_def using assms(1,2) by (intro round_double_nonneg) simp
  have "d \<le> round_double mx" unfolding d_def using assms(1) by (intro round_double_mono) simp
  then have dmx: "d \<le> mx" using rmx by simp
  have "- (2 ^ 1024) < d"
    using d0 by (meson less_le_trans neg_less_0_iff_less zero_less_numeral zero_less_power)
  moreover have "d < 2 ^ 1024" using dmx bmx by linarith
  ultimately have 1: "js_minus (Finite mx) (Finite mn) = Finite d"
    unfolding d_def by (simp add: to_double_finite del: power_numeral)
  have q01: "0 \<le> d / mx" "d / mx \<le> real 1" using d0 dmx assms(3) by simp_all
  obtain q where q: "to_double (d / mx) = Finite q" "0 \<le> q" "q \<le> 1"
    using to_double_between[OF q01] by auto
  have 2: "js_divide (Finite d) (Finite mx) = Finite q" using assms(3) q(1) by simp
  have p0: "0 \<le> q * 100" "q * 100 \<le> real 100" using q(2,3) by simp_all
  obtain r where r: "to_double (q * 100) = Finite r" "0 \<le> r" "r \<le> 100"
    using to_double_between[OF p0] by auto
  have 3: "js_times (Finite q) (Finite 100) = Finite r" using r(1) by simp
  have "0 \<le> \<lfloor>r + 1 / 2\<rfloor> \<and> \<lfloor>r + 1 / 2\<rfloor> \<le> 100" using r(2,3) by (simp add: floor_le_iff)
  then show ?thesis unfolding 1 2 3 by simp
qed

text \<open>
  In a group of two or more deals whose prices are doubles, none negative and one
  positive, the representative has the least price and a discount from 0 to 100.
\<close>

lemma best_of_hotel_discount:
  assumes "1 < length hotelDeals"
    and "\<forall>d \<in> set hotelDeals. 0 \<le> HotelDeal.price d \<and> is_double (HotelDeal.price d)"
    and "\<exists>d \<in> set hotelDeals. 0 < HotelDeal.price d"
  shows "\<exists>cheapest pct. best_of_hotel hotelDeals = Inr cheapest
      \<and> HotelDeal.price cheapest = Min (HotelDeal.price ` set hotelDeals)
      \<and> HotelDeal.discount cheapest = Some (Finite (of_int pct)) \<and> 0 \<le> pct \<and> pct \<le> 100"
proof -
  let ?P = "HotelDeal.price ` set hotelDeals"
  have ne: "hotelDeals \<noteq> []" using assms(1) by auto
  obtain c where c: "c \<in> set hotelDeals" "reduce cheaper_deal hotelDeals = Inr c"
      "HotelDeal.price c = Min ?P"
    using reduce_cheaper_deal_min[OF ne] by blast
  obtain x xs where l: "hotelDeals = x # xs" using ne by (cases hotelDeals) auto
  have mx: "Math_max (map HotelDeal.price hotelDeals) = Finite (Max ?P)"
    unfolding l by (simp add: foldl_max_Max)
  have fin: "finite ?P" "?P \<noteq> {}" using ne by auto
  have pos: "0 < Max ?P" using assms(3) fin by (meson Max_gr_iff imageI)
  have mn0: "0 \<le> Min ?P" using assms(2) fin by (simp add: Min_ge_iff)
  have mnmx: "Min ?P \<le> Max ?P" using fin by (meson Max_in Min_le)
  have "Max ?P \<in> ?P" using fin by (rule Max_in)
  then have dbl: "is_double (Max ?P)" using assms(2) by auto
  obtain pct where pct: "Math_round (js_times (js_divide (js_minus (Finite (Max ?P)) (Finite (Min ?P)))
        (Finite (Max ?P))) (Finite 100)) = Finite (of_int pct)" "0 \<le> pct" "pct \<le> 100"
    using discount_bounds[OF mn0 mnmx pos dbl] by blast
  have "best_of_hotel hotelDeals =
      Inr (c\<lparr>HotelDeal.firstTimeDeal := Some (list_ex (\<lambda>d. list_ex is_first_time (HotelDeal.specialDeals d)) hotelDeals),
            HotelDeal.discount := Some (Finite (of_int pct))\<rparr>)"
    using assms(1) pct(1) by (simp add: best_of_hotel_def c(2) Let_def mx c(3) del: js_minus.simps js_divide.simps js_times.simps Math_round.simps)
  then show ?thesis using c(3) pct(2,3) by simp
qed

lemma best_of_hotel_singleton:
  "best_of_hotel [d] = Inr (d\<lparr>HotelDeal.firstTimeDeal := Some (list_ex is_first_time (HotelDeal.specialDeals d))\<rparr>)"
  by (simp add: best_of_hotel_def)

text \<open>
  The specification's lodging scenario: three providers return the Grand Palace Hotel at
  150, 120 and 100. One deal is returned, the one at 100, with the discount
  \<open>round((150 - 100) / 150 * 100) = 33\<close>.
\<close>

lemma identifyBestDeals_grand_palace:
  "identifyBestDeals
     [grand_palace ''agoda'' 150, grand_palace ''booking'' 120, grand_palace ''trip'' 100]
   = Inr [(grand_palace ''trip'' 100)\<lparr>HotelDeal.firstTimeDeal := Some False, HotelDeal.discount := Some (Finite 33)\<rparr>]"
  by (simp add: identifyBestDeals_def group_deals_def best_of_hotel_def cheaper_deal_def
      grand_palace_def toLowerCase_def lower_char_def capital_letters_def small_letters_def
      Let_def is_first_time_def to_double_def round_double_def round_positive_def
      exponent_def pow2_def round_half_even_def)

text \<open>
  The rounding shows in the discount. Two providers return the hotel at 40 and at 17.
  The exact percentage is \<open>(40 - 17) / 40 * 100 = 57.5\<close>, which rounds to 58; but the
  quotient \<open>23 / 40\<close> is rounded to a double just below 0.575, the product with 100 to
  a double just below 57.5, and the discount is 57.
\<close>

lemma identifyBestDeals_rounded_quotient:
  "identifyBestDeals [grand_palace ''agoda'' 40, grand_palace ''booking'' 17]
   = Inr [(grand_palace ''booking'' 17)\<lparr>HotelDeal.firstTimeDeal := Some False, HotelDeal.discount := Some (Finite 57)\<rparr>]"
  by (simp add: identifyBestDeals_def group_deals_def best_of_hotel_def cheaper_deal_def
      grand_palace_def toLowerCase_def lower_char_def capital_letters_def small_letters_def
      Let_def is_first_time_def to_double_def round_double_def round_positive_def
      exponent_def pow2_def round_half_even_def)

text \<open>
  Claim C6 on the code. Two providers return the same hotel at the price 0. The group has
  two members, so a discount is computed: \<open>maxPrice\<close> is 0, the division is \<open>0 / 0\<close>,
  and the discount attached to the representative is \<open>NaN\<close>, which is not a number
  between 0 and 100.
\<close>

theorem identifyBestDeals_zero_price_discount:
  "identifyBestDeals [grand_palace ''agoda'' 0, grand_palace ''booking'' 0]
   = Inr [(grand_palace ''agoda'' 0)\<lparr>HotelDeal.firstTimeDeal := Some False, HotelDeal.discount := Some NaN\<rparr>]"
  by (simp add: identifyBestDeals_def group_deals_def best_of_hotel_def cheaper_deal_def
      grand_palace_def toLowerCase_def lower_char_def capital_letters_def small_letters_def
      Let_def is_first_time_def)

section \<open>Properties of the normalizers\<close>

subsection \<open>Durations\<close>

text \<open>
  What \<open>parseDuration\<close> does with a value that is there: a number is returned as it is,
  a string always gives a number of minutes that is not negative, or \<open>Infinity\<close>;
  \<open>2h 30m\<close> gives 150, and a string in which no digits stand directly before an \<open>h\<close>
  or an \<open>m\<close> gives 0. The ISO 8601 duration \<open>PT2H30M\<close> is such a string (its letters
  are capitals), and so is \<open>150 minutes\<close> (a space stands before the \<open>m\<close>). Twenty
  nines before an \<open>h\<close> give \<open>6 * 10^21\<close> minutes, since the double nearest to the
  number they denote is \<open>10^20\<close>.
\<close>

lemma parseDuration_number: "parseDuration (Some (OfNumber n)) = Inr (Finite n)"
  by simp

lemma parseInt_nonneg:
  "(\<exists>y. 0 \<le> y \<and> parseInt digits = Finite y) \<or> parseInt digits = PosInfinity"
  unfolding parseInt_def by (rule to_double_nonneg) simp

lemma parseDuration_string_returns:
  "(\<exists>m. 0 \<le> m \<and> parseDuration (Some (OfString s)) = Inr (Finite m))
   \<or> parseDuration (Some (OfString s)) = Inr PosInfinity"
proof -
  let ?h = "parseInt (js_or_default truthy_string (match_digits CHR ''h'' s) ''0'')"
  let ?m = "parseInt (js_or_default truthy_string (match_digits CHR ''m'' s) ''0'')"
  have p: "parseDuration (Some (OfString s)) = Inr (js_plus (js_times ?h (Finite 60)) ?m)"
    by (simp add: Let_def)
  have t: "(\<exists>y. 0 \<le> y \<and> js_times ?h (Finite 60) = Finite y)
      \<or> js_times ?h (Finite 60) = PosInfinity"
    using parseInt_nonneg[of "js_or_default truthy_string (match_digits CHR ''h'' s) ''0''"]
      to_double_nonneg
    by (cases ?h) auto
  have "(\<exists>y. 0 \<le> y \<and> js_plus (js_times ?h (Finite 60)) ?m = Finite y)
      \<or> js_plus (js_times ?h (Finite 60)) ?m = PosInfinity"
    using t parseInt_nonneg[of "js_or_default truthy_string (match_digits CHR ''m'' s) ''0''"]
      to_double_nonneg
    by (cases "js_times ?h (Finite 60)"; cases ?m) auto
  then show ?thesis unfolding p by simp
qed

lemma parseDuration_hours_minutes: "parseDuration (Some (OfString ''2h 30m'')) = Inr (Finite 150)"
  by (simp add: match_here_def is_digit_def parseInt_def digits_value_def js_or_default_def
      truthy_string_def)

lemma parseDuration_iso8601: "parseDuration (Some (OfString ''PT2H30M'')) = Inr (Finite 0)"
  by (simp add: match_here_def is_digit_def parseInt_def digits_value_def js_or_default_def
      truthy_string_def)

lemma parseDuration_minutes_word: "parseDuration (Some (OfString ''150 minutes'')) = Inr (Finite 0)"
  by (simp add: match_here_def is_digit_def parseInt_def digits_value_def js_or_default_def
      truthy_string_def)

lemma parseDuration_unparsable:
  "match_digits CHR ''h'' s = None \<Longrightarrow> match_digits CHR ''m'' s = None \<Longrightarrow>
   parseDuration (Some (OfString s)) = Inr (Finite 0)"
  by (simp add: parseInt_def digits_value_def js_or_default_def)

lemma parseDuration_twenty_nines:
  "parseDuration (Some (OfString ''99999999999999999999h'')) = Inr (Finite 6000000000000000000000)"
proof -
  have h: "parseInt ''99999999999999999999'' = Finite 100000000000000000000"
    by (simp add: parseInt_def digits_value_def to_double_def round_double_def
        round_positive_def exponent_def pow2_def round_half_even_def Let_def)
  have t: "to_double (100000000000000000000 * 60) = Finite 6000000000000000000000"
    by (simp add: to_double_def round_double_def round_positive_def exponent_def pow2_def
        round_half_even_def Let_def)
  have m: "parseInt ''0'' = Finite 0"
    by (simp add: parseInt_def digits_value_def)
  have p: "to_double (6000000000000000000000 + 0) = Finite 6000000000000000000000"
    by (simp add: to_double_def round_double_def round_positive_def exponent_def pow2_def
        round_half_even_def Let_def)
  have hh: "match_digits CHR ''h'' ''99999999999999999999h'' = Some ''99999999999999999999''"
    by (simp add: match_here_def is_digit_def)
  have mm: "match_digits CHR ''m'' ''99999999999999999999h'' = None"
    by (simp add: match_here_def is_digit_def)
  show ?thesis
    using t p
    by (simp add: hh mm js_or_default_def truthy_string_def h m del: match_digits.simps)
qed

text \<open>
  \<open>normalizeTransport\<close> throws exactly when the raw record has no \<open>duration\<close>.
\<close>

lemma normalizeTransport_raises_iff:
  "(normalizeTransport rt raw src = Inl TypeError) = (RawRecord.duration raw = None)"
proof (cases "RawRecord.duration raw")
  case None
  then show ?thesis by (simp add: normalizeTransport_def)
next
  case (Some d)
  then show ?thesis
    by (cases d) (simp_all add: normalizeTransport_def Let_def)
qed

text \<open>
  Claim C9 on the code. A bus connection whose raw record gives no duration is not
  normalized with a duration of 0 minutes: \<open>parseDuration(undefined)\<close> reads
  \<open>undefined.match\<close>, and \<open>normalizeTransport\<close> throws a TypeError, whatever the
  clock and the random generator answer.
\<close>

theorem normalizeTransport_missing_duration:
  "normalizeTransport rt bus_without_duration ''12go'' = Inl TypeError"
  by (simp add: normalizeTransport_def bus_without_duration_def no_properties_def)

section \<open>Properties of search\<close>

subsection \<open>Nothing in the pipeline throws\<close>

text \<open>
  On what the providers return, no stage of \<open>search\<close> throws: the groups of
  \<open>identifyBestDeals\<close> are non-empty, every segment and every \<open>Experience\<close> has a
  duration, and only experiences (or nothing) reach \<open>normalizeTransport\<close>.
\<close>

lemma group_deals_nonempty: "\<forall>grp \<in> set (map snd (group_deals deals)). grp \<noteq> []"
proof -
  have "well_grouped (\<lambda>d. toLowerCase (HotelDeal.name d)) (group_deals deals)"
    unfolding group_deals_def
    using foldl_add_result_inv[of "[]" "\<lambda>d. toLowerCase (HotelDeal.name d)" deals]
    by (simp add: well_grouped_def)
  then show ?thesis by (auto simp: well_grouped_def list_all_iff)
qed

lemma best_of_hotel_returns: "grp \<noteq> [] \<Longrightarrow> \<exists>best. best_of_hotel grp = Inr best"
  by (cases grp) (simp_all add: best_of_hotel_def Let_def)

lemma best_of_hotels_returns:
  "\<forall>grp \<in> set grps. grp \<noteq> [] \<Longrightarrow> \<exists>best. best_of_hotels grps acc = Inr best"
proof (induction grps arbitrary: acc)
  case Nil
  then show ?case by simp
next
  case (Cons g gs)
  then obtain b where "best_of_hotel g = Inr b" using best_of_hotel_returns[of g] by auto
  then show ?case using Cons by simp
qed

lemma identifyBestDeals_returns: "\<exists>best. identifyBestDeals deals = Inr best"
proof -
  obtain b where "best_of_hotels (map snd (group_deals deals)) [] = Inr b"
    using best_of_hotels_returns[OF group_deals_nonempty] by blast
  then show ?thesis by (simp add: identifyBestDeals_def)
qed

lemma searchHotels_fulfilled: "\<exists>deals. searchHotels p place checkIn checkOut guests = Fulfilled deals"
proof -
  obtain b where "identifyBestDeals
      (push_fulfilled [] (map (\<lambda>s. s place checkIn checkOut guests) (hotelSearches p))) = Inr b"
    using identifyBestDeals_returns by blast
  then show ?thesis by (simp add: searchHotels_def)
qed

lemma normalizeSegments_provider:
  "\<exists>segs. normalizeSegments (map segment_as_any ss) = Inr segs"
proof (induction ss)
  case Nil
  then show ?case by simp
next
  case (Cons s ss)
  have "\<exists>n. normalizeSegment (segment_as_any s) = Inr n"
    by (simp add: normalizeSegment_def segment_as_any_def no_segment_properties_def Let_def)
  then show ?case using Cons by auto
qed

lemma normalizeFlight_provider: "\<exists>n. normalizeFlight rt (as_any f) src = Inr n"
proof (cases f)
  case (FlightRouteRecord r)
  obtain segs where "normalizeSegments (map segment_as_any (FlightRoute.segments r)) = Inr segs"
    using normalizeSegments_provider by blast
  then show ?thesis using FlightRouteRecord
    by (simp add: normalizeFlight_def no_properties_def js_or_def js_or_default_def
        calculateTotalDuration_def Let_def)
next
  case (HotelDealRecord h)
  then show ?thesis
    by (simp add: normalizeFlight_def no_properties_def js_or_def js_or_default_def
        calculateTotalDuration_def)
next
  case (ExperienceRecord x)
  then show ?thesis
    by (simp add: normalizeFlight_def no_properties_def js_or_def js_or_default_def
        calculateTotalDuration_def)
qed

lemma normalizeTransport_experience:
  "\<exists>n. normalizeTransport rt (as_any (ExperienceRecord x)) src = Inr n"
  by (simp add: normalizeTransport_def no_properties_def Let_def)

lemma normalize_each_flights: "\<exists>ns. normalize_each normalizeFlight w k fs = Inr ns"
proof (induction fs arbitrary: k)
  case Nil
  then show ?case by simp
next
  case (Cons f fs)
  obtain n where "normalizeFlight (w k) (as_any f)
      (js_or_default truthy_string (Some (source_of f)) ''unknown'') = Inr n"
    using normalizeFlight_provider by blast
  moreover obtain ns where "normalize_each normalizeFlight w (Suc k) fs = Inr ns"
    using Cons by blast
  ultimately show ?case by simp
qed

lemma normalize_each_hotels:
  "\<exists>ns. normalize_each (\<lambda>rt raw src. Inr (normalizeHotel rt raw src)) w k hs = Inr ns"
proof (induction hs arbitrary: k)
  case Nil
  then show ?case by simp
next
  case (Cons h hs)
  obtain ns where "normalize_each (\<lambda>rt raw src. Inr (normalizeHotel rt raw src)) w (Suc k) hs = Inr ns"
    using Cons by blast
  then show ?case by simp
qed

lemma normalize_each_experiences:
  "list_all is_experience ts \<Longrightarrow> \<exists>ns. normalize_each normalizeTransport w k ts = Inr ns"
proof (induction ts arbitrary: k)
  case Nil
  then show ?case by simp
next
  case (Cons t ts)
  then obtain x where t: "t = ExperienceRecord x"
    by (cases t) (simp_all add: is_experience_def)
  obtain n where "normalizeTransport (w k) (as_any t)
      (js_or_default truthy_string (Some (source_of t)) ''unknown'') = Inr n"
    unfolding t using normalizeTransport_experience by blast
  moreover obtain ns where "normalize_each normalizeTransport w (Suc k) ts = Inr ns"
    using Cons by auto
  ultimately show ?case by simp
qed

lemma value_at_map_settled_experience:
  "list_all is_experience (case map_settled ExperienceRecord r of Fulfilled v \<Rightarrow> v | Rejected \<Rightarrow> [])"
  by (cases r) (simp_all add: map_settled_def list_all_iff is_experience_def)

lemma transport_results_are_experiences:
  "list_all is_experience (SourceResults.transport (searchAllSources p query))"
proof -
  have exp: "\<And>r. list_all is_experience
      (case map_settled ExperienceRecord r of Fulfilled v \<Rightarrow> v | Rejected \<Rightarrow> [])"
    by (rule value_at_map_settled_experience)
  show ?thesis
    using exp[of "searchExperiences p (BookingQuery.to' query) (BookingQuery.date query)"]
    by (cases "BookingQuery.type' query"; cases "BookingQuery.from' query")
       (auto simp: searchAllSources_def searches_def value_at_def Let_def nth_append)
qed

lemma normalizeAll_returns: "\<exists>n. normalizeAll w (searchAllSources p query) = Inr n"
proof -
  let ?r = "searchAllSources p query"
  obtain fs where 1: "normalize_each normalizeFlight w 0 (SourceResults.flights ?r) = Inr fs"
    using normalize_each_flights by blast
  obtain hs where 2: "normalize_each (\<lambda>rt raw src. Inr (normalizeHotel rt raw src)) w
      (length (SourceResults.flights ?r)) (SourceResults.hotels ?r) = Inr hs"
    using normalize_each_hotels by blast
  obtain ts where 3: "normalize_each normalizeTransport w
      (length (SourceResults.flights ?r) + length (SourceResults.hotels ?r))
      (SourceResults.transport ?r) = Inr ts"
    using normalize_each_experiences[OF transport_results_are_experiences] by blast
  show ?thesis by (simp add: normalizeAll_def 1 2 3)
qed

lemma mergeAll_returns: "\<exists>m. mergeAll n = Inr m"
  by (simp add: mergeAll_def mergeDuplicates_pick)

lemma findBestDeals_returns: "\<exists>deals. findBestDeals m = Inr deals"
proof -
  have r: "\<And>f xs. xs \<noteq> [] \<Longrightarrow> \<exists>b. reduce f xs = Inr b"
    by (case_tac xs) simp_all
  show ?thesis
  proof (cases "Normalized.flights m = []")
    case True
    then show ?thesis
      using r[of "Normalized.hotels m" better_value]
      by (cases "Normalized.hotels m = []") (auto simp: findBestDeals_def)
  next
    case False
    then obtain c where "reduce (cheaper flight_view) (Normalized.flights m) = Inr c"
      using r by blast
    then show ?thesis
      using False r[of "Normalized.hotels m" better_value]
      by (cases "Normalized.hotels m = []") (auto simp: findBestDeals_def)
  qed
qed

lemma aggregate_returns: "\<exists>a. aggregate pf p query = Inr a"
proof -
  obtain n where n: "normalizeAll (world pf) (searchAllSources p query) = Inr n"
    using normalizeAll_returns by blast
  obtain m where m: "mergeAll n = Inr m" using mergeAll_returns by blast
  obtain d where d: "findBestDeals m = Inr d" using findBestDeals_returns by blast
  show ?thesis by (simp add: aggregate_def Let_def n m d)
qed

lemma search_returns: "\<exists>r c. search pf p cache query = (Inr r, c)"
proof -
  obtain a where "aggregate pf p query = Inr a" using aggregate_returns by blast
  then show ?thesis by (auto simp: search_def split: option.splits)
qed

subsection \<open>A failing provider is a provider without records\<close>

lemma push_fulfilled_no_failure:
  "push_fulfilled acc (map no_failure rs) = push_fulfilled acc rs"
proof (induction rs arbitrary: acc)
  case Nil
  then show ?case by simp
next
  case (Cons r rs)
  then show ?case by (cases r) (simp_all add: no_failure_def)
qed

lemma multi_city_via_without_failures:
  "multi_city_via (without_failures p) origin dest day pax = multi_city_via p origin dest day pax"
  by (intro ext) (simp add: multi_city_via_def without_failures_def no_failure_def
      split: settled.splits list.splits)

lemma searchFlights_without_failures:
  "searchFlights (without_failures p) origin dest day pax flex = searchFlights p origin dest day pax flex"
proof -
  have 1: "map (\<lambda>s. s origin dest day pax) (flightSearches (without_failures p))
      = map no_failure (map (\<lambda>s. s origin dest day pax) (flightSearches p))"
    by (simp add: without_failures_def comp_def)
  have 2: "findMultiCityRoutes (without_failures p) origin dest day pax
      = findMultiCityRoutes p origin dest day pax"
    by (simp add: findMultiCityRoutes_def multi_city_via_without_failures)
  show ?thesis unfolding searchFlights_def 1 2 push_fulfilled_no_failure ..
qed

lemma searchHotels_without_failures:
  "searchHotels (without_failures p) place checkIn checkOut guests
     = searchHotels p place checkIn checkOut guests"
proof -
  have 1: "map (\<lambda>s. s place checkIn checkOut guests) (hotelSearches (without_failures p))
      = map no_failure (map (\<lambda>s. s place checkIn checkOut guests) (hotelSearches p))"
    by (simp add: without_failures_def comp_def)
  show ?thesis unfolding searchHotels_def 1 push_fulfilled_no_failure ..
qed

lemma searchExperiences_without_failures:
  "searchExperiences (without_failures p) place day = searchExperiences p place day"
proof -
  have 1: "map (\<lambda>s. s place day) (experienceSearches (without_failures p))
      = map no_failure (map (\<lambda>s. s place day) (experienceSearches p))"
    by (simp add: without_failures_def comp_def)
  show ?thesis unfolding searchExperiences_def 1 push_fulfilled_no_failure ..
qed

lemma searches_without_failures: "searches (without_failures p) query = searches p query"
  by (simp add: searches_def searchFlights_without_failures searchHotels_without_failures
      searchExperiences_without_failures split: option.splits)

lemma aggregate_without_failures: "aggregate pf (without_failures p) query = aggregate pf p query"
  by (simp add: aggregate_def searchAllSources_def searches_without_failures)

lemma push_fulfilled_concat:
  "push_fulfilled acc rs
     = acc @ concat (map (\<lambda>r. case r of Fulfilled v \<Rightarrow> v | Rejected \<Rightarrow> []) rs)"
  by (induction acc rs rule: push_fulfilled.induct) simp_all

lemma searchFlights_sorted_fulfilled:
  "searchFlights p origin dest day pax False =
     Fulfilled (sort_key FlightRoute.totalPrice
       (concat (map (\<lambda>s. case s origin dest day pax of Fulfilled v \<Rightarrow> v | Rejected \<Rightarrow> [])
                  (flightSearches p))))"
  by (simp add: searchFlights_def push_fulfilled_concat comp_def)

text \<open>
  So no failure of a provider reaches the caller of \<open>search\<close>: whatever the providers
  do, \<open>search\<close> returns results (lemma \<open>search_returns\<close>), and they are the
  results, with the same cache, that it returns when every failing provider is replaced
  by one that returns no records.
\<close>

lemma search_without_failures:
  "search pf (without_failures p) cache query = search pf p cache query"
  unfolding search_def aggregate_without_failures ..

subsection \<open>The offers of the providers that succeed\<close>

text \<open>
  What the providers that succeed return does not all reach the results of \<open>search\<close>.
  \<open>searchFlights\<close> returns every flight of every provider that succeeded, sorted by
  price. \<open>search\<close> then normalizes them and merges them with \<open>mergeDuplicates\<close>,
  which keeps one flight.
\<close>

lemma two_flights_searchFlights:
  "searchFlights two_flights_one_failure ''ATH'' ''BKK'' ''2025-03-01'' 1 True =
     Fulfilled [ath_bkk_route ''skyscanner'' ''2025-03-02'' 480,
                ath_bkk_route ''skyscanner'' ''2025-03-01'' 500]"
  by (simp add: searchFlights_def two_flights_one_failure_def findMultiCityRoutes_def
      multi_city_via_def hubs_def ath_bkk_route_def)

lemma two_flights_sources:
  "searchAllSources two_flights_one_failure flexible_flight_query =
     \<lparr>SourceResults.flights =
        [FlightRouteRecord (ath_bkk_route ''skyscanner'' ''2025-03-02'' 480),
         FlightRouteRecord (ath_bkk_route ''skyscanner'' ''2025-03-01'' 500)],
      SourceResults.hotels = [], SourceResults.transport = [], SourceResults.experiences = []\<rparr>"
  by (simp add: searchAllSources_def searches_def flexible_flight_query_def
      js_or_default_def truthy_string_def truthy_number_def two_flights_searchFlights
      map_settled_def value_at_def)

lemma ath_bkk_route_normalized:
  "normalizeFlight rt (as_any (FlightRouteRecord (ath_bkk_route src day amt))) src
     = Inr (ath_bkk_offer rt src day)"
  by (simp add: normalizeFlight_def ath_bkk_route_def ath_bkk_offer_def no_properties_def
      segment_as_any_def no_segment_properties_def normalizeSegment_def
      js_or_def js_or_default_def truthy_string_def
      calculateTotalDuration_def normalizePrice_def extractLayovers_def extractBaggage_def
      match_here_def is_digit_def parseInt_def digits_value_def Let_def)

lemma two_flights_aggregate:
  "aggregate pf two_flights_one_failure flexible_flight_query =
     Inr \<lparr>AggregatedResults.flights = [ath_bkk_offer (world pf 0) ''skyscanner'' ''2025-03-02''],
          AggregatedResults.hotels = [],
          AggregatedResults.transport = [],
          AggregatedResults.experiences = [],
          bestDeals = [\<lparr>BestDeal.type' = ''flight'',
                         item = FlightItem (ath_bkk_offer (world pf 0) ''skyscanner'' ''2025-03-02''),
                         savings = None, reason = ''Lowest price''\<rparr>],
          sources = [''skyscanner''],
          AggregatedResults.lastUpdated = toISOString (world pf 2)\<rparr>"
proof -
  have src: "\<And>day amt. source_of (FlightRouteRecord (ath_bkk_route ''skyscanner'' day amt)) = ''skyscanner''"
    by (simp add: ath_bkk_route_def)
  have n: "normalizeAll (world pf) (searchAllSources two_flights_one_failure flexible_flight_query)
      = Inr \<lparr>Normalized.flights = [ath_bkk_offer (world pf 0) ''skyscanner'' ''2025-03-02'',
                                    ath_bkk_offer (world pf 1) ''skyscanner'' ''2025-03-01''],
             Normalized.hotels = [], Normalized.transport = [], Normalized.experiences = []\<rparr>"
    by (simp add: two_flights_sources normalizeAll_def src js_or_default_def truthy_string_def
        ath_bkk_route_normalized del: as_any.simps source_of.simps)
  have m: "\<And>rt rt'. mergeDuplicates flight_view
        [ath_bkk_offer rt ''skyscanner'' ''2025-03-02'',
         ath_bkk_offer rt' ''skyscanner'' ''2025-03-01'']
      = Inr [ath_bkk_offer rt ''skyscanner'' ''2025-03-02'']"
    by (simp add: mergeDuplicates_def group_results_def key_flight representative_def cheaper_def)
       (simp add: flight_view_def ath_bkk_offer_def)
  have e1: "mergeDuplicates hotel_view [] = Inr []"
    by (simp add: mergeDuplicates_def group_results_def)
  have e2: "mergeDuplicates transport_view [] = Inr []"
    by (simp add: mergeDuplicates_def group_results_def)
  have s: "extractSources (searchAllSources two_flights_one_failure flexible_flight_query)
      = [''skyscanner'']"
    by (simp add: two_flights_sources extractSources_def add_to_set_def src
        del: source_of.simps)
  show ?thesis
    by (simp add: aggregate_def n mergeAll_def m e1 e2 findBestDeals_def s Let_def)
       (simp add: two_flights_sources numeral_2_eq_2)
qed

text \<open>
  Claim C1 on the code. The first flight provider returns two flights from Athens to
  Bangkok, one of 1 March at 500 and one of 2 March at 480; the second flight provider
  fails, and so does \<open>searchRoute\<close> for every hub. No failure reaches the caller:
  \<open>searchFlights\<close> returns both flights, the cheaper first, and \<open>search\<close> returns
  results. But the results hold one flight only, that of 2 March, with the price 0: the
  normalizer reads the property \<open>price\<close>, which a \<open>FlightRoute\<close> does not have, and
  \<open>mergeDuplicates\<close> puts both flights into one group (the key of each is \<open>--\<close>), of
  which it keeps the first. The flight of 1 March, an offer of the provider that
  succeeded, is not in the results.
\<close>

theorem two_flights_one_returned:
  "searchFlights two_flights_one_failure ''ATH'' ''BKK'' ''2025-03-01'' 1 True =
     Fulfilled [ath_bkk_route ''skyscanner'' ''2025-03-02'' 480,
                ath_bkk_route ''skyscanner'' ''2025-03-01'' 500]
   \<and> fst (search pf two_flights_one_failure Map.empty flexible_flight_query) =
     Inr \<lparr>AggregatedResults.flights = [ath_bkk_offer (world pf 0) ''skyscanner'' ''2025-03-02''],
          AggregatedResults.hotels = [],
          AggregatedResults.transport = [],
          AggregatedResults.experiences = [],
          bestDeals = [\<lparr>BestDeal.type' = ''flight'',
                         item = FlightItem (ath_bkk_offer (world pf 0) ''skyscanner'' ''2025-03-02''),
                         savings = None, reason = ''Lowest price''\<rparr>],
          sources = [''skyscanner''],
          AggregatedResults.lastUpdated = toISOString (world pf 2)\<rparr>"
  by (simp add: two_flights_searchFlights search_def cache_get_def two_flights_aggregate)

subsection \<open>The cache\<close>

text \<open>
  Claim C3. For every query and results value \<open>v\<close>: a \<open>get\<close> at the very time of the
  \<open>put\<close> returns \<open>v\<close>; so does any \<open>get\<close> for the query less than the TTL after the
  \<open>put\<close>, and \<open>search\<close> then returns \<open>v\<close> and leaves the cache as it is, whatever the
  providers would answer. In general, when the \<open>get\<close> at the head of \<open>search\<close> finds
  \<open>v\<close>, \<open>search\<close> returns \<open>v\<close>. A \<open>get\<close> when one hour (the TTL, 60 * 60 * 1000 ms)
  or more has passed since the entry was stored is a miss. On every miss \<open>search\<close>
  computes the results anew, returns them and stores them with a \<open>put\<close>; a second
  \<open>search\<close> for the query less than the TTL later returns the results of the first and
  leaves the cache as the first left it. After a \<open>put\<close> the query's key holds the new
  results with the time of the \<open>put\<close>, whatever it held before, the other keys being
  untouched.
\<close>

theorem cache_get_put:
  "cache_get (pf\<lparr>now_at_check := now_at_store pf\<rparr>) (cache_put pf cache query v) query = Some v
   \<and> (now_at_check pf' - now_at_store pf < cacheTTL
        \<and> generateCacheKey pf' query = generateCacheKey pf query
        \<longrightarrow> cache_get pf' (cache_put pf cache query v) query = Some v
            \<and> search pf' p' (cache_put pf cache query v) query
                = (Inr v, cache_put pf cache query v))
   \<and> (cache_get pf' cache' query = Some v \<longrightarrow> search pf' p' cache' query = (Inr v, cache'))
   \<and> (cache (generateCacheKey pf query) = Some entry
        \<and> now_at_check pf - timestamp entry \<ge> 60 * 60 * 1000
        \<longrightarrow> cache_get pf cache query = None
            \<and> search pf p cache query =
                (case aggregate pf p query of
                   Inl e \<Rightarrow> (Inl e, cache)
                 | Inr aggregated \<Rightarrow> (Inr aggregated, cache_put pf cache query aggregated)))
   \<and> (cache_get pf cache query = None
        \<longrightarrow> (\<exists>r. aggregate pf p query = Inr r
                 \<and> search pf p cache query = (Inr r, cache_put pf cache query r)))
   \<and> (cache_get pf cache query = None
        \<and> now_at_check pf' - now_at_store pf < cacheTTL
        \<and> generateCacheKey pf' query = generateCacheKey pf query
        \<longrightarrow> search pf' p' (snd (search pf p cache query)) query
              = (fst (search pf p cache query), snd (search pf p cache query)))
   \<and> cache_put pf cache query v (generateCacheKey pf query)
        = Some \<lparr>data = v, timestamp = now_at_store pf\<rparr>
   \<and> (\<forall>k. k \<noteq> generateCacheKey pf query \<longrightarrow> cache_put pf cache query v k = cache k)"
proof -
  have fresh: "\<And>u. now_at_check pf' - now_at_store pf < cacheTTL
        \<and> generateCacheKey pf' query = generateCacheKey pf query
        \<Longrightarrow> cache_get pf' (cache_put pf cache query u) query = Some u"
    by (simp add: cache_get_def cache_put_def)
  have hit: "\<And>pf p c u. cache_get pf c query = Some u \<Longrightarrow> search pf p c query = (Inr u, c)"
    by (simp add: search_def)
  obtain a where a: "aggregate pf p query = Inr a" using aggregate_returns by blast
  have miss: "cache_get pf cache query = None
      \<Longrightarrow> search pf p cache query = (Inr a, cache_put pf cache query a)"
    by (simp add: search_def a)
  have 1: "cache_get (pf\<lparr>now_at_check := now_at_store pf\<rparr>) (cache_put pf cache query v) query = Some v"
    by (simp add: cache_get_def cache_put_def generateCacheKey_def cacheTTL_def)
  have 4: "cache (generateCacheKey pf query) = Some entry
        \<and> now_at_check pf - timestamp entry \<ge> 60 * 60 * 1000
        \<longrightarrow> cache_get pf cache query = None
            \<and> search pf p cache query =
                (case aggregate pf p query of
                   Inl e \<Rightarrow> (Inl e, cache)
                 | Inr aggregated \<Rightarrow> (Inr aggregated, cache_put pf cache query aggregated))"
    by (simp add: cache_get_def cacheTTL_def search_def)
  have 7: "cache_put pf cache query v (generateCacheKey pf query)
        = Some \<lparr>data = v, timestamp = now_at_store pf\<rparr>
   \<and> (\<forall>k. k \<noteq> generateCacheKey pf query \<longrightarrow> cache_put pf cache query v k = cache k)"
    by (simp add: cache_put_def)
  have 2: "now_at_check pf' - now_at_store pf < cacheTTL
        \<and> generateCacheKey pf' query = generateCacheKey pf query
        \<longrightarrow> cache_get pf' (cache_put pf cache query v) query = Some v
            \<and> search pf' p' (cache_put pf cache query v) query
                = (Inr v, cache_put pf cache query v)"
    using fresh[of v] hit by blast
  have 3: "cache_get pf' cache' query = Some v \<longrightarrow> search pf' p' cache' query = (Inr v, cache')"
    using hit by blast
  have 5: "cache_get pf cache query = None
        \<longrightarrow> (\<exists>r. aggregate pf p query = Inr r
                 \<and> search pf p cache query = (Inr r, cache_put pf cache query r))"
    using a miss by blast
  have 6: "cache_get pf cache query = None
        \<and> now_at_check pf' - now_at_store pf < cacheTTL
        \<and> generateCacheKey pf' query = generateCacheKey pf query
        \<longrightarrow> search pf' p' (snd (search pf p cache query)) query
              = (fst (search pf p cache query), snd (search pf p cache query))"
  proof (intro impI)
    assume h: "cache_get pf cache query = None
        \<and> now_at_check pf' - now_at_store pf < cacheTTL
        \<and> generateCacheKey pf' query = generateCacheKey pf query"
    then have s: "search pf p cache query = (Inr a, cache_put pf cache query a)" using miss by blast
    have "cache_get pf' (cache_put pf cache query a) query = Some a" using fresh[of a] h by blast
    then have "search pf' p' (cache_put pf cache query a) query = (Inr a, cache_put pf cache query a)"
      by (rule hit)
    then show "search pf' p' (snd (search pf p cache query)) query
              = (fst (search pf p cache query), snd (search pf p cache query))"
      by (simp add: s)
  qed
  show ?thesis using 1 2 3 4 5 6 7 by blast
qed

text \<open>
  The theorem at a cache that holds results for the hotel query, stored an hour before
  midnight. A \<open>search\<close> at midnight misses; after a \<open>put\<close> at midnight, a \<open>get\<close> a
  second later returns what was put, and so does a \<open>search\<close>, although its hotel
  provider would return a hotel; a \<open>search\<close> a second after a \<open>search\<close> at midnight
  returns the results of that search; and the \<open>put\<close> leaves another key as it was. This
  holds for every serializer and every run time.
\<close>

theorem cache_get_put_witness:
  "\<forall>s w.
     now_at_check (platform_at s w 1735689601000) - now_at_store (platform_at s w 1735689600000)
       < cacheTTL
     \<and> generateCacheKey (platform_at s w 1735689601000) hotel_query
         = generateCacheKey (platform_at s w 1735689600000) hotel_query
     \<and> cache_get (platform_at s w 1735689601000)
          (cache_put (platform_at s w 1735689600000) (hour_old_cache s) hotel_query no_results)
          hotel_query = Some no_results
     \<and> search (platform_at s w 1735689601000) one_hotel_provider
          (cache_put (platform_at s w 1735689600000) (hour_old_cache s) hotel_query no_results)
          hotel_query
        = (Inr no_results,
           cache_put (platform_at s w 1735689600000) (hour_old_cache s) hotel_query no_results)
     \<and> hour_old_cache s (generateCacheKey (platform_at s w 1735689600000) hotel_query)
         = Some \<lparr>data = no_results, timestamp = 1735686000000\<rparr>
     \<and> now_at_check (platform_at s w 1735689600000)
           - timestamp \<lparr>data = no_results, timestamp = 1735686000000\<rparr> \<ge> 60 * 60 * 1000
     \<and> cache_get (platform_at s w 1735689600000) (hour_old_cache s) hotel_query = None
     \<and> search (platform_at s w 1735689601000) one_hotel_provider
          (snd (search (platform_at s w 1735689600000) repository_providers (hour_old_cache s) hotel_query))
          hotel_query
        = (fst (search (platform_at s w 1735689600000) repository_providers (hour_old_cache s) hotel_query),
           snd (search (platform_at s w 1735689600000) repository_providers (hour_old_cache s) hotel_query))
     \<and> CHR ''x'' # generateCacheKey (platform_at s w 1735689600000) hotel_query
         \<noteq> generateCacheKey (platform_at s w 1735689600000) hotel_query
     \<and> cache_put (platform_at s w 1735689600000) (hour_old_cache s) hotel_query no_results
          (CHR ''x'' # generateCacheKey (platform_at s w 1735689600000) hotel_query)
        = hour_old_cache s (CHR ''x'' # generateCacheKey (platform_at s w 1735689600000) hotel_query)"
proof (intro allI)
  fix s w
  let ?midnight = "platform_at s w 1735689600000"
  let ?later = "platform_at s w 1735689601000"
  let ?entry = "\<lparr>data = no_results, timestamp = 1735686000000\<rparr>"
  let ?stored = "cache_put ?midnight (hour_old_cache s) hotel_query no_results"
  have h1: "now_at_check ?later - now_at_store ?midnight < cacheTTL
      \<and> generateCacheKey ?later hotel_query = generateCacheKey ?midnight hotel_query"
    by (simp add: platform_at_def cacheTTL_def generateCacheKey_def)
  have h2: "hour_old_cache s (generateCacheKey ?midnight hotel_query) = Some ?entry
      \<and> now_at_check ?midnight - timestamp ?entry \<ge> 60 * 60 * 1000"
    by (simp add: platform_at_def hour_old_cache_def generateCacheKey_def)
  have h3: "CHR ''x'' # generateCacheKey ?midnight hotel_query \<noteq> generateCacheKey ?midnight hotel_query"
    by simp
  note t = cache_get_put[where pf = ?midnight and cache = "hour_old_cache s" and query = hotel_query
        and v = no_results and pf' = ?later and entry = ?entry and p = repository_providers
        and p' = one_hotel_provider and cache' = ?stored]
  show "now_at_check ?later - now_at_store ?midnight < cacheTTL
     \<and> generateCacheKey ?later hotel_query = generateCacheKey ?midnight hotel_query
     \<and> cache_get ?later ?stored hotel_query = Some no_results
     \<and> search ?later one_hotel_provider ?stored hotel_query = (Inr no_results, ?stored)
     \<and> hour_old_cache s (generateCacheKey ?midnight hotel_query) = Some ?entry
     \<and> now_at_check ?midnight - timestamp ?entry \<ge> 60 * 60 * 1000
     \<and> cache_get ?midnight (hour_old_cache s) hotel_query = None
     \<and> search ?later one_hotel_provider
          (snd (search ?midnight repository_providers (hour_old_cache s) hotel_query)) hotel_query
        = (fst (search ?midnight repository_providers (hour_old_cache s) hotel_query),
           snd (search ?midnight repository_providers (hour_old_cache s) hotel_query))
     \<and> CHR ''x'' # generateCacheKey ?midnight hotel_query \<noteq> generateCacheKey ?midnight hotel_query
     \<and> ?stored (CHR ''x'' # generateCacheKey ?midnight hotel_query)
        = hour_old_cache s (CHR ''x'' # generateCacheKey ?midnight hotel_query)"
    using h1 h2 h3 t by blast
qed

subsection \<open>No validation of the query\<close>

lemma flight_without_origin_searches:
  "BookingQuery.type' query = Type_flight \<Longrightarrow>
   (BookingQuery.from' query = None \<or> BookingQuery.from' query = Some []) \<Longrightarrow>
   searches p query = []"
  by (auto simp: searches_def truthy_string_def)

lemma aggregate_nothing_searched:
  "searches p query = [] \<Longrightarrow>
   aggregate pf p query =
     Inr \<lparr>AggregatedResults.flights = [], AggregatedResults.hotels = [],
          AggregatedResults.transport = [], AggregatedResults.experiences = [],
          bestDeals = [], sources = [], AggregatedResults.lastUpdated = toISOString (world pf 0)\<rparr>"
  by (simp add: aggregate_def searchAllSources_def value_at_def normalizeAll_def mergeAll_def
      mergeDuplicates_def group_results_def findBestDeals_def extractSources_def)

text \<open>
  Claim C8, as amended. \<open>search\<close> does not validate the query and raises no
  ValidationError: for every query, also one with an empty destination or of type flight
  without an origin, it returns results. For a query of type flight whose origin is
  missing or empty, no provider is asked, and when the cache has no fresh entry the
  results hold no offers, no deals and no sources.
\<close>

theorem search_does_not_validate:
  "(\<exists>r c. search pf p cache query = (Inr r, c))
   \<and> (BookingQuery.type' query = Type_flight
        \<and> (BookingQuery.from' query = None \<or> BookingQuery.from' query = Some [])
        \<and> cache_get pf cache query = None
        \<longrightarrow> fst (search pf p cache query) =
             Inr \<lparr>AggregatedResults.flights = [], AggregatedResults.hotels = [],
                  AggregatedResults.transport = [], AggregatedResults.experiences = [],
                  bestDeals = [], sources = [],
                  AggregatedResults.lastUpdated = toISOString (world pf 0)\<rparr>)"
  using search_returns[of pf p cache query]
  by (auto simp: search_def aggregate_nothing_searched flight_without_origin_searches)

text \<open>
  The theorem at the query for flights that has neither origin nor destination.
\<close>

theorem search_does_not_validate_witness:
  "\<forall>s w.
     BookingQuery.type' malformed_query = Type_flight
     \<and> (BookingQuery.from' malformed_query = None \<or> BookingQuery.from' malformed_query = Some [])
     \<and> cache_get (platform_at s w 1735689600000) Map.empty malformed_query = None
     \<and> fst (search (platform_at s w 1735689600000) one_hotel_provider Map.empty malformed_query) =
          Inr \<lparr>AggregatedResults.flights = [], AggregatedResults.hotels = [],
               AggregatedResults.transport = [], AggregatedResults.experiences = [],
               bestDeals = [], sources = [],
               AggregatedResults.lastUpdated = toISOString (world (platform_at s w 1735689600000) 0)\<rparr>"
proof (intro allI)
  fix s w
  let ?pf = "platform_at s w 1735689600000"
  have h: "BookingQuery.type' malformed_query = Type_flight
      \<and> (BookingQuery.from' malformed_query = None \<or> BookingQuery.from' malformed_query = Some [])
      \<and> cache_get ?pf Map.empty malformed_query = None"
    by (simp add: malformed_query_def cache_get_def)
  show "BookingQuery.type' malformed_query = Type_flight
     \<and> (BookingQuery.from' malformed_query = None \<or> BookingQuery.from' malformed_query = Some [])
     \<and> cache_get ?pf Map.empty malformed_query = None
     \<and> fst (search ?pf one_hotel_provider Map.empty malformed_query) =
          Inr \<lparr>AggregatedResults.flights = [], AggregatedResults.hotels = [],
               AggregatedResults.transport = [], AggregatedResults.experiences = [],
               bestDeals = [], sources = [],
               AggregatedResults.lastUpdated = toISOString (world ?pf 0)\<rparr>"
    using h search_does_not_validate[where pf = ?pf and p = one_hotel_provider
        and cache = Map.empty and query = malformed_query]
    by blast
qed

text \<open>
  Claim C8, as stated, fails: on every platform, with the providers of the repository
  and an empty cache, the search for flights without origin and with the empty
  destination returns results (without offers) and stores them; it raises nothing.
\<close>

theorem malformed_query_counterexample:
  "\<forall>pf. search pf repository_providers Map.empty malformed_query =
     (Inr \<lparr>AggregatedResults.flights = [], AggregatedResults.hotels = [],
           AggregatedResults.transport = [], AggregatedResults.experiences = [],
           bestDeals = [], sources = [],
           AggregatedResults.lastUpdated = toISOString (world pf 0)\<rparr>,
      cache_put pf Map.empty malformed_query
        \<lparr>AggregatedResults.flights = [], AggregatedResults.hotels = [],
         AggregatedResults.transport = [], AggregatedResults.experiences = [],
         bestDeals = [], sources = [],
         AggregatedResults.lastUpdated = toISOString (world pf 0)\<rparr>)"
proof
  fix pf
  have "searches repository_providers malformed_query = []"
    by (simp add: searches_def malformed_query_def)
  then show "search pf repository_providers Map.empty malformed_query =
     (Inr \<lparr>AggregatedResults.flights = [], AggregatedResults.hotels = [],
           AggregatedResults.transport = [], AggregatedResults.experiences = [],
           bestDeals = [], sources = [],
           AggregatedResults.lastUpdated = toISOString (world pf 0)\<rparr>,
      cache_put pf Map.empty malformed_query
        \<lparr>AggregatedResults.flights = [], AggregatedResults.hotels = [],
         AggregatedResults.transport = [], AggregatedResults.experiences = [],
         bestDeals = [], sources = [],
         AggregatedResults.lastUpdated = toISOString (world pf 0)\<rparr>)"
    by (simp add: search_def cache_get_def aggregate_nothing_searched)
qed

subsection \<open>The fields of the results\<close>

lemma hotel_query_sources:
  "searchAllSources one_hotel_provider hotel_query =
     \<lparr>SourceResults.flights =
        [HotelDealRecord ((grand_palace ''agoda'' 150)\<lparr>HotelDeal.firstTimeDeal := Some False\<rparr>)],
      SourceResults.hotels = [], SourceResults.transport = [], SourceResults.experiences = []\<rparr>"
  by (simp add: searchAllSources_def searches_def hotel_query_def one_hotel_provider_def
      searchHotels_def identifyBestDeals_def group_deals_def best_of_hotel_def is_first_time_def
      grand_palace_def map_settled_def value_at_def Let_def)

lemma hotel_query_aggregate:
  "aggregate pf one_hotel_provider hotel_query =
     Inr \<lparr>AggregatedResults.flights = [grand_palace_flight (world pf 0)],
          AggregatedResults.hotels = [],
          AggregatedResults.transport = [],
          AggregatedResults.experiences = [],
          bestDeals = [\<lparr>BestDeal.type' = ''flight'', item = FlightItem (grand_palace_flight (world pf 0)),
                         savings = None, reason = ''Lowest price''\<rparr>],
          sources = [''agoda''],
          AggregatedResults.lastUpdated = toISOString (world pf 1)\<rparr>"
  by (simp add: aggregate_def hotel_query_sources normalizeAll_def normalizeFlight_def
      no_properties_def grand_palace_def js_or_def js_or_default_def truthy_string_def
      calculateTotalDuration_def normalizePrice_def extractLayovers_def extractBaggage_def
      mergeAll_def mergeDuplicates_def group_results_def representative_def
      findBestDeals_def extractSources_def add_to_set_def grand_palace_flight_def)

text \<open>
  Claim C2 on the code. A query of type hotel, with one hotel provider that returns the
  Grand Palace Hotel: the hotel search is the only search pushed, so its results stand
  at position 0 of \<open>results\<close> and are read as \<open>flights\<close>, while \<open>hotels\<close> (position 1)
  is empty. \<open>search\<close> then returns the hotel normalized as a flight, names it the
  flight of the lowest price, and returns no hotel.
\<close>

theorem hotel_query_fills_flights:
  "searchAllSources one_hotel_provider hotel_query =
     \<lparr>SourceResults.flights =
        [HotelDealRecord ((grand_palace ''agoda'' 150)\<lparr>HotelDeal.firstTimeDeal := Some False\<rparr>)],
      SourceResults.hotels = [], SourceResults.transport = [], SourceResults.experiences = []\<rparr>
   \<and> fst (search pf one_hotel_provider Map.empty hotel_query) =
     Inr \<lparr>AggregatedResults.flights = [grand_palace_flight (world pf 0)],
          AggregatedResults.hotels = [],
          AggregatedResults.transport = [],
          AggregatedResults.experiences = [],
          bestDeals = [\<lparr>BestDeal.type' = ''flight'', item = FlightItem (grand_palace_flight (world pf 0)),
                         savings = None, reason = ''Lowest price''\<rparr>],
          sources = [''agoda''],
          AggregatedResults.lastUpdated = toISOString (world pf 1)\<rparr>"
  by (simp add: hotel_query_sources search_def cache_get_def hotel_query_aggregate)

section \<open>The clock and the random generator\<close>

text \<open>
  Claim C10, as stated, fails for the normalization: under every run time, the same raw
  record from the same source is normalized to two different flights when the clock has
  advanced by a second, and to two different flights when the random generator draws
  another number.
\<close>

theorem normalizeFlight_clock_counterexample:
  "\<forall>rt. normalizeFlight (rt\<lparr>toISOString := ''2025-01-01T00:00:00.000Z''\<rparr>) raw_flight_500 ''kiwi''
          \<noteq> normalizeFlight (rt\<lparr>toISOString := ''2025-01-01T00:00:01.000Z''\<rparr>) raw_flight_500 ''kiwi''
        \<and> normalizeFlight (rt\<lparr>random36 := ''0.4fzyo82mvyr''\<rparr>) raw_flight_500 ''kiwi''
          \<noteq> normalizeFlight (rt\<lparr>random36 := ''0.8r1kq6xw3c''\<rparr>) raw_flight_500 ''kiwi''"
  by (simp add: normalizeFlight_def raw_flight_500_def no_properties_def calculateTotalDuration_def
      js_or_default_def js_or_def truthy_string_def)

subsection \<open>What the run time changes in an offer\<close>

text \<open>
  Under another reading \<open>t\<close> of the clock and another draw \<open>r\<close>, a normalizer returns
  the same offer with two fields changed, \<open>lastUpdated\<close> and \<open>id\<close>, and it throws
  under the one exactly when it throws under the other.
\<close>

lemma normalizeFlight_restamp:
  "normalizeFlight (rt\<lparr>toISOString := t, random36 := r\<rparr>) raw src =
     map_sum (\<lambda>e. e)
       (\<lambda>f. f\<lparr>NormalizedFlight.id' := src @ ''-'' @ js_or_default truthy_string (RawRecord.id' raw) r,
              NormalizedFlight.lastUpdated := t\<rparr>)
       (normalizeFlight rt raw src)"
  by (simp add: normalizeFlight_def split: sum.splits)

lemma normalizeHotel_restamp:
  "normalizeHotel (rt\<lparr>toISOString := t, random36 := r\<rparr>) raw src =
       (normalizeHotel rt raw src)
         \<lparr>NormalizedHotel.id' := src @ ''-'' @ js_or_default truthy_string (RawRecord.id' raw) r,
          NormalizedHotel.lastUpdated := t\<rparr>"
  by (simp add: normalizeHotel_def extractSpecialOffers_def split: option.splits)

lemma normalizeTransport_restamp:
  "normalizeTransport (rt\<lparr>toISOString := t, random36 := r\<rparr>) raw src =
     map_sum (\<lambda>e. e)
       (\<lambda>f. f\<lparr>NormalizedTransport.id' := src @ ''-'' @ js_or_default truthy_string (RawRecord.id' raw) r,
              NormalizedTransport.lastUpdated := t\<rparr>)
       (normalizeTransport rt raw src)"
  by (simp add: normalizeTransport_def split: sum.splits)

lemma normalizeFlight_unstamped:
  "map_sum (\<lambda>e. e) unstamped_flight (normalizeFlight (rt\<lparr>toISOString := t, random36 := r\<rparr>) raw src)
     = map_sum (\<lambda>e. e) unstamped_flight (normalizeFlight rt raw src)"
  unfolding normalizeFlight_restamp
  by (cases "normalizeFlight rt raw src") (simp_all add: unstamped_flight_def)

lemma normalizeHotel_unstamped:
  "unstamped_hotel (normalizeHotel (rt\<lparr>toISOString := t, random36 := r\<rparr>) raw src)
     = unstamped_hotel (normalizeHotel rt raw src)"
  unfolding normalizeHotel_restamp by (simp add: unstamped_hotel_def)

lemma normalizeTransport_unstamped:
  "map_sum (\<lambda>e. e) unstamped_transport
       (normalizeTransport (rt\<lparr>toISOString := t, random36 := r\<rparr>) raw src)
     = map_sum (\<lambda>e. e) unstamped_transport (normalizeTransport rt raw src)"
  unfolding normalizeTransport_restamp
  by (cases "normalizeTransport rt raw src") (simp_all add: unstamped_transport_def)

lemma normalize_each_rerun:
  assumes "\<And>rt t r raw src.
      map_sum (\<lambda>e. e) u (normalizer (rt\<lparr>toISOString := t, random36 := r\<rparr>) raw src)
        = map_sum (\<lambda>e. e) u (normalizer rt raw src)"
  shows "map_sum (\<lambda>e. e) (map u) (normalize_each normalizer (rerun w t r) k xs)
       = map_sum (\<lambda>e. e) (map u) (normalize_each normalizer w k xs)"
proof (induction xs arbitrary: k)
  case Nil
  then show ?case by simp
next
  case (Cons x xs)
  let ?src = "js_or_default truthy_string (Some (source_of x)) ''unknown''"
  have h: "map_sum (\<lambda>e. e) u (normalizer (rerun w t r k) (as_any x) ?src)
      = map_sum (\<lambda>e. e) u (normalizer (w k) (as_any x) ?src)"
    unfolding rerun_def by (rule assms)
  have ih: "map_sum (\<lambda>e. e) (map u) (normalize_each normalizer (rerun w t r) (Suc k) xs)
       = map_sum (\<lambda>e. e) (map u) (normalize_each normalizer w (Suc k) xs)"
    by (rule Cons.IH)
  show ?case
    using h ih
    by (cases "normalizer (rerun w t r k) (as_any x) ?src";
        cases "normalizer (w k) (as_any x) ?src";
        cases "normalize_each normalizer (rerun w t r) (Suc k) xs";
        cases "normalize_each normalizer w (Suc k) xs")
       simp_all
qed

lemma normalizeAll_rerun:
  "map_sum (\<lambda>e. e) unstamped (normalizeAll (rerun w t r) results)
     = map_sum (\<lambda>e. e) unstamped (normalizeAll w results)"
proof -
  let ?fs = "SourceResults.flights results"
  let ?hs = "SourceResults.hotels results"
  let ?ts = "SourceResults.transport results"
  let ?nh = "\<lambda>rt raw src. Inr (normalizeHotel rt raw src) :: error + NormalizedHotel"
  have f: "map_sum (\<lambda>e. e) (map unstamped_flight) (normalize_each normalizeFlight (rerun w t r) 0 ?fs)
       = map_sum (\<lambda>e. e) (map unstamped_flight) (normalize_each normalizeFlight w 0 ?fs)"
    by (rule normalize_each_rerun) (rule normalizeFlight_unstamped)
  have h: "map_sum (\<lambda>e. e) (map unstamped_hotel) (normalize_each ?nh (rerun w t r) (length ?fs) ?hs)
       = map_sum (\<lambda>e. e) (map unstamped_hotel) (normalize_each ?nh w (length ?fs) ?hs)"
    by (rule normalize_each_rerun) (simp add: normalizeHotel_unstamped)
  have tr: "map_sum (\<lambda>e. e) (map unstamped_transport)
         (normalize_each normalizeTransport (rerun w t r) (length ?fs + length ?hs) ?ts)
       = map_sum (\<lambda>e. e) (map unstamped_transport)
         (normalize_each normalizeTransport w (length ?fs + length ?hs) ?ts)"
    by (rule normalize_each_rerun) (rule normalizeTransport_unstamped)
  show ?thesis
    using f h tr unfolding normalizeAll_def
    by (cases "normalize_each normalizeFlight (rerun w t r) 0 ?fs";
        cases "normalize_each normalizeFlight w 0 ?fs";
        cases "normalize_each ?nh (rerun w t r) (length ?fs) ?hs";
        cases "normalize_each ?nh w (length ?fs) ?hs";
        cases "normalize_each normalizeTransport (rerun w t r) (length ?fs + length ?hs) ?ts";
        cases "normalize_each normalizeTransport w (length ?fs + length ?hs) ?ts")
       (simp_all add: unstamped_def)
qed

lemma add_result_map:
  "add_result key (g r) (map (\<lambda>(k, grp). (k, map g grp)) grouped)
     = map (\<lambda>(k, grp). (k, map g grp)) (add_result key r grouped)"
  by (induction grouped) auto

lemma foldl_add_result_map:
  assumes "\<And>x. kf (g x) = kf x"
  shows "foldl (\<lambda>grouped result. add_result (kf result) result grouped)
           (map (\<lambda>(k, grp). (k, map g grp)) acc) (map g xs)
       = map (\<lambda>(k, grp). (k, map g grp))
           (foldl (\<lambda>grouped result. add_result (kf result) result grouped) acc xs)"
proof (induction xs arbitrary: acc)
  case Nil
  then show ?case by simp
next
  case (Cons x xs)
  show ?case using Cons.IH[of "add_result (kf x) x acc"] by (simp add: assms add_result_map)
qed

lemma group_results_map:
  assumes "\<And>x. generateMergeKey v (g x) = generateMergeKey v x"
  shows "group_results v (map g xs) = map (\<lambda>(k, grp). (k, map g grp)) (group_results v xs)"
  unfolding group_results_def
  using foldl_add_result_map[of "generateMergeKey v" g "[]" xs, OF assms] by simp

lemma foldl_commute:
  assumes "\<And>a b. f (g a) (g b) = g (f a b)"
  shows "foldl f (g x) (map g xs) = g (foldl f x xs)"
  by (induction xs arbitrary: x) (simp_all add: assms)

lemma pick_map:
  assumes "\<And>x. price_amount v (g x) = price_amount v x" and "grp \<noteq> []"
  shows "pick v (map g grp) = g (pick v grp)"
proof -
  obtain x xs where l: "grp = x # xs" using assms(2) by (cases grp) auto
  have c: "\<And>a b. cheaper v (g a) (g b) = g (cheaper v a b)"
    by (simp add: cheaper_def assms(1))
  show ?thesis unfolding l pick_def using foldl_commute[of "cheaper v" g x xs, OF c] by simp
qed

lemma mergeDuplicates_map:
  assumes key: "\<And>x. generateMergeKey v (g x) = generateMergeKey v x"
    and price: "\<And>x. price_amount v (g x) = price_amount v x"
  shows "mergeDuplicates v (map g xs) = map_sum (\<lambda>e. e) (map g) (mergeDuplicates v xs)"
proof -
  have ne: "\<forall>grp \<in> set (map snd (group_results v xs)). grp \<noteq> []"
    using group_results_inv[of v xs] by (auto simp: well_grouped_def list_all_iff)
  have "map (pick v) (map snd (group_results v (map g xs)))
      = map (\<lambda>grp. pick v (map g grp)) (map snd (group_results v xs))"
    unfolding group_results_map[of v g xs, OF key] by (simp add: comp_def case_prod_beta)
  also have "\<dots> = map (\<lambda>grp. g (pick v grp)) (map snd (group_results v xs))"
    using ne pick_map[of v g, OF price] by (intro map_cong) auto
  finally show ?thesis by (simp add: mergeDuplicates_pick comp_def)
qed

lemma mergeDuplicates_unstamped_flight:
  "mergeDuplicates flight_view (map unstamped_flight fs)
     = map_sum (\<lambda>e. e) (map unstamped_flight) (mergeDuplicates flight_view fs)"
  by (rule mergeDuplicates_map) (simp_all add: key_flight, simp add: flight_view_def unstamped_flight_def)

lemma mergeDuplicates_unstamped_hotel:
  "mergeDuplicates hotel_view (map unstamped_hotel hs)
     = map_sum (\<lambda>e. e) (map unstamped_hotel) (mergeDuplicates hotel_view hs)"
  by (rule mergeDuplicates_map) (simp_all add: key_hotel, simp add: hotel_view_def unstamped_hotel_def)

lemma mergeDuplicates_unstamped_transport:
  "mergeDuplicates transport_view (map unstamped_transport ts)
     = map_sum (\<lambda>e. e) (map unstamped_transport) (mergeDuplicates transport_view ts)"
  by (rule mergeDuplicates_map)
     (simp_all add: key_transport, simp add: transport_view_def unstamped_transport_def)

lemma mergeAll_unstamped:
  "mergeAll (unstamped n) = map_sum (\<lambda>e. e) unstamped (mergeAll n)"
  unfolding mergeAll_def
  by (cases "mergeDuplicates flight_view (Normalized.flights n)";
      cases "mergeDuplicates hotel_view (Normalized.hotels n)";
      cases "mergeDuplicates transport_view (Normalized.transport n)")
     (simp_all add: unstamped_def mergeDuplicates_unstamped_flight mergeDuplicates_unstamped_hotel
        mergeDuplicates_unstamped_transport)

lemma reduce_commute:
  assumes "\<And>a b. f (g a) (g b) = g (f a b)"
  shows "reduce f (map g xs) = map_sum (\<lambda>e. e) g (reduce f xs)"
  by (cases xs) (simp_all add: foldl_commute[of f g, OF assms])

lemma find_commute:
  assumes "\<And>x. P (g x) = P x"
  shows "find P (map g xs) = map_option g (find P xs)"
  by (induction xs) (simp_all add: assms)

lemma findBestDeals_unstamped:
  "findBestDeals (unstamped m) = map_sum (\<lambda>e. e) (map unstamped_deal) (findBestDeals m)"
proof -
  have c: "\<And>a b. cheaper flight_view (unstamped_flight a) (unstamped_flight b)
      = unstamped_flight (cheaper flight_view a b)"
    by (simp add: cheaper_def flight_view_def unstamped_flight_def)
  have b: "\<And>a b. better_value (unstamped_hotel a) (unstamped_hotel b)
      = unstamped_hotel (better_value a b)"
    by (simp add: better_value_def score_def unstamped_hotel_def)
  have o: "\<And>h. has_first_time_offer (unstamped_hotel h) = has_first_time_offer h"
    by (simp add: has_first_time_offer_def unstamped_hotel_def)
  note r1 = reduce_commute[of "cheaper flight_view" unstamped_flight, OF c]
  note r2 = reduce_commute[of better_value unstamped_hotel, OF b]
  note r3 = find_commute[of has_first_time_offer unstamped_hotel, OF o]
  show ?thesis
    unfolding findBestDeals_def
    by (cases "reduce (cheaper flight_view) (Normalized.flights m)";
        cases "reduce better_value (Normalized.hotels m)";
        cases "find has_first_time_offer (Normalized.hotels m)")
       (simp_all add: unstamped_def r1 r2 r3 unstamped_deal_def)
qed

lemma aggregate_rerun:
  "map_sum (\<lambda>e. e) unstamped_results (aggregate (pf\<lparr>world := rerun (world pf) t r\<rparr>) p query)
     = map_sum (\<lambda>e. e) unstamped_results (aggregate pf p query)"
proof -
  let ?rs = "searchAllSources p query"
  obtain n where n: "normalizeAll (world pf) ?rs = Inr n" using normalizeAll_returns by blast
  obtain n' where n': "normalizeAll (rerun (world pf) t r) ?rs = Inr n'"
    using normalizeAll_returns by blast
  have un: "unstamped n' = unstamped n"
    using normalizeAll_rerun[of "world pf" t r ?rs] by (simp add: n n')
  obtain m where m: "mergeAll n = Inr m" using mergeAll_returns by blast
  obtain m' where m': "mergeAll n' = Inr m'" using mergeAll_returns by blast
  have um: "unstamped m' = unstamped m"
    using mergeAll_unstamped[of n] mergeAll_unstamped[of n'] by (simp add: un m m')
  obtain d where d: "findBestDeals m = Inr d" using findBestDeals_returns by blast
  obtain d' where d': "findBestDeals m' = Inr d'" using findBestDeals_returns by blast
  have ud: "map unstamped_deal d' = map unstamped_deal d"
    using findBestDeals_unstamped[of m] findBestDeals_unstamped[of m'] by (simp add: um d d')
  have fl: "map unstamped_flight (Normalized.flights m') = map unstamped_flight (Normalized.flights m)"
    and ho: "map unstamped_hotel (Normalized.hotels m') = map unstamped_hotel (Normalized.hotels m)"
    and tp: "map unstamped_transport (Normalized.transport m')
        = map unstamped_transport (Normalized.transport m)"
    and ex: "Normalized.experiences m' = Normalized.experiences m"
    using um by (simp_all add: unstamped_def)
  show ?thesis
    by (simp add: aggregate_def Let_def n n' m m' d d' unstamped_results_def fl ho tp ex ud)
qed

text \<open>
  Claim C10, as amended. Normalization is a function of the raw record, the source, the
  clock's reading and the random draw, and the last two reach two fields only:
  \<open>lastUpdated\<close> is the clock's reading, and \<open>id\<close> is the source, a dash, and the raw
  record's \<open>id\<close> or, when that is missing or empty, the random draw. Normalizing under
  another reading \<open>t\<close> and another draw \<open>r\<close> changes these two fields as said and
  nothing else, and it throws under the one exactly when it throws under the other.
  The merge (\<open>mergeDuplicates\<close>) and the ranking (\<open>findBestDeals\<close>) look at neither
  of the two fields: on offers without them they choose the same offers, in the same
  order. So two runs of normalization, merge and ranking on what the providers returned
  (\<open>aggregate\<close>), under any two courses of the clock and of the random generator, give
  the same offers in the same order, the same deals and the same sources, equal up to
  the \<open>id\<close> and \<open>lastUpdated\<close> of each offer and the \<open>lastUpdated\<close> of the results.
\<close>

theorem runs_differ_in_id_and_lastUpdated_only:
  "normalizeFlight (rt\<lparr>toISOString := t, random36 := r\<rparr>) raw src =
     map_sum (\<lambda>e. e)
       (\<lambda>f. f\<lparr>NormalizedFlight.id' := src @ ''-'' @ js_or_default truthy_string (RawRecord.id' raw) r,
              NormalizedFlight.lastUpdated := t\<rparr>)
       (normalizeFlight rt raw src)
   \<and> normalizeHotel (rt\<lparr>toISOString := t, random36 := r\<rparr>) raw src =
       (normalizeHotel rt raw src)
         \<lparr>NormalizedHotel.id' := src @ ''-'' @ js_or_default truthy_string (RawRecord.id' raw) r,
          NormalizedHotel.lastUpdated := t\<rparr>
   \<and> normalizeTransport (rt\<lparr>toISOString := t, random36 := r\<rparr>) raw src =
     map_sum (\<lambda>e. e)
       (\<lambda>f. f\<lparr>NormalizedTransport.id' := src @ ''-'' @ js_or_default truthy_string (RawRecord.id' raw) r,
              NormalizedTransport.lastUpdated := t\<rparr>)
       (normalizeTransport rt raw src)
   \<and> mergeDuplicates flight_view (map unstamped_flight fs)
       = map_sum (\<lambda>e. e) (map unstamped_flight) (mergeDuplicates flight_view fs)
   \<and> mergeDuplicates hotel_view (map unstamped_hotel hs)
       = map_sum (\<lambda>e. e) (map unstamped_hotel) (mergeDuplicates hotel_view hs)
   \<and> mergeDuplicates transport_view (map unstamped_transport ts)
       = map_sum (\<lambda>e. e) (map unstamped_transport) (mergeDuplicates transport_view ts)
   \<and> findBestDeals (unstamped m) = map_sum (\<lambda>e. e) (map unstamped_deal) (findBestDeals m)
   \<and> map_sum (\<lambda>e. e) unstamped_results
         (aggregate (pf\<lparr>world := rerun (world pf) clock draw\<rparr>) p query)
       = map_sum (\<lambda>e. e) unstamped_results (aggregate pf p query)"
  by (intro conjI normalizeFlight_restamp normalizeHotel_restamp normalizeTransport_restamp
      mergeDuplicates_unstamped_flight mergeDuplicates_unstamped_hotel
      mergeDuplicates_unstamped_transport findBestDeals_unstamped aggregate_rerun)

end
